theory Spec2Isabelle
  imports Complex_Main
begin

section \<open>Python values\<close>

text \<open>
  The payloads handled by the validator and the transformer are the values that
  \<^verbatim>\<open>response.json()\<close> produces: \<^verbatim>\<open>None\<close>, booleans, integers, floats, strings,
  lists and dictionaries with string keys.

  A Python float is kept as an exact rational, or one of the three special values.
  Finite arithmetic is therefore exact here where the machine rounds; the thresholds the
  code compares against are integers and short decimals, and rounding is monotone, so
  the comparisons of the code are the comparisons of the model.
\<close>

datatype pyfloat = Fin rat | PInf | NInf | NaN

datatype json =
    JNull
  | JBool bool
  | JInt int
  | JFloat pyfloat
  | JStr string
  | JList "json list"
  | JObj "(string \<times> json) list"

text \<open>
  A dictionary is an association list in insertion order. Python dictionaries have
  unique keys; \<open>wf_json\<close> says so.
\<close>

fun wf_json :: "json \<Rightarrow> bool" where
  "wf_json (JList xs) = list_all wf_json xs"
| "wf_json (JObj kvs) = (distinct (map fst kvs) \<and> list_all (\<lambda>kv. wf_json (snd kv)) kvs)"
| "wf_json _ = True"

text \<open>The exceptions that the modelled code can meet.\<close>

datatype exn = TypeError | ValueError | AttributeError | OverflowError | KeyError

definition ebind :: "'e + 'a \<Rightarrow> ('a \<Rightarrow> 'e + 'b) \<Rightarrow> 'e + 'b" where
  "ebind m f = (case m of Inl e \<Rightarrow> Inl e | Inr x \<Rightarrow> f x)"

subsection \<open>Floats\<close>

fun flt :: "pyfloat \<Rightarrow> pyfloat \<Rightarrow> bool" where
  "flt NaN _ = False"
| "flt _ NaN = False"
| "flt (Fin a) (Fin b) = (a < b)"
| "flt (Fin a) PInf = True"
| "flt (Fin a) NInf = False"
| "flt PInf _ = False"
| "flt NInf NInf = False"
| "flt NInf _ = True"

definition fgt :: "pyfloat \<Rightarrow> pyfloat \<Rightarrow> bool" where
  "fgt a b = flt b a"

fun fle :: "pyfloat \<Rightarrow> pyfloat \<Rightarrow> bool" where
  "fle NaN _ = False"
| "fle _ NaN = False"
| "fle a b = (a = b \<or> flt a b)"

definition fint :: "int \<Rightarrow> pyfloat" where
  "fint n = Fin (of_int n)"

fun fneg :: "pyfloat \<Rightarrow> pyfloat" where
  "fneg (Fin a) = Fin (- a)"
| "fneg PInf = NInf"
| "fneg NInf = PInf"
| "fneg NaN = NaN"

fun fabs :: "pyfloat \<Rightarrow> pyfloat" where
  "fabs (Fin a) = Fin \<bar>a\<bar>"
| "fabs PInf = PInf"
| "fabs NInf = PInf"
| "fabs NaN = NaN"

fun fsub :: "pyfloat \<Rightarrow> pyfloat \<Rightarrow> pyfloat" where
  "fsub NaN _ = NaN"
| "fsub _ NaN = NaN"
| "fsub (Fin a) (Fin b) = Fin (a - b)"
| "fsub (Fin a) PInf = NInf"
| "fsub (Fin a) NInf = PInf"
| "fsub PInf PInf = NaN"
| "fsub PInf _ = PInf"
| "fsub NInf NInf = NaN"
| "fsub NInf _ = NInf"

definition fsign :: "pyfloat \<Rightarrow> int" where
  "fsign a = (case a of Fin r \<Rightarrow> (if r < 0 then -1 else if r = 0 then 0 else 1)
                      | PInf \<Rightarrow> 1 | NInf \<Rightarrow> -1 | NaN \<Rightarrow> 0)"

definition fmul :: "pyfloat \<Rightarrow> pyfloat \<Rightarrow> pyfloat" where
  "fmul a b =
     (case (a, b) of
        (NaN, _) \<Rightarrow> NaN
      | (_, NaN) \<Rightarrow> NaN
      | (Fin x, Fin y) \<Rightarrow> Fin (x * y)
      | _ \<Rightarrow> (if fsign a * fsign b = 0 then NaN
              else if fsign a * fsign b > 0 then PInf else NInf))"

text \<open>
  True division. Python raises \<^verbatim>\<open>ZeroDivisionError\<close> on a zero divisor; every
  division of the modelled code is guarded by a test that the divisor is positive, so the
  model takes the divisor to be nonzero and gives \<open>NaN\<close> otherwise.
\<close>

definition fdiv :: "pyfloat \<Rightarrow> pyfloat \<Rightarrow> pyfloat" where
  "fdiv a b =
     (case (a, b) of
        (NaN, _) \<Rightarrow> NaN
      | (_, NaN) \<Rightarrow> NaN
      | (Fin x, Fin y) \<Rightarrow> (if y = 0 then NaN else Fin (x / y))
      | (Fin x, _) \<Rightarrow> Fin 0
      | (_, Fin y) \<Rightarrow> (if y = 0 then NaN
                       else if fsign a * fsign b > 0 then PInf else NInf)
      | _ \<Rightarrow> NaN)"

text \<open>
  A value too large for a double: an integer of this size makes \<^verbatim>\<open>float(n)\<close> raise
  \<^verbatim>\<open>OverflowError\<close>, a decimal string of this size reads as an infinity, and a
  decimal string below the smallest subnormal reads as zero. The bounds are
  \<open>2 ^ 1024 - 2 ^ 970\<close> and \<open>1 / 2 ^ 1075\<close>, written out.
\<close>

definition float_overflow :: rat where
  "float_overflow =
     179769313486231580793728971405303415079934132710037826936173778980444968292764750946649017977587207096330286416692887910946555547851940402630657488671505820681908902000708383676273854845817711531764475730270069855571366959622842914819860834936475292719074168444365510704342711559699508093042880177904174497792"

definition float_underflow :: rat where
  "float_underflow =
     1 / 404804506614621236704990693437834614099113299528284236713802716054860679135990693783920767402874248990374155728633623822779617474771586953734026799881477019843034848553132722728933815484186432682479535356945490137124014966849385397236206711298319112681620113024717539104666829230461005064372655017292012526615415482186989568"

subsection \<open>Strings\<close>

text \<open>Characters are bytes; the model covers ASCII text.\<close>

definition is_digit :: "char \<Rightarrow> bool" where
  "is_digit c = (c \<in> set ''0123456789'')"

definition digit_val :: "char \<Rightarrow> int" where
  "digit_val c =
     (case map_of (zip ''0123456789'' [0, 1, 2, 3, 4, 5, 6, 7, 8, 9]) c of
        Some d \<Rightarrow> d
      | None \<Rightarrow> 0)"

definition is_space :: "char \<Rightarrow> bool" where
  "is_space c =
     (c \<in> set [CHR 0x09, CHR 0x0A, CHR 0x0B, CHR 0x0C, CHR 0x0D,
                CHR 0x1C, CHR 0x1D, CHR 0x1E, CHR 0x1F, CHR 0x20])"

definition lower_char :: "char \<Rightarrow> char" where
  "lower_char c =
     (case map_of (zip ''ABCDEFGHIJKLMNOPQRSTUVWXYZ'' ''abcdefghijklmnopqrstuvwxyz'') c of
        Some l \<Rightarrow> l
      | None \<Rightarrow> c)"

definition lower :: "string \<Rightarrow> string" where
  "lower s = map lower_char s"

fun starts_with :: "string \<Rightarrow> string \<Rightarrow> bool" where
  "starts_with s [] = True"
| "starts_with [] (p # ps) = False"
| "starts_with (c # cs) (p # ps) = (c = p \<and> starts_with cs ps)"

fun contains :: "string \<Rightarrow> string \<Rightarrow> bool" where
  "contains [] p = (p = [])"
| "contains (c # cs) p = (starts_with (c # cs) p \<or> contains cs p)"

definition strip :: "string \<Rightarrow> string" where
  "strip s = rev (dropWhile is_space (rev (dropWhile is_space s)))"

definition int_of_digits :: "int list \<Rightarrow> int" where
  "int_of_digits ds = foldl (\<lambda>a d. 10 * a + d) 0 ds"

subsection \<open>\<^verbatim>\<open>float(str)\<close>\<close>

text \<open>
  The grammar of \<^verbatim>\<open>float\<close> on a string: surrounding whitespace, an optional sign, then
  \<^verbatim>\<open>inf\<close>, \<^verbatim>\<open>infinity\<close> or \<^verbatim>\<open>nan\<close> in any case, or a decimal number with an
  optional fraction and exponent, where single underscores may separate digits.
  \<open>None\<close> stands for \<^verbatim>\<open>ValueError\<close>.
\<close>

fun more_digits :: "int list \<Rightarrow> string \<Rightarrow> int list \<times> string" where
  "more_digits acc [] = (acc, [])"
| "more_digits acc [c] = (if is_digit c then (acc @ [digit_val c], []) else (acc, [c]))"
| "more_digits acc (c # d # cs) =
     (if is_digit c then more_digits (acc @ [digit_val c]) (d # cs)
      else if c = CHR ''_'' \<and> is_digit d then more_digits (acc @ [digit_val d]) cs
      else (acc, c # d # cs))"

definition digitpart :: "string \<Rightarrow> (int list \<times> string) option" where
  "digitpart s =
     (case s of
        [] \<Rightarrow> None
      | c # cs \<Rightarrow> if is_digit c then Some (more_digits [digit_val c] cs) else None)"

definition split_sign :: "string \<Rightarrow> bool \<times> string" where
  "split_sign s =
     (case s of
        c # cs \<Rightarrow> if c = CHR ''-'' then (True, cs) else if c = CHR ''+'' then (False, cs) else (False, s)
      | [] \<Rightarrow> (False, s))"

definition number_part :: "string \<Rightarrow> (int list \<times> int list \<times> string) option" where
  "number_part s =
     (case digitpart s of
        Some (ip, r1) \<Rightarrow>
          (case r1 of
             c # r2 \<Rightarrow>
               if c = CHR ''.'' then
                 (case digitpart r2 of Some (fp, r3) \<Rightarrow> Some (ip, fp, r3) | None \<Rightarrow> Some (ip, [], r2))
               else Some (ip, [], r1)
           | [] \<Rightarrow> Some (ip, [], r1))
      | None \<Rightarrow>
          (case s of
             c # r2 \<Rightarrow>
               if c = CHR ''.'' then
                 (case digitpart r2 of Some (fp, r3) \<Rightarrow> Some ([], fp, r3) | None \<Rightarrow> None)
               else None
           | [] \<Rightarrow> None))"

definition exponent_part :: "string \<Rightarrow> int option" where
  "exponent_part s =
     (case s of
        [] \<Rightarrow> Some 0
      | c # cs \<Rightarrow>
          if c = CHR ''e'' \<or> c = CHR ''E'' then
            (case digitpart (snd (split_sign cs)) of
               Some (ds, []) \<Rightarrow>
                 Some (if fst (split_sign cs) then - int_of_digits ds else int_of_digits ds)
             | _ \<Rightarrow> None)
          else None)"

definition scale10 :: "rat \<Rightarrow> int \<Rightarrow> rat" where
  "scale10 m e = (if e \<ge> 0 then m * 10 ^ nat e else m / 10 ^ nat (- e))"

definition round_range :: "bool \<Rightarrow> rat \<Rightarrow> pyfloat" where
  "round_range neg m =
     (if m \<ge> float_overflow then (if neg then NInf else PInf)
      else if m \<le> float_underflow then Fin 0
      else Fin (if neg then - m else m))"

definition float_of_str :: "string \<Rightarrow> pyfloat option" where
  "float_of_str s =
     (let (neg, body) = split_sign (strip s) in
      if lower body = ''inf'' \<or> lower body = ''infinity'' then Some (if neg then NInf else PInf)
      else if lower body = ''nan'' then Some NaN
      else
        (case number_part body of
           None \<Rightarrow> None
         | Some (ip, fp, r) \<Rightarrow>
             (case exponent_part r of
                None \<Rightarrow> None
              | Some e \<Rightarrow>
                  Some (round_range neg
                          (scale10 (of_int (int_of_digits (ip @ fp))) (e - int (length fp)))))))"

subsection \<open>Operations of the language on a value\<close>

text \<open>Truth value of an object, as \<^verbatim>\<open>if not data\<close> tests it.\<close>

fun truthy :: "json \<Rightarrow> bool" where
  "truthy JNull = False"
| "truthy (JBool b) = b"
| "truthy (JInt n) = (n \<noteq> 0)"
| "truthy (JFloat f) = (f \<noteq> Fin 0)"
| "truthy (JStr s) = (s \<noteq> [])"
| "truthy (JList xs) = (xs \<noteq> [])"
| "truthy (JObj kvs) = (kvs \<noteq> [])"

text \<open>
  \<^verbatim>\<open>key in v\<close> for a string key: a key test on a dictionary, membership on a list,
  a substring test on a string, and \<^verbatim>\<open>TypeError\<close> on anything else.
\<close>

fun py_in :: "string \<Rightarrow> json \<Rightarrow> exn + bool" where
  "py_in k (JObj kvs) = Inr (k \<in> set (map fst kvs))"
| "py_in k (JList xs) = Inr (JStr k \<in> set xs)"
| "py_in k (JStr s) = Inr (contains s k)"
| "py_in k _ = Inl TypeError"

text \<open>\<^verbatim>\<open>v[key]\<close> for a string key.\<close>

fun py_getitem :: "json \<Rightarrow> string \<Rightarrow> exn + json" where
  "py_getitem (JObj kvs) k = (case map_of kvs k of Some v \<Rightarrow> Inr v | None \<Rightarrow> Inl KeyError)"
| "py_getitem _ k = Inl TypeError"

text \<open>\<^verbatim>\<open>v.get(key)\<close>: only a dictionary has the method.\<close>

fun py_get :: "json \<Rightarrow> string \<Rightarrow> exn + json" where
  "py_get (JObj kvs) k = (case map_of kvs k of Some v \<Rightarrow> Inr v | None \<Rightarrow> Inr JNull)"
| "py_get _ k = Inl AttributeError"

text \<open>\<^verbatim>\<open>float(v)\<close>. A boolean is an integer in Python.\<close>

fun py_float :: "json \<Rightarrow> exn + pyfloat" where
  "py_float JNull = Inl TypeError"
| "py_float (JBool b) = Inr (Fin (if b then 1 else 0))"
| "py_float (JInt n) = (if \<bar>of_int n\<bar> \<ge> float_overflow then Inl OverflowError else Inr (fint n))"
| "py_float (JFloat f) = Inr f"
| "py_float (JStr s) = (case float_of_str s of None \<Rightarrow> Inl ValueError | Some f \<Rightarrow> Inr f)"
| "py_float (JList xs) = Inl TypeError"
| "py_float (JObj kvs) = Inl TypeError"

text \<open>\<^verbatim>\<open>v.lower()\<close>: only a string has the method.\<close>

fun py_lower :: "json \<Rightarrow> exn + string" where
  "py_lower (JStr s) = Inr (lower s)"
| "py_lower _ = Inl AttributeError"


section \<open>Dates\<close>

text \<open>
  A naive \<^verbatim>\<open>datetime\<close> is the number of microseconds since the start of day 0 of the
  proleptic Gregorian calendar (1 January of year 1 is day 1, as \<^verbatim>\<open>toordinal\<close> has it).
  \<^verbatim>\<open>a < b\<close> is the order of the integers and \<^verbatim>\<open>(a - b).days\<close> is the floor of the
  difference in days.
\<close>

type_synonym datetime = int

definition day_us :: int where
  "day_us = 86400000000"

definition days_between :: "datetime \<Rightarrow> datetime \<Rightarrow> int" where
  "days_between a b = (a - b) div day_us"

definition is_leap :: "int \<Rightarrow> bool" where
  "is_leap y = (y mod 4 = 0 \<and> (y mod 100 \<noteq> 0 \<or> y mod 400 = 0))"

definition days_in_month :: "int \<Rightarrow> int \<Rightarrow> int" where
  "days_in_month y m =
     (if m = 2 then (if is_leap y then 29 else 28)
      else if m = 4 \<or> m = 6 \<or> m = 9 \<or> m = 11 then 30 else 31)"

definition days_before_year :: "int \<Rightarrow> int" where
  "days_before_year y = (y - 1) * 365 + (y - 1) div 4 - (y - 1) div 100 + (y - 1) div 400"

definition days_before_month :: "int \<Rightarrow> int \<Rightarrow> int" where
  "days_before_month y m = sum_list (map (days_in_month y) [1..m - 1])"

definition ymd2ord :: "int \<Rightarrow> int \<Rightarrow> int \<Rightarrow> int" where
  "ymd2ord y m d = days_before_year y + days_before_month y m + d"

text \<open>
  The constructor \<^verbatim>\<open>datetime(y, m, d, H, M, S, f)\<close>; \<open>None\<close> stands for its
  \<^verbatim>\<open>ValueError\<close> (year 0, a day the month does not have, a second above 59).
\<close>

definition mk_datetime :: "int \<Rightarrow> int \<Rightarrow> int \<Rightarrow> int \<Rightarrow> int \<Rightarrow> int \<Rightarrow> int \<Rightarrow> datetime option" where
  "mk_datetime y m d H M S f =
     (if y < 1 \<or> m < 1 \<or> 12 < m \<or> d < 1 \<or> days_in_month y m < d \<or> 23 < H \<or> 59 < M \<or> 59 < S
      then None
      else Some ((((ymd2ord y m d * 24 + H) * 60 + M) * 60 + S) * 1000000 + f))"

subsection \<open>\<^verbatim>\<open>datetime.strptime\<close>\<close>

text \<open>
  \<^verbatim>\<open>strptime\<close> turns the format into a regular expression, one group of alternatives
  for each directive, matches it at the start of the string ignoring case, and raises
  \<^verbatim>\<open>ValueError\<close> when the string does not match, when text is left over after the
  match, or when the fields do not make a date. The groups are
  \<^verbatim>\<open>%Y\<close> four digits; \<^verbatim>\<open>%m\<close> \<^verbatim>\<open>1[0-2]|0[1-9]|[1-9]\<close>;
  \<^verbatim>\<open>%d\<close> \<^verbatim>\<open>3[0-1]|[1-2]\d|0[1-9]|[1-9]| [1-9]\<close>; \<^verbatim>\<open>%H\<close> \<^verbatim>\<open>2[0-3]|[0-1]\d|\d\<close>;
  \<^verbatim>\<open>%M\<close> \<^verbatim>\<open>[0-5]\d|\d\<close>; \<^verbatim>\<open>%S\<close> \<^verbatim>\<open>6[0-1]|[0-5]\d|\d\<close>; \<^verbatim>\<open>%f\<close> one to six digits;
  whitespace in the format is \<^verbatim>\<open>\s+\<close>. Each directive lists its candidate matches in the
  order a backtracking matcher tries them.
\<close>

datatype fmt_item = FY | Fm | Fd | FH | FM | FS | Ff | FLit char | FWs

fun parse_format :: "string \<Rightarrow> fmt_item list option" where
  "parse_format [] = Some []"
| "parse_format [c] = (if c = CHR ''%'' then None else Some [if is_space c then FWs else FLit c])"
| "parse_format (c # d # cs) =
     (if c = CHR ''%'' then
        (case (if d = CHR ''Y'' then Some FY else if d = CHR ''m'' then Some Fm
               else if d = CHR ''d'' then Some Fd else if d = CHR ''H'' then Some FH
               else if d = CHR ''M'' then Some FM else if d = CHR ''S'' then Some FS
               else if d = CHR ''f'' then Some Ff else None) of
           None \<Rightarrow> None
         | Some i \<Rightarrow> map_option ((#) i) (parse_format cs))
      else map_option ((#) (if is_space c then FWs else FLit c)) (parse_format (d # cs)))"

definition two_digits :: "(int \<Rightarrow> bool) \<Rightarrow> (int \<Rightarrow> bool) \<Rightarrow> string \<Rightarrow> (int \<times> string) list" where
  "two_digits p q s =
     (case s of
        a # b # r \<Rightarrow>
          if is_digit a \<and> is_digit b \<and> p (digit_val a) \<and> q (digit_val b)
          then [(10 * digit_val a + digit_val b, r)] else []
      | _ \<Rightarrow> [])"

definition one_digit :: "(int \<Rightarrow> bool) \<Rightarrow> string \<Rightarrow> (int \<times> string) list" where
  "one_digit p s =
     (case s of
        a # r \<Rightarrow> if is_digit a \<and> p (digit_val a) then [(digit_val a, r)] else []
      | [] \<Rightarrow> [])"

fun cands :: "fmt_item \<Rightarrow> string \<Rightarrow> (int \<times> string) list" where
  "cands FY s =
     (if 4 \<le> length s \<and> list_all is_digit (take 4 s)
      then [(int_of_digits (map digit_val (take 4 s)), drop 4 s)] else [])"
| "cands Fm s =
     two_digits (\<lambda>a. a = 1) (\<lambda>b. b \<le> 2) s @ two_digits (\<lambda>a. a = 0) (\<lambda>b. 1 \<le> b) s
     @ one_digit (\<lambda>a. 1 \<le> a) s"
| "cands Fd s =
     two_digits (\<lambda>a. a = 3) (\<lambda>b. b \<le> 1) s @ two_digits (\<lambda>a. a = 1 \<or> a = 2) (\<lambda>b. True) s
     @ two_digits (\<lambda>a. a = 0) (\<lambda>b. 1 \<le> b) s @ one_digit (\<lambda>a. 1 \<le> a) s
     @ (case s of c # r \<Rightarrow> if c = CHR '' '' then one_digit (\<lambda>a. 1 \<le> a) r else [] | [] \<Rightarrow> [])"
| "cands FH s =
     two_digits (\<lambda>a. a = 2) (\<lambda>b. b \<le> 3) s @ two_digits (\<lambda>a. a \<le> 1) (\<lambda>b. True) s
     @ one_digit (\<lambda>a. True) s"
| "cands FM s = two_digits (\<lambda>a. a \<le> 5) (\<lambda>b. True) s @ one_digit (\<lambda>a. True) s"
| "cands FS s =
     two_digits (\<lambda>a. a = 6) (\<lambda>b. b \<le> 1) s @ two_digits (\<lambda>a. a \<le> 5) (\<lambda>b. True) s
     @ one_digit (\<lambda>a. True) s"
| "cands Ff s =
     map (\<lambda>n. (int_of_digits (map digit_val (take n s)) * 10 ^ (6 - n), drop n s))
         (rev [1..<Suc (min 6 (length (takeWhile is_digit s)))])"
| "cands (FLit c) s =
     (case s of x # r \<Rightarrow> if lower_char x = lower_char c then [(0, r)] else [] | [] \<Rightarrow> [])"
| "cands FWs s =
     map (\<lambda>n. (0, drop n s)) (rev [1..<Suc (length (takeWhile is_space s))])"

fun first_some :: "'a option list \<Rightarrow> 'a option" where
  "first_some [] = None"
| "first_some (None # xs) = first_some xs"
| "first_some (Some x # xs) = Some x"

text \<open>
  The match: the values of the items in order, and the text left over. The first
  candidate of an item after which the rest of the format matches is taken.
\<close>

primrec match_items :: "fmt_item list \<Rightarrow> string \<Rightarrow> ((fmt_item \<times> int) list \<times> string) option" where
  "match_items [] s = Some ([], s)"
| "match_items (i # is) s =
     first_some
       (map (\<lambda>vr. case match_items is (snd vr) of
                     None \<Rightarrow> None
                   | Some (vs, r) \<Rightarrow> Some ((i, fst vr) # vs, r))
            (cands i s))"

definition field :: "(fmt_item \<times> int) list \<Rightarrow> fmt_item \<Rightarrow> int \<Rightarrow> int" where
  "field vs i dflt = (case map_of vs i of Some v \<Rightarrow> v | None \<Rightarrow> dflt)"

definition strptime :: "string \<Rightarrow> string \<Rightarrow> datetime option" where
  "strptime s fmt =
     (case parse_format fmt of
        None \<Rightarrow> None
      | Some items \<Rightarrow>
          (case match_items items s of
             None \<Rightarrow> None
           | Some (vs, r) \<Rightarrow>
               if r \<noteq> [] then None
               else mk_datetime (field vs FY 1900) (field vs Fm 1) (field vs Fd 1)
                                (field vs FH 0) (field vs FM 0) (field vs FS 0) (field vs Ff 0)))"

text \<open>
  \<^verbatim>\<open>datetime.strptime(v, fmt)\<close> on a value: \<^verbatim>\<open>TypeError\<close> unless it is a string.
\<close>

fun py_strptime :: "json \<Rightarrow> string \<Rightarrow> exn + datetime" where
  "py_strptime (JStr s) fmt = (case strptime s fmt of None \<Rightarrow> Inl ValueError | Some t \<Rightarrow> Inr t)"
| "py_strptime _ fmt = Inl TypeError"

section \<open>The validator (\<^verbatim>\<open>data_validator.py\<close>)\<close>

text \<open>
  The messages are f-strings in the source. They are kept as structured values, one
  constructor for each message text, carrying what the text interpolates:
  \<^item> \<open>No_data_received\<close>: \<^verbatim>\<open>'No data received'\<close>;
  \<^item> \<open>Invalid_data_format\<close>: \<^verbatim>\<open>'Invalid data format'\<close>;
  \<^item> \<open>Validation_error e\<close>: \<^verbatim>\<open>f'Validation error: {str(e)}'\<close>;
  \<^item> \<open>No_validation_rules s\<close>: \<^verbatim>\<open>f'No validation rules defined for service: {s}'\<close>;
  \<^item> \<open>Missing_required_field i f\<close>: \<^verbatim>\<open>f'Record {i}: Missing required field "{f}"'\<close>;
  \<^item> \<open>Invalid_type i f t\<close>: \<^verbatim>\<open>f'Record {i}: Field "{f}" has invalid type. Expected {t}'\<close>;
  \<^item> \<open>Below_minimum i f v m\<close>: \<^verbatim>\<open>f'Record {i}: Field "{f}" value {v} is below minimum {m}'\<close>;
  \<^item> \<open>Exceeds_maximum i f v m\<close>: \<^verbatim>\<open>f'Record {i}: Field "{f}" value {v} exceeds maximum {m}'\<close>;
  \<^item> \<open>Not_numeric i f\<close>: \<^verbatim>\<open>f'Record {i}: Field "{f}" is not numeric for range validation'\<close>;
  \<^item> \<open>Pattern_mismatch i f\<close>: \<^verbatim>\<open>f'Record {i}: Field "{f}" does not match required pattern'\<close>;
  \<^item> \<open>Due_date_in_past i\<close>: \<^verbatim>\<open>f'Record {i}: Due date is in the past for pending payment'\<close>;
  \<^item> \<open>Amount_not_positive i\<close>: \<^verbatim>\<open>f'Record {i}: Payment amount must be positive'\<close>;
  \<^item> \<open>End_before_start i\<close>: \<^verbatim>\<open>f'Record {i}: End date must be after start date'\<close>;
  \<^item> \<open>Cost_exceeds_budget i\<close>: \<^verbatim>\<open>f'Record {i}: Actual cost significantly exceeds budget'\<close>;
  \<^item> \<open>Large_cash_flow i\<close>: \<^verbatim>\<open>f'Record {i}: Unusually large cash flow amount'\<close>;
  \<^item> \<open>Business_logic_error i e\<close>: \<^verbatim>\<open>f'Record {i}: Error in business logic validation: {str(e)}'\<close>.
\<close>

datatype message =
    No_data_received
  | Invalid_data_format
  | Validation_error exn
  | No_validation_rules string
  | Missing_required_field nat string
  | Invalid_type nat string string
  | Below_minimum nat string pyfloat int
  | Exceeds_maximum nat string pyfloat int
  | Not_numeric nat string
  | Pattern_mismatch nat string
  | Due_date_in_past nat
  | Amount_not_positive nat
  | End_before_start nat
  | Cost_exceeds_budget nat
  | Large_cash_flow nat
  | Business_logic_error nat exn

subsection \<open>The rule table\<close>

text \<open>
  A pattern of the table has the shape \<^verbatim>\<open>^(a|b|c)$\<close>; it is kept as the list of its
  alternatives.
\<close>

record range_config =
  rmin :: "int option"
  rmax :: "int option"

record rule_set =
  required_fields :: "string list"
  field_types :: "(string \<times> string) list"
  field_ranges :: "(string \<times> range_config) list"
  field_patterns :: "(string \<times> string list) list"

definition validation_rules :: "(string \<times> rule_set) list" where
  "validation_rules =
     [(''accounts-payable'',
        \<lparr>required_fields = [''id'', ''amount'', ''due_date'', ''supplier_id''],
         field_types = [(''id'', ''string''), (''amount'', ''numeric''), (''due_date'', ''date''),
                        (''supplier_id'', ''string''), (''status'', ''string'')],
         field_ranges = [(''amount'', \<lparr>rmin = Some 0, rmax = Some 10000000\<rparr>)],
         field_patterns = [(''status'', [''pending'', ''approved'', ''paid'', ''cancelled''])]\<rparr>),
      (''accounts-receivable'',
        \<lparr>required_fields = [''id'', ''amount'', ''customer_id''],
         field_types = [(''id'', ''string''), (''amount'', ''numeric''), (''customer_id'', ''string''),
                        (''payment_date'', ''date''), (''status'', ''string'')],
         field_ranges = [(''amount'', \<lparr>rmin = Some 0, rmax = Some 10000000\<rparr>)],
         field_patterns = [(''status'', [''pending'', ''partial'', ''paid'', ''overdue''])]\<rparr>),
      (''cash-flow'',
        \<lparr>required_fields = [''id'', ''date'', ''type''],
         field_types = [(''id'', ''string''), (''date'', ''date''), (''type'', ''string''),
                        (''amount'', ''numeric'')],
         field_ranges = [],
         field_patterns = [(''type'', [''inflow'', ''outflow''])]\<rparr>),
      (''project-management'',
        \<lparr>required_fields = [''id'', ''name'', ''start_date''],
         field_types = [(''id'', ''string''), (''name'', ''string''), (''start_date'', ''date''),
                        (''end_date'', ''date''), (''budget'', ''numeric''),
                        (''actual_cost'', ''numeric'')],
         field_ranges = [(''budget'', \<lparr>rmin = Some 0, rmax = Some 100000000\<rparr>),
                         (''actual_cost'', \<lparr>rmin = Some 0, rmax = Some 100000000\<rparr>)],
         field_patterns = []\<rparr>)]"

subsection \<open>Results\<close>

record messages =
  errors :: "message list"
  warnings :: "message list"

record record_validation = messages +
  is_valid :: bool

record validation_result = record_validation +
  records_validated :: nat
  records_failed :: nat

definition add_error :: "message \<Rightarrow> record_validation \<Rightarrow> record_validation" where
  "add_error m res = res\<lparr>is_valid := False, errors := errors res @ [m]\<rparr>"

subsection \<open>\<^verbatim>\<open>_validate_field_type\<close>\<close>

definition date_formats :: "string list" where
  "date_formats =
     [''%Y-%m-%d'', ''%Y-%m-%d %H:%M:%S'', ''%Y-%m-%dT%H:%M:%S'', ''%Y-%m-%dT%H:%M:%S.%f'',
      ''%d/%m/%Y'', ''%m/%d/%Y'']"

text \<open>
  Every exception inside is caught and gives \<^verbatim>\<open>False\<close>. For \<^verbatim>\<open>'string'\<close> the result
  is \<^verbatim>\<open>str(value)\<close> for a value that is not a string, which is never the empty string,
  so it counts as true. A value from JSON is never a \<^verbatim>\<open>datetime\<close>. \<^verbatim>\<open>str(value).lower()\<close>
  is one of \<^verbatim>\<open>true, false, 1, 0\<close> for those strings in any case and for the integers 0 and 1.
\<close>

definition validate_field_type :: "json \<Rightarrow> string \<Rightarrow> bool" where
  "validate_field_type v expected_type =
     (if expected_type = ''string'' then v \<noteq> JNull
      else if expected_type = ''numeric'' then
        (case v of
           JBool b \<Rightarrow> True
         | JInt n \<Rightarrow> True
         | JFloat f \<Rightarrow> True
         | JStr s \<Rightarrow> float_of_str s \<noteq> None
         | _ \<Rightarrow> False)
      else if expected_type = ''date'' then
        (case v of
           JStr s \<Rightarrow> list_ex (\<lambda>fmt. strptime s fmt \<noteq> None) date_formats
         | _ \<Rightarrow> False)
      else if expected_type = ''boolean'' then
        (case v of
           JBool b \<Rightarrow> True
         | JStr s \<Rightarrow> lower s \<in> set [''true'', ''false'', ''1'', ''0'']
         | JInt n \<Rightarrow> n = 0 \<or> n = 1
         | _ \<Rightarrow> False)
      else True)"

subsection \<open>\<^verbatim>\<open>_validate_business_logic\<close>\<close>

text \<open>
  The body runs under \<^verbatim>\<open>except Exception\<close>, which appends a warning and returns what
  was collected so far. Each check appends at most one message, as its last action, so the
  body is a list of steps and an exception in a step leaves the result as it was before
  that step.
\<close>

fun run_steps :: "nat \<Rightarrow> (messages \<Rightarrow> exn + messages) list \<Rightarrow> messages \<Rightarrow> messages" where
  "run_steps i [] res = res"
| "run_steps i (st # sts) res =
     (case st res of
        Inl e \<Rightarrow> res\<lparr>warnings := warnings res @ [Business_logic_error i e]\<rparr>
      | Inr res' \<Rightarrow> run_steps i sts res')"

text \<open>\<^verbatim>\<open>except (ValueError, TypeError): pass\<close> around a computation.\<close>

definition pass_value_type :: "'a \<Rightarrow> exn + 'a \<Rightarrow> exn + 'a" where
  "pass_value_type dflt m =
     (case m of
        Inl e \<Rightarrow> if e = ValueError \<or> e = TypeError then Inr dflt else Inl e
      | Inr x \<Rightarrow> Inr x)"

text \<open>\<^verbatim>\<open>except ValueError: pass\<close> around a computation.\<close>

definition pass_value :: "'a \<Rightarrow> exn + 'a \<Rightarrow> exn + 'a" where
  "pass_value dflt m =
     (case m of
        Inl e \<Rightarrow> if e = ValueError then Inr dflt else Inl e
      | Inr x \<Rightarrow> Inr x)"

definition payable_due_date :: "datetime \<Rightarrow> json \<Rightarrow> nat \<Rightarrow> messages \<Rightarrow> exn + messages" where
  "payable_due_date now r i res =
     ebind (py_get r ''status'') (\<lambda>st.
       if st \<noteq> JStr ''pending'' then Inr res
       else ebind (py_in ''due_date'' r) (\<lambda>b.
         if \<not> b then Inr res
         else pass_value res
           (ebind (py_getitem r ''due_date'') (\<lambda>v.
              ebind (py_strptime v ''%Y-%m-%d'') (\<lambda>due_date.
                Inr (if due_date < now
                     then res\<lparr>warnings := warnings res @ [Due_date_in_past i]\<rparr>
                     else res))))))"

definition payable_amount :: "json \<Rightarrow> nat \<Rightarrow> messages \<Rightarrow> exn + messages" where
  "payable_amount r i res =
     ebind (py_in ''amount'' r) (\<lambda>b.
       if \<not> b then Inr res
       else pass_value_type res
         (ebind (py_getitem r ''amount'') (\<lambda>v.
            ebind (py_float v) (\<lambda>amount.
              Inr (if fle amount (Fin 0)
                   then res\<lparr>errors := errors res @ [Amount_not_positive i]\<rparr>
                   else res)))))"

definition project_dates :: "json \<Rightarrow> nat \<Rightarrow> messages \<Rightarrow> exn + messages" where
  "project_dates r i res =
     ebind (py_in ''start_date'' r) (\<lambda>b1.
       if \<not> b1 then Inr res
       else ebind (py_in ''end_date'' r) (\<lambda>b2.
         if \<not> b2 then Inr res
         else pass_value res
           (ebind (py_getitem r ''start_date'') (\<lambda>v1.
              ebind (py_strptime v1 ''%Y-%m-%d'') (\<lambda>start_date.
                ebind (py_getitem r ''end_date'') (\<lambda>v2.
                  ebind (py_strptime v2 ''%Y-%m-%d'') (\<lambda>end_date.
                    Inr (if end_date \<le> start_date
                         then res\<lparr>errors := errors res @ [End_before_start i]\<rparr>
                         else res))))))))"

definition project_cost :: "json \<Rightarrow> nat \<Rightarrow> messages \<Rightarrow> exn + messages" where
  "project_cost r i res =
     ebind (py_in ''budget'' r) (\<lambda>b1.
       if \<not> b1 then Inr res
       else ebind (py_in ''actual_cost'' r) (\<lambda>b2.
         if \<not> b2 then Inr res
         else pass_value_type res
           (ebind (py_getitem r ''budget'') (\<lambda>v1.
              ebind (py_float v1) (\<lambda>budget.
                ebind (py_getitem r ''actual_cost'') (\<lambda>v2.
                  ebind (py_float v2) (\<lambda>actual_cost.
                    Inr (if fgt actual_cost (fmul budget (Fin (3 / 2)))
                         then res\<lparr>warnings := warnings res @ [Cost_exceeds_budget i]\<rparr>
                         else res))))))))"

definition cash_flow_amount :: "json \<Rightarrow> nat \<Rightarrow> messages \<Rightarrow> exn + messages" where
  "cash_flow_amount r i res =
     ebind (py_in ''amount'' r) (\<lambda>b.
       if \<not> b then Inr res
       else pass_value_type res
         (ebind (py_getitem r ''amount'') (\<lambda>v.
            ebind (py_float v) (\<lambda>amount.
              Inr (if fgt (fabs amount) (Fin 1000000)
                   then res\<lparr>warnings := warnings res @ [Large_cash_flow i]\<rparr>
                   else res)))))"

definition validate_business_logic :: "datetime \<Rightarrow> string \<Rightarrow> json \<Rightarrow> nat \<Rightarrow> messages" where
  "validate_business_logic now service_name r i =
     run_steps i
       (if service_name = ''accounts-payable'' then [payable_due_date now r i, payable_amount r i]
        else if service_name = ''project-management'' then [project_dates r i, project_cost r i]
        else if service_name = ''cash-flow'' then [cash_flow_amount r i]
        else [])
       \<lparr>errors = [], warnings = []\<rparr>"

subsection \<open>\<^verbatim>\<open>_validate_record\<close>\<close>

text \<open>
  \<^verbatim>\<open>field not in record or record[field] is None or record[field] == ''\<close>
\<close>

definition field_missing :: "string \<Rightarrow> json \<Rightarrow> exn + bool" where
  "field_missing f r =
     ebind (py_in f r) (\<lambda>b.
       if \<not> b then Inr True
       else ebind (py_getitem r f) (\<lambda>v. Inr (v = JNull \<or> v = JStr [])))"

text \<open>
  \<^verbatim>\<open>field in record and record[field] is not None\<close>, with the value when the test holds.
\<close>

definition field_present :: "string \<Rightarrow> json \<Rightarrow> exn + json option" where
  "field_present f r =
     ebind (py_in f r) (\<lambda>b.
       if \<not> b then Inr None
       else ebind (py_getitem r f) (\<lambda>v. Inr (if v = JNull then None else Some v)))"

fun check_required :: "nat \<Rightarrow> json \<Rightarrow> string list \<Rightarrow> record_validation \<Rightarrow> exn + record_validation" where
  "check_required i r [] res = Inr res"
| "check_required i r (f # fs) res =
     ebind (field_missing f r) (\<lambda>m.
       check_required i r fs (if m then add_error (Missing_required_field i f) res else res))"

fun check_types :: "nat \<Rightarrow> json \<Rightarrow> (string \<times> string) list \<Rightarrow> record_validation \<Rightarrow> exn + record_validation" where
  "check_types i r [] res = Inr res"
| "check_types i r ((f, expected_type) # fs) res =
     ebind (field_present f r) (\<lambda>p.
       check_types i r fs
         (case p of
            None \<Rightarrow> res
          | Some v \<Rightarrow>
              if \<not> validate_field_type v expected_type
              then add_error (Invalid_type i f expected_type) res else res))"

text \<open>
  The range check of one field. \<^verbatim>\<open>float(record[field])\<close> runs under
  \<^verbatim>\<open>except (ValueError, TypeError)\<close>; any other exception leaves the function.
\<close>

definition check_range :: "nat \<Rightarrow> string \<Rightarrow> range_config \<Rightarrow> json \<Rightarrow> record_validation \<Rightarrow> exn + record_validation" where
  "check_range i f rc v res =
     (case py_float v of
        Inl e \<Rightarrow>
          if e = ValueError \<or> e = TypeError then Inr (add_error (Not_numeric i f) res) else Inl e
      | Inr val \<Rightarrow>
          Inr ((case rmax rc of
                  Some mx \<Rightarrow> if fgt val (fint mx) then add_error (Exceeds_maximum i f val mx) else id
                | None \<Rightarrow> id)
               ((case rmin rc of
                   Some mn \<Rightarrow> if flt val (fint mn) then add_error (Below_minimum i f val mn) else id
                 | None \<Rightarrow> id)
                res)))"

fun check_ranges :: "nat \<Rightarrow> json \<Rightarrow> (string \<times> range_config) list \<Rightarrow> record_validation \<Rightarrow> exn + record_validation" where
  "check_ranges i r [] res = Inr res"
| "check_ranges i r ((f, rc) # fs) res =
     ebind (field_present f r) (\<lambda>p.
       case p of
         None \<Rightarrow> check_ranges i r fs res
       | Some v \<Rightarrow> ebind (check_range i f rc v res) (check_ranges i r fs))"

text \<open>
  \<^verbatim>\<open>re.match(pattern, str(value))\<close> for a pattern \<^verbatim>\<open>^(a|b|c)$\<close>: the text is one of the
  alternatives, possibly followed by one newline, which \<^verbatim>\<open>$\<close> allows. The alternatives
  of the table are lower-case words, and \<^verbatim>\<open>str\<close> of a value that is not a string
  (a number, \<^verbatim>\<open>True\<close>, \<^verbatim>\<open>False\<close>, a list, a dictionary) is none of them.
\<close>

definition re_match :: "string list \<Rightarrow> json \<Rightarrow> bool" where
  "re_match alts v =
     (case v of
        JStr s \<Rightarrow> s \<in> set alts \<or> s \<in> set (map (\<lambda>w. w @ [CHR 0x0A]) alts)
      | _ \<Rightarrow> False)"

fun check_patterns :: "nat \<Rightarrow> json \<Rightarrow> (string \<times> string list) list \<Rightarrow> record_validation \<Rightarrow> exn + record_validation" where
  "check_patterns i r [] res = Inr res"
| "check_patterns i r ((f, alts) # fs) res =
     ebind (field_present f r) (\<lambda>p.
       check_patterns i r fs
         (case p of
            None \<Rightarrow> res
          | Some v \<Rightarrow> if \<not> re_match alts v then add_error (Pattern_mismatch i f) res else res))"

definition add_business :: "messages \<Rightarrow> record_validation \<Rightarrow> record_validation" where
  "add_business b res =
     res\<lparr>errors := errors res @ errors b,
         warnings := warnings res @ warnings b,
         is_valid := (if errors b \<noteq> [] then False else is_valid res)\<rparr>"

definition validate_record :: "datetime \<Rightarrow> string \<Rightarrow> json \<Rightarrow> nat \<Rightarrow> exn + record_validation" where
  "validate_record now service_name r i =
     (case map_of validation_rules service_name of
        None \<Rightarrow>
          Inr \<lparr>errors = [], warnings = [No_validation_rules service_name], is_valid = True\<rparr>
      | Some rules \<Rightarrow>
          ebind (check_required i r (required_fields rules)
                   \<lparr>errors = [], warnings = [], is_valid = True\<rparr>) (\<lambda>res1.
          ebind (check_types i r (field_types rules) res1) (\<lambda>res2.
          ebind (check_ranges i r (field_ranges rules) res2) (\<lambda>res3.
          ebind (check_patterns i r (field_patterns rules) res3) (\<lambda>res4.
            Inr (add_business (validate_business_logic now service_name r i) res4))))))"

subsection \<open>\<^verbatim>\<open>validate_microservice_data\<close>\<close>

text \<open>
  The loop over \<^verbatim>\<open>enumerate(records)\<close>. The failure rate is
  \<^verbatim>\<open>records_failed / records_validated > 0.1\<close>.
\<close>

definition count_record :: "record_validation \<Rightarrow> validation_result \<Rightarrow> validation_result" where
  "count_record rv res =
     res\<lparr>records_validated := records_validated res + 1,
         records_failed := (if \<not> is_valid rv then records_failed res + 1 else records_failed res),
         errors := (if \<not> is_valid rv then errors res @ errors rv else errors res),
         warnings := warnings res @ warnings rv\<rparr>"

fun validate_records :: "datetime \<Rightarrow> string \<Rightarrow> nat \<Rightarrow> json list \<Rightarrow> validation_result \<Rightarrow> exn + validation_result" where
  "validate_records now service_name i [] res = Inr res"
| "validate_records now service_name i (r # rs) res =
     ebind (validate_record now service_name r i) (\<lambda>rv.
       validate_records now service_name (Suc i) rs (count_record rv res))"

definition initial_result :: validation_result where
  "initial_result =
     \<lparr>errors = [], warnings = [], is_valid = True, records_validated = 0, records_failed = 0\<rparr>"

definition overall_status :: "validation_result \<Rightarrow> validation_result" where
  "overall_status res =
     (if records_failed res > 0
         \<and> (of_nat (records_failed res) / of_nat (records_validated res) :: rat) > 1 / 10
      then res\<lparr>is_valid := False\<rparr> else res)"

text \<open>
  The body of the \<^verbatim>\<open>try\<close>. The endpoint is passed and not used, here and in the
  transformer; its type is left open.
\<close>

definition validate_body :: "datetime \<Rightarrow> string \<Rightarrow> 'e \<Rightarrow> json \<Rightarrow> exn + validation_result" where
  "validate_body now service_name endpoint data =
     (if \<not> truthy data then
        Inr (initial_result\<lparr>is_valid := False, errors := [No_data_received]\<rparr>)
      else
        (case data of
           JObj kvs \<Rightarrow>
             ebind (validate_records now service_name 0
                      (case map_of kvs ''data'' of
                         Some (JList xs) \<Rightarrow> xs
                       | Some d \<Rightarrow> [d]
                       | None \<Rightarrow> [data])
                      initial_result)
                   (\<lambda>res. Inr (overall_status res))
         | JList xs \<Rightarrow>
             ebind (validate_records now service_name 0 xs initial_result)
                   (\<lambda>res. Inr (overall_status res))
         | _ \<Rightarrow> Inr (initial_result\<lparr>is_valid := False, errors := [Invalid_data_format]\<rparr>)))"

text \<open>The function, with its \<^verbatim>\<open>except Exception\<close>.\<close>

definition validate_microservice_data :: "datetime \<Rightarrow> string \<Rightarrow> 'e \<Rightarrow> json \<Rightarrow> validation_result" where
  "validate_microservice_data now service_name endpoint data =
     (case validate_body now service_name endpoint data of
        Inl e \<Rightarrow>
          \<lparr>errors = [Validation_error e], warnings = [], is_valid = False,
           records_validated = 0, records_failed = 0\<rparr>
      | Inr res \<Rightarrow> res)"


section \<open>The transformer (\<^verbatim>\<open>data_transformer.py\<close>)\<close>

subsection \<open>Calculated fields\<close>

text \<open>
  Every calculation runs under \<^verbatim>\<open>except Exception: return None\<close>. The body is a
  computation that may raise, and \<open>or_none\<close> is the handler; \<^verbatim>\<open>None\<close> is \<open>JNull\<close>.
\<close>

definition or_none :: "exn + json \<Rightarrow> json" where
  "or_none m = (case m of Inl e \<Rightarrow> JNull | Inr v \<Rightarrow> v)"

text \<open>
  \<^verbatim>\<open>key in record and record[key]\<close>: the value when the key is there and the value is true.
\<close>

definition field_true :: "string \<Rightarrow> json \<Rightarrow> exn + json option" where
  "field_true f r =
     ebind (py_in f r) (\<lambda>b.
       if \<not> b then Inr None
       else ebind (py_getitem r f) (\<lambda>v. Inr (if truthy v then Some v else None)))"

definition calculate_days_until_due :: "datetime \<Rightarrow> json \<Rightarrow> string \<Rightarrow> json" where
  "calculate_days_until_due now r service_name =
     or_none (ebind (field_true ''due_date'' r) (\<lambda>p.
       case p of
         None \<Rightarrow> Inr JNull
       | Some v \<Rightarrow> ebind (py_strptime v ''%Y-%m-%d'') (\<lambda>due_date.
           Inr (JInt (days_between due_date now)))))"

definition calculate_days_overdue :: "datetime \<Rightarrow> json \<Rightarrow> string \<Rightarrow> json" where
  "calculate_days_overdue now r service_name =
     or_none (ebind (field_true ''payment_date'' r) (\<lambda>p.
       case p of
         None \<Rightarrow> Inr JNull
       | Some v \<Rightarrow> ebind (py_strptime v ''%Y-%m-%d'') (\<lambda>payment_date.
           Inr (JInt (if payment_date < now then days_between now payment_date else 0)))))"

definition convert_to_cad :: "datetime \<Rightarrow> json \<Rightarrow> string \<Rightarrow> json" where
  "convert_to_cad now r service_name =
     or_none (ebind (field_present ''amount'' r) (\<lambda>p.
       case p of
         None \<Rightarrow> Inr JNull
       | Some v \<Rightarrow> ebind (py_float v) (\<lambda>a. Inr (JFloat a))))"

text \<open>
  The risk score of a payable. The score is a sum of the literals of the code and is kept
  as a rational. Each of the three factors takes the score so far and returns the new one.
\<close>

definition risk_amount :: "json \<Rightarrow> rat \<Rightarrow> exn + rat" where
  "risk_amount r risk_score =
     ebind (field_true ''amount'' r) (\<lambda>p.
       case p of
         None \<Rightarrow> Inr risk_score
       | Some v \<Rightarrow> ebind (py_float v) (\<lambda>amount.
           Inr (if fgt amount (Fin 100000) then risk_score + 3 / 10
                else if fgt amount (Fin 50000) then risk_score + 2 / 10
                else if fgt amount (Fin 10000) then risk_score + 1 / 10
                else risk_score)))"

definition risk_due_date :: "datetime \<Rightarrow> json \<Rightarrow> rat \<Rightarrow> exn + rat" where
  "risk_due_date now r risk_score =
     ebind (field_true ''due_date'' r) (\<lambda>p.
       case p of
         None \<Rightarrow> Inr risk_score
       | Some v \<Rightarrow>
           pass_value risk_score
             (ebind (py_strptime v ''%Y-%m-%d'') (\<lambda>due_date.
                Inr (if days_between due_date now < 0 then risk_score + 4 / 10
                     else if days_between due_date now < 7 then risk_score + 2 / 10
                     else if days_between due_date now < 30 then risk_score + 1 / 10
                     else risk_score))))"

definition risk_status :: "json \<Rightarrow> rat \<Rightarrow> exn + rat" where
  "risk_status r risk_score =
     ebind (py_in ''status'' r) (\<lambda>b.
       if \<not> b then Inr risk_score
       else ebind (py_getitem r ''status'') (\<lambda>v.
         ebind (py_lower v) (\<lambda>status.
           Inr (if status = ''overdue'' then risk_score + 3 / 10
                else if status = ''pending'' then risk_score + 1 / 10
                else risk_score))))"

definition payable_risk_score :: "datetime \<Rightarrow> json \<Rightarrow> rat option" where
  "payable_risk_score now r =
     (case ebind (risk_amount r 0) (\<lambda>s1.
            ebind (risk_due_date now r s1) (\<lambda>s2.
            ebind (risk_status r s2) (\<lambda>s3. Inr (min s3 1)))) of
        Inl e \<Rightarrow> None
      | Inr x \<Rightarrow> Some x)"

definition float_or_none :: "rat option \<Rightarrow> json" where
  "float_or_none x = (case x of None \<Rightarrow> JNull | Some q \<Rightarrow> JFloat (Fin q))"

definition calculate_payable_risk_score :: "datetime \<Rightarrow> json \<Rightarrow> string \<Rightarrow> json" where
  "calculate_payable_risk_score now r service_name = float_or_none (payable_risk_score now r)"

text \<open>
  The collection probability of a receivable, with the tiers in the order of the source:
  the amount is compared with 100000 first, with 500000 in the \<^verbatim>\<open>elif\<close>.
\<close>

definition probability_overdue :: "datetime \<Rightarrow> json \<Rightarrow> rat \<Rightarrow> exn + rat" where
  "probability_overdue now r probability =
     ebind (field_true ''payment_date'' r) (\<lambda>p.
       case p of
         None \<Rightarrow> Inr probability
       | Some v \<Rightarrow>
           pass_value probability
             (ebind (py_strptime v ''%Y-%m-%d'') (\<lambda>payment_date.
                Inr (if days_between now payment_date > 90 then probability * (3 / 10)
                     else if days_between now payment_date > 60 then probability * (5 / 10)
                     else if days_between now payment_date > 30 then probability * (7 / 10)
                     else if days_between now payment_date > 0 then probability * (9 / 10)
                     else probability))))"

definition probability_amount :: "json \<Rightarrow> rat \<Rightarrow> exn + rat" where
  "probability_amount r probability =
     ebind (field_true ''amount'' r) (\<lambda>p.
       case p of
         None \<Rightarrow> Inr probability
       | Some v \<Rightarrow> ebind (py_float v) (\<lambda>amount.
           Inr (if fgt amount (Fin 100000) then probability * (9 / 10)
                else if fgt amount (Fin 500000) then probability * (8 / 10)
                else probability)))"

definition probability_status :: "json \<Rightarrow> rat \<Rightarrow> exn + rat" where
  "probability_status r probability =
     ebind (py_in ''status'' r) (\<lambda>b.
       if \<not> b then Inr probability
       else ebind (py_getitem r ''status'') (\<lambda>v.
         ebind (py_lower v) (\<lambda>status.
           Inr (if status = ''paid'' then 1
                else if status = ''overdue'' then probability * (6 / 10)
                else if status = ''partial'' then probability * (8 / 10)
                else probability))))"

definition collection_probability :: "datetime \<Rightarrow> json \<Rightarrow> rat option" where
  "collection_probability now r =
     (case ebind (probability_overdue now r 1) (\<lambda>p1.
            ebind (probability_amount r p1) (\<lambda>p2.
            ebind (probability_status r p2) (\<lambda>p3. Inr (max p3 0)))) of
        Inl e \<Rightarrow> None
      | Inr x \<Rightarrow> Some x)"

definition calculate_collection_probability :: "datetime \<Rightarrow> json \<Rightarrow> string \<Rightarrow> json" where
  "calculate_collection_probability now r service_name =
     float_or_none (collection_probability now r)"

text \<open>The cash-flow fields.\<close>

definition amount_if_true :: "json \<Rightarrow> json" where
  "amount_if_true r =
     or_none (ebind (field_true ''amount'' r) (\<lambda>p.
       case p of
         None \<Rightarrow> Inr JNull
       | Some v \<Rightarrow> ebind (py_float v) (\<lambda>a. Inr (JFloat a))))"

definition calculate_cumulative_balance :: "datetime \<Rightarrow> json \<Rightarrow> string \<Rightarrow> json" where
  "calculate_cumulative_balance now r service_name = amount_if_true r"

definition calculate_monthly_total :: "datetime \<Rightarrow> json \<Rightarrow> string \<Rightarrow> json" where
  "calculate_monthly_total now r service_name = amount_if_true r"

definition calculate_trend_indicator :: "datetime \<Rightarrow> json \<Rightarrow> string \<Rightarrow> json" where
  "calculate_trend_indicator now r service_name =
     or_none (ebind (py_in ''type'' r) (\<lambda>b1.
       if \<not> b1 then Inr JNull
       else ebind (py_in ''amount'' r) (\<lambda>b2.
         if \<not> b2 then Inr JNull
         else ebind (py_getitem r ''type'') (\<lambda>t.
           ebind (py_lower t) (\<lambda>flow_type.
             ebind (py_getitem r ''amount'') (\<lambda>v.
               ebind (py_float v) (\<lambda>amount.
                 Inr (JStr (if flow_type = ''inflow'' \<and> fgt amount (Fin 0) then ''positive''
                            else if flow_type = ''outflow'' \<and> fgt amount (Fin 0) then ''negative''
                            else ''neutral'')))))))))"

text \<open>
  \<^verbatim>\<open>round(x, 2)\<close>: to the nearest hundredth, a tie going to the even neighbour;
  an infinity or a NaN is returned as it is.
\<close>

definition round_half_even :: "rat \<Rightarrow> int" where
  "round_half_even y =
     (if y - of_int \<lfloor>y\<rfloor> < 1 / 2 then \<lfloor>y\<rfloor>
      else if y - of_int \<lfloor>y\<rfloor> > 1 / 2 then \<lfloor>y\<rfloor> + 1
      else if even \<lfloor>y\<rfloor> then \<lfloor>y\<rfloor> else \<lfloor>y\<rfloor> + 1)"

definition round2 :: "pyfloat \<Rightarrow> pyfloat" where
  "round2 x = (case x of Fin q \<Rightarrow> Fin (of_int (round_half_even (q * 100)) / 100) | _ \<Rightarrow> x)"

text \<open>\<^verbatim>\<open>min(x, 100.0)\<close>: the second argument unless the first is smaller.\<close>

definition fmin_first :: "pyfloat \<Rightarrow> pyfloat \<Rightarrow> pyfloat" where
  "fmin_first x y = (if flt y x then y else x)"

text \<open>The project fields.\<close>

definition calculate_budget_variance :: "datetime \<Rightarrow> json \<Rightarrow> string \<Rightarrow> json" where
  "calculate_budget_variance now r service_name =
     or_none (ebind (py_in ''budget'' r) (\<lambda>b1.
       if \<not> b1 then Inr JNull
       else ebind (py_in ''actual_cost'' r) (\<lambda>b2.
         if \<not> b2 then Inr JNull
         else ebind (py_getitem r ''budget'') (\<lambda>v1.
           ebind (py_float v1) (\<lambda>budget.
             ebind (py_getitem r ''actual_cost'') (\<lambda>v2.
               ebind (py_float v2) (\<lambda>actual_cost.
                 Inr (if fgt budget (Fin 0)
                      then JFloat (round2 (fmul (fdiv (fsub actual_cost budget) budget) (Fin 100)))
                      else JNull))))))))"

definition calculate_project_duration :: "datetime \<Rightarrow> json \<Rightarrow> string \<Rightarrow> json" where
  "calculate_project_duration now r service_name =
     or_none (ebind (py_in ''start_date'' r) (\<lambda>b1.
       if \<not> b1 then Inr JNull
       else ebind (py_in ''end_date'' r) (\<lambda>b2.
         if \<not> b2 then Inr JNull
         else ebind (py_getitem r ''start_date'') (\<lambda>v1.
           ebind (py_strptime v1 ''%Y-%m-%d'') (\<lambda>start_date.
             ebind (py_getitem r ''end_date'') (\<lambda>v2.
               ebind (py_strptime v2 ''%Y-%m-%d'') (\<lambda>end_date.
                 Inr (JInt (max (days_between end_date start_date) 0)))))))))"

definition calculate_completion_percentage :: "datetime \<Rightarrow> json \<Rightarrow> string \<Rightarrow> json" where
  "calculate_completion_percentage now r service_name =
     or_none (ebind (py_in ''start_date'' r) (\<lambda>b1.
       if \<not> b1 then Inr JNull
       else ebind (py_in ''end_date'' r) (\<lambda>b2.
         if \<not> b2 then Inr JNull
         else ebind (py_getitem r ''start_date'') (\<lambda>v1.
           ebind (py_strptime v1 ''%Y-%m-%d'') (\<lambda>start_date.
             ebind (py_getitem r ''end_date'') (\<lambda>v2.
               ebind (py_strptime v2 ''%Y-%m-%d'') (\<lambda>end_date.
                 Inr (if now < start_date then JFloat (Fin 0)
                      else if now > end_date then JFloat (Fin 100)
                      else if days_between end_date start_date > 0
                      then JFloat (round2 (fmin_first
                             (fmul (fdiv (fint (days_between now start_date))
                                         (fint (days_between end_date start_date))) (Fin 100))
                             (Fin 100)))
                      else JNull))))))))"

definition calculate_cost_per_day :: "datetime \<Rightarrow> json \<Rightarrow> string \<Rightarrow> json" where
  "calculate_cost_per_day now r service_name =
     or_none (ebind (py_in ''actual_cost'' r) (\<lambda>b1.
       if \<not> b1 then Inr JNull
       else ebind (py_in ''start_date'' r) (\<lambda>b2.
         if \<not> b2 then Inr JNull
         else ebind (py_getitem r ''actual_cost'') (\<lambda>v1.
           ebind (py_float v1) (\<lambda>actual_cost.
             ebind (py_getitem r ''start_date'') (\<lambda>v2.
               ebind (py_strptime v2 ''%Y-%m-%d'') (\<lambda>start_date.
                 Inr (if days_between now start_date > 0
                      then JFloat (round2 (fdiv actual_cost (fint (days_between now start_date))))
                      else JNull))))))))"

subsection \<open>The rule table\<close>

text \<open>
  A calculated field is a function of the clock, the record and the service name; the
  table binds field names to these functions, as the source binds them to methods.
\<close>

record transform_rules =
  field_mappings :: "(string \<times> string) list"
  calculated_fields :: "(string \<times> (datetime \<Rightarrow> json \<Rightarrow> string \<Rightarrow> json)) list"
  aggregations :: "(string \<times> string) list"

definition transformation_rules :: "(string \<times> transform_rules) list" where
  "transformation_rules =
     [(''accounts-payable'',
        \<lparr>field_mappings = [(''id'', ''payable_id''), (''amount'', ''payable_amount''),
                           (''due_date'', ''payable_due_date''), (''supplier_id'', ''supplier_id''),
                           (''status'', ''payable_status'')],
         calculated_fields = [(''days_until_due'', calculate_days_until_due),
                              (''amount_cad'', convert_to_cad),
                              (''risk_score'', calculate_payable_risk_score)],
         aggregations = [(''total_amount'', ''sum''), (''avg_amount'', ''mean''),
                         (''count'', ''count'')]\<rparr>),
      (''accounts-receivable'',
        \<lparr>field_mappings = [(''id'', ''receivable_id''), (''amount'', ''receivable_amount''),
                           (''customer_id'', ''customer_id''),
                           (''payment_date'', ''expected_payment_date''),
                           (''status'', ''receivable_status'')],
         calculated_fields = [(''days_overdue'', calculate_days_overdue),
                              (''amount_cad'', convert_to_cad),
                              (''collection_probability'', calculate_collection_probability)],
         aggregations = []\<rparr>),
      (''cash-flow'',
        \<lparr>field_mappings = [(''id'', ''cashflow_id''), (''date'', ''transaction_date''),
                           (''type'', ''flow_type''), (''amount'', ''flow_amount'')],
         calculated_fields = [(''cumulative_balance'', calculate_cumulative_balance),
                              (''monthly_total'', calculate_monthly_total),
                              (''trend_indicator'', calculate_trend_indicator)],
         aggregations = []\<rparr>),
      (''project-management'',
        \<lparr>field_mappings = [(''id'', ''project_id''), (''name'', ''project_name''),
                           (''start_date'', ''project_start_date''),
                           (''end_date'', ''project_end_date''), (''budget'', ''project_budget''),
                           (''actual_cost'', ''project_actual_cost'')],
         calculated_fields = [(''budget_variance'', calculate_budget_variance),
                              (''project_duration'', calculate_project_duration),
                              (''completion_percentage'', calculate_completion_percentage),
                              (''cost_per_day'', calculate_cost_per_day)],
         aggregations = []\<rparr>)]"

subsection \<open>The run-time environment\<close>

text \<open>
  What the transformer reads from outside the program: the local clock
  (\<^verbatim>\<open>datetime.now()\<close>), the text of \<^verbatim>\<open>datetime.utcnow().isoformat()\<close>, the serialisation
  \<^verbatim>\<open>json.dumps(record, sort_keys=True, default=str)\<close>, and the built-in \<^verbatim>\<open>hash\<close> on
  strings, which Python salts anew in every process.
\<close>

record runtime =
  local_now :: datetime
  utcnow_isoformat :: string
  json_dumps_sorted :: "json \<Rightarrow> string"
  str_hash :: "string \<Rightarrow> int"

text \<open>\<^verbatim>\<open>str(n)\<close> for an integer.\<close>

definition digit_char :: "int \<Rightarrow> char" where
  "digit_char d = ''0123456789'' ! nat d"

function str_nat :: "int \<Rightarrow> string" where
  "str_nat n = (if n < 10 then [digit_char n] else str_nat (n div 10) @ [digit_char (n mod 10)])"
  by pat_completeness auto
termination
  by (relation "measure nat") auto

definition str_int :: "int \<Rightarrow> string" where
  "str_int n = (if n < 0 then CHR ''-'' # str_nat (- n) else str_nat n)"

text \<open>
  \<^verbatim>\<open>_calculate_record_hash\<close>. The serialisation of a value that came from JSON does
  not raise, so the \<^verbatim>\<open>except\<close> branch is not reached.
\<close>

definition calculate_record_hash :: "runtime \<Rightarrow> json \<Rightarrow> string" where
  "calculate_record_hash rt r = str_int (str_hash rt (json_dumps_sorted rt r))"

subsection \<open>\<^verbatim>\<open>_transform_record\<close>\<close>

text \<open>
  \<^verbatim>\<open>d[k] = v\<close> on a dictionary in insertion order: a key already there keeps its place.
\<close>

fun dict_set :: "string \<Rightarrow> json \<Rightarrow> (string \<times> json) list \<Rightarrow> (string \<times> json) list" where
  "dict_set k v [] = [(k, v)]"
| "dict_set k v ((k', v') # kvs) = (if k' = k then (k, v) # kvs else (k', v') # dict_set k v kvs)"

fun apply_mappings :: "json \<Rightarrow> (string \<times> string) list \<Rightarrow> (string \<times> json) list \<Rightarrow> exn + (string \<times> json) list" where
  "apply_mappings r [] t = Inr t"
| "apply_mappings r ((original_field, new_field) # ms) t =
     ebind (py_in original_field r) (\<lambda>b.
       if b then ebind (py_getitem r original_field) (\<lambda>v. apply_mappings r ms (dict_set new_field v t))
       else apply_mappings r ms (dict_set new_field JNull t))"

text \<open>\<^verbatim>\<open>record.items()\<close>: only a dictionary has the method.\<close>

fun py_items :: "json \<Rightarrow> exn + (string \<times> json) list" where
  "py_items (JObj kvs) = Inr kvs"
| "py_items _ = Inl AttributeError"

fun keep_unmapped :: "(string \<times> string) list \<Rightarrow> (string \<times> json) list \<Rightarrow> (string \<times> json) list \<Rightarrow> (string \<times> json) list" where
  "keep_unmapped fm [] t = t"
| "keep_unmapped fm ((f, v) # kvs) t =
     keep_unmapped fm kvs (if f \<notin> set (map fst fm) then dict_set f v t else t)"

text \<open>
  The calculated fields. The \<^verbatim>\<open>except\<close> around each call is not reached: the functions
  catch their own exceptions.
\<close>

fun apply_calculated :: "datetime \<Rightarrow> json \<Rightarrow> string \<Rightarrow> (string \<times> (datetime \<Rightarrow> json \<Rightarrow> string \<Rightarrow> json)) list \<Rightarrow> (string \<times> json) list \<Rightarrow> (string \<times> json) list" where
  "apply_calculated n r service_name [] t = t"
| "apply_calculated n r service_name ((field_name, calculation_func) # cs) t =
     apply_calculated n r service_name cs (dict_set field_name (calculation_func n r service_name) t)"

definition add_metadata :: "runtime \<Rightarrow> json \<Rightarrow> string \<Rightarrow> (string \<times> json) list \<Rightarrow> (string \<times> json) list" where
  "add_metadata rt r service_name t =
     dict_set ''_record_hash'' (JStr (calculate_record_hash rt r))
       (dict_set ''_transformed_at'' (JStr (utcnow_isoformat rt))
          (dict_set ''_source_service'' (JStr service_name) t))"

text \<open>The result is \<^verbatim>\<open>None\<close> when the body raises.\<close>

definition transform_record :: "runtime \<Rightarrow> json \<Rightarrow> transform_rules \<Rightarrow> string \<Rightarrow> json option" where
  "transform_record rt r rules service_name =
     (case ebind (apply_mappings r (field_mappings rules) []) (\<lambda>t1.
             ebind (py_items r) (\<lambda>kvs. Inr (keep_unmapped (field_mappings rules) kvs t1))) of
        Inl e \<Rightarrow> None
      | Inr t2 \<Rightarrow>
          Some (JObj (add_metadata rt r service_name
                        (apply_calculated (local_now rt) r service_name (calculated_fields rules) t2))))"

subsection \<open>\<^verbatim>\<open>transform_microservice_data\<close>\<close>

text \<open>
  The payload as a sequence of records; \<open>None\<close> for a payload that is neither a
  dictionary nor a list.
\<close>

definition records_of :: "json \<Rightarrow> json list option" where
  "records_of data =
     (case data of
        JObj kvs \<Rightarrow>
          Some (case map_of kvs ''data'' of
                  Some (JList xs) \<Rightarrow> xs
                | Some d \<Rightarrow> [d]
                | None \<Rightarrow> [data])
      | JList xs \<Rightarrow> Some xs
      | _ \<Rightarrow> None)"

fun transform_records :: "runtime \<Rightarrow> transform_rules \<Rightarrow> string \<Rightarrow> json list \<Rightarrow> json list" where
  "transform_records rt rules service_name [] = []"
| "transform_records rt rules service_name (r # rs) =
     (case transform_record rt r rules service_name of
        Some t \<Rightarrow> if truthy t then t # transform_records rt rules service_name rs
                  else transform_records rt rules service_name rs
      | None \<Rightarrow> transform_records rt rules service_name rs)"

definition transform_microservice_data :: "runtime \<Rightarrow> string \<Rightarrow> 'e \<Rightarrow> json \<Rightarrow> json list" where
  "transform_microservice_data rt service_name endpoint data =
     (if \<not> truthy data then []
      else
        (case records_of data of
           None \<Rightarrow> []
         | Some records \<Rightarrow>
             (case map_of transformation_rules service_name of
                None \<Rightarrow> records
              | Some rules \<Rightarrow> transform_records rt rules service_name records)))"

section \<open>The job orchestrator (\<^verbatim>\<open>etl_service.py\<close>)\<close>

subsection \<open>The database and the network\<close>

text \<open>
  The status of a job is the string of the source (\<^verbatim>\<open>pending\<close>, \<^verbatim>\<open>running\<close>,
  \<^verbatim>\<open>completed\<close>, \<^verbatim>\<open>failed\<close>). The error message of a failed job is \<^verbatim>\<open>str(e)\<close>; it is
  kept as the error itself:
  \<^item> \<open>Unsupported_source_type t\<close>: \<^verbatim>\<open>ValueError(f"Unsupported source type: {t}")\<close>;
  \<^item> \<open>Unknown_microservice v\<close>: \<^verbatim>\<open>ValueError(f"Unknown microservice: {v}")\<close>;
  \<^item> \<open>Python_error e\<close>: an exception raised by the language or a library.
\<close>

datatype etl_error =
    Unsupported_source_type string
  | Unknown_microservice json
  | Python_error exn

text \<open>
  What an endpoint's entry of \<^verbatim>\<open>extraction_details\<close> holds:
  \<^verbatim>\<open>{'records': n, 'status': 'success'}\<close>,
  \<^verbatim>\<open>{'status': 'validation_failed', 'errors': [...]}\<close>,
  \<^verbatim>\<open>{'status': 'http_error', 'status_code': c}\<close>,
  \<^verbatim>\<open>{'status': 'connection_error', 'error': ...}\<close>.
\<close>

datatype endpoint_detail =
    Success int
  | Validation_failed "message list"
  | Http_error int
  | Connection_error

datatype extract_metadata =
    Microservice_metadata json int "(json \<times> endpoint_detail) list"
  | Not_implemented string

record extract_result =
  result_records_processed :: int
  result_records_failed :: int
  result_metadata :: extract_metadata

text \<open>
  The rows of \<^verbatim>\<open>DataSource\<close> and \<^verbatim>\<open>ETLJob\<close> that the service reads and writes. The
  connection string is kept as what \<^verbatim>\<open>json.loads\<close> makes of it: a value, or the exception
  for a text that is not JSON.
\<close>

record data_source =
  source_type :: string
  connection_string :: "exn + json"
  last_sync :: "datetime option"

record etl_job =
  data_source_id :: int
  job_status :: string
  job_records_processed :: int
  job_records_failed :: int
  start_time :: "datetime option"
  end_time :: "datetime option"
  error_message :: "etl_error option"
  job_metadata :: "extract_metadata option"

record database =
  etl_jobs :: "int \<rightharpoonup> etl_job"
  data_sources :: "int \<rightharpoonup> data_source"

text \<open>
  The outcome of \<^verbatim>\<open>requests.get(url, timeout=30)\<close> followed, for status 200, by
  \<^verbatim>\<open>response.json()\<close>: a \<^verbatim>\<open>RequestException\<close>, another exception, or a response with
  its status code and decoded body. The network is a function of the position of the
  endpoint in the list, the base URL and the endpoint.
\<close>

datatype fetch_outcome =
    Request_exception
  | Other_exception exn
  | Response int json

type_synonym network = "nat \<Rightarrow> string \<Rightarrow> json \<Rightarrow> fetch_outcome"

text \<open>The three readings of \<^verbatim>\<open>datetime.utcnow()\<close> during a run.\<close>

record stamps =
  at_start :: datetime
  at_end :: datetime
  at_sync :: datetime

definition microservice_endpoints :: "(string \<times> string) list" where
  "microservice_endpoints =
     [(''accounts-payable'', ''http://localhost:8001/api''),
      (''accounts-receivable'', ''http://localhost:8002/api''),
      (''authentication'', ''http://localhost:8003/api''),
      (''cash-flow'', ''http://localhost:8004/api''),
      (''company'', ''http://localhost:8005/api''),
      (''create-people'', ''http://localhost:8006/api''),
      (''employee-costs'', ''http://localhost:8007/api''),
      (''project-management'', ''http://localhost:8008/api''),
      (''supplier'', ''http://localhost:8009/api''),
      (''bank-integration'', ''http://localhost:8010/api''),
      (''financial-reports'', ''http://localhost:8011/api''),
      (''communication'', ''http://localhost:8012/api''),
      (''calculation-materials'', ''http://localhost:8013/api''),
      (''construction-integrations'', ''http://localhost:8014/api'')]"

subsection \<open>\<^verbatim>\<open>_extract_from_microservice\<close>\<close>

text \<open>A list or a dictionary cannot be a dictionary key: \<^verbatim>\<open>TypeError\<close>.\<close>

fun hashable :: "json \<Rightarrow> bool" where
  "hashable (JList xs) = False"
| "hashable (JObj kvs) = False"
| "hashable _ = True"

text \<open>\<^verbatim>\<open>extracted_data[endpoint] = detail\<close>\<close>

fun detail_set :: "json \<Rightarrow> endpoint_detail \<Rightarrow> (json \<times> endpoint_detail) list \<Rightarrow> (json \<times> endpoint_detail) list" where
  "detail_set k v [] = [(k, v)]"
| "detail_set k v ((k', v') # kvs) = (if k' = k then (k, v) # kvs else (k', v') # detail_set k v kvs)"

definition record_outcome :: "json \<Rightarrow> endpoint_detail \<Rightarrow> (json \<times> endpoint_detail) list \<Rightarrow> etl_error + (json \<times> endpoint_detail) list" where
  "record_outcome endpoint detail extracted_data =
     (if hashable endpoint then Inr (detail_set endpoint detail extracted_data)
      else Inl (Python_error TypeError))"

text \<open>
  One round of the loop over the endpoints, on the state \<open>(total_records,
  failed_records, extracted_data)\<close>. The rows that \<^verbatim>\<open>_store_in_warehouse\<close> adds are
  not part of the model; it catches its own exceptions.
\<close>

definition process_endpoint :: "runtime \<Rightarrow> network \<Rightarrow> string \<Rightarrow> string \<Rightarrow> nat \<Rightarrow> json \<Rightarrow> int \<times> int \<times> (json \<times> endpoint_detail) list \<Rightarrow> etl_error + int \<times> int \<times> (json \<times> endpoint_detail) list" where
  "process_endpoint rt net base_url service_name i endpoint st =
     (case st of (total_records, failed_records, extracted_data) \<Rightarrow>
        (case net i base_url endpoint of
           Other_exception e \<Rightarrow> Inl (Python_error e)
         | Request_exception \<Rightarrow>
             ebind (record_outcome endpoint Connection_error extracted_data) (\<lambda>ex.
               Inr (total_records, failed_records + 1, ex))
         | Response status_code data \<Rightarrow>
             if status_code = 200 then
               (if is_valid (validate_microservice_data (local_now rt) service_name endpoint data)
                then
                  ebind (record_outcome endpoint
                           (Success (int (length (transform_microservice_data rt service_name
                                                    endpoint data))))
                           extracted_data) (\<lambda>ex.
                    Inr (total_records
                           + int (length (transform_microservice_data rt service_name endpoint data)),
                         failed_records, ex))
                else
                  ebind (record_outcome endpoint
                           (Validation_failed
                              (errors (validate_microservice_data (local_now rt) service_name
                                         endpoint data)))
                           extracted_data) (\<lambda>ex.
                    Inr (total_records, failed_records + 1, ex)))
             else
               ebind (record_outcome endpoint (Http_error status_code) extracted_data) (\<lambda>ex.
                 Inr (total_records, failed_records + 1, ex))))"

fun process_endpoints :: "runtime \<Rightarrow> network \<Rightarrow> string \<Rightarrow> string \<Rightarrow> nat \<Rightarrow> json list \<Rightarrow> int \<times> int \<times> (json \<times> endpoint_detail) list \<Rightarrow> etl_error + int \<times> int \<times> (json \<times> endpoint_detail) list" where
  "process_endpoints rt net base_url service_name i [] st = Inr st"
| "process_endpoints rt net base_url service_name i (endpoint # endpoints) st =
     ebind (process_endpoint rt net base_url service_name i endpoint st)
           (process_endpoints rt net base_url service_name (Suc i) endpoints)"

text \<open>
  \<^verbatim>\<open>for endpoint in endpoints\<close>: the elements of a list, the characters of a string, the
  keys of a dictionary; \<^verbatim>\<open>TypeError\<close> for a value that cannot be iterated.
\<close>

fun py_iter :: "json \<Rightarrow> exn + json list" where
  "py_iter (JList xs) = Inr xs"
| "py_iter (JStr s) = Inr (map (\<lambda>c. JStr [c]) s)"
| "py_iter (JObj kvs) = Inr (map (\<lambda>kv. JStr (fst kv)) kvs)"
| "py_iter _ = Inl TypeError"

text \<open>\<^verbatim>\<open>v.get(key, default)\<close>\<close>

fun py_get_default :: "json \<Rightarrow> string \<Rightarrow> json \<Rightarrow> exn + json" where
  "py_get_default (JObj kvs) k d = (case map_of kvs k of Some v \<Rightarrow> Inr v | None \<Rightarrow> Inr d)"
| "py_get_default _ k d = Inl AttributeError"

definition lift_exn :: "exn + 'a \<Rightarrow> etl_error + 'a" where
  "lift_exn m = (case m of Inl e \<Rightarrow> Inl (Python_error e) | Inr x \<Rightarrow> Inr x)"

text \<open>
  \<^verbatim>\<open>if service_name not in self.microservice_endpoints: raise ValueError(...)\<close>, then the
  base URL.
\<close>

definition lookup_base_url :: "json \<Rightarrow> etl_error + string \<times> string" where
  "lookup_base_url service_name =
     (if \<not> hashable service_name then Inl (Python_error TypeError)
      else
        (case service_name of
           JStr s \<Rightarrow>
             (case map_of microservice_endpoints s of
                Some base_url \<Rightarrow> Inr (s, base_url)
              | None \<Rightarrow> Inl (Unknown_microservice service_name))
         | _ \<Rightarrow> Inl (Unknown_microservice service_name)))"

definition extract_from_microservice :: "runtime \<Rightarrow> network \<Rightarrow> data_source \<Rightarrow> etl_error + extract_result" where
  "extract_from_microservice rt net source =
     ebind (lift_exn (connection_string source)) (\<lambda>connection_data.
     ebind (lift_exn (py_get connection_data ''service_name'')) (\<lambda>service_name.
     ebind (lift_exn (py_get_default connection_data ''endpoints'' (JList []))) (\<lambda>endpoints.
     ebind (lookup_base_url service_name) (\<lambda>(s, base_url).
     ebind (lift_exn (py_iter endpoints)) (\<lambda>eps.
     ebind (process_endpoints rt net base_url s 0 eps (0, 0, [])) (\<lambda>(total_records, failed_records, extracted_data).
       Inr \<lparr>result_records_processed = total_records,
            result_records_failed = failed_records,
            result_metadata =
              Microservice_metadata service_name (int (length eps)) extracted_data\<rparr>))))))"

subsection \<open>The extractors that are not implemented\<close>

text \<open>
  \<^verbatim>\<open>_extract_from_database\<close>, \<^verbatim>\<open>_extract_from_api\<close> and \<^verbatim>\<open>_extract_from_file\<close> parse the
  connection string and report zero records.
\<close>

definition extract_not_implemented :: "string \<Rightarrow> data_source \<Rightarrow> etl_error + extract_result" where
  "extract_not_implemented kind source =
     ebind (lift_exn (connection_string source)) (\<lambda>connection_data.
       Inr \<lparr>result_records_processed = 0, result_records_failed = 0,
            result_metadata = Not_implemented kind\<rparr>)"

subsection \<open>\<^verbatim>\<open>execute_etl_job\<close>\<close>

text \<open>
  The thread body \<^verbatim>\<open>run_job\<close>. First the job is set to \<^verbatim>\<open>running\<close> and committed.
\<close>

definition mark_running :: "stamps \<Rightarrow> int \<Rightarrow> etl_job \<Rightarrow> database \<Rightarrow> database" where
  "mark_running ts job_id job db =
     db\<lparr>etl_jobs := (etl_jobs db)(job_id \<mapsto> job\<lparr>job_status := ''running'',
                                                start_time := Some (at_start ts)\<rparr>)\<rparr>"

text \<open>
  Then the source is read and the extraction is chosen by its type. A job whose source
  row is missing has \<^verbatim>\<open>job.data_source = None\<close>, and \<^verbatim>\<open>source.type\<close> raises.
\<close>

definition extraction :: "runtime \<Rightarrow> network \<Rightarrow> database \<Rightarrow> etl_job \<Rightarrow> etl_error + data_source \<times> extract_result" where
  "extraction rt net db job =
     (case data_sources db (data_source_id job) of
        None \<Rightarrow> Inl (Python_error AttributeError)
      | Some source \<Rightarrow>
          ebind (if source_type source = ''microservice'' then extract_from_microservice rt net source
                 else if source_type source = ''database'' then extract_not_implemented ''database'' source
                 else if source_type source = ''api'' then extract_not_implemented ''api'' source
                 else if source_type source = ''file'' then extract_not_implemented ''file'' source
                 else Inl (Unsupported_source_type (source_type source)))
                (\<lambda>result. Inr (source, result)))"

text \<open>
  The end of the run: \<^verbatim>\<open>completed\<close> with the counters, the metadata and the source's
  \<^verbatim>\<open>last_sync\<close>, or, in the \<^verbatim>\<open>except\<close>, \<^verbatim>\<open>failed\<close> with the message.
\<close>

definition run_job :: "runtime \<Rightarrow> network \<Rightarrow> stamps \<Rightarrow> int \<Rightarrow> database \<Rightarrow> database" where
  "run_job rt net ts job_id db =
     (case etl_jobs db job_id of
        None \<Rightarrow> db
      | Some job \<Rightarrow>
          (case extraction rt net (mark_running ts job_id job db) job of
             Inr (source, result) \<Rightarrow>
               (mark_running ts job_id job db)
                 \<lparr>etl_jobs := (etl_jobs db)(job_id \<mapsto>
                      job\<lparr>job_status := ''completed'',
                          start_time := Some (at_start ts),
                          end_time := Some (at_end ts),
                          job_records_processed := result_records_processed result,
                          job_records_failed := result_records_failed result,
                          job_metadata := Some (result_metadata result)\<rparr>),
                   data_sources := (data_sources db)(data_source_id job \<mapsto>
                      source\<lparr>last_sync := Some (at_sync ts)\<rparr>)\<rparr>
           | Inl e \<Rightarrow>
               (mark_running ts job_id job db)
                 \<lparr>etl_jobs := (etl_jobs db)(job_id \<mapsto>
                      job\<lparr>job_status := ''failed'',
                          start_time := Some (at_start ts),
                          end_time := Some (at_end ts),
                          error_message := Some e\<rparr>)\<rparr>))"

text \<open>
  The function itself: it starts a thread on \<^verbatim>\<open>run_job\<close> and returns the handle. The
  result is the handle, the database as the calling thread leaves it, and the job ids of
  the threads it started.
\<close>

record handle =
  handle_status :: string
  handle_job_id :: int

definition execute_etl_job :: "database \<Rightarrow> int \<Rightarrow> handle \<times> database \<times> int list" where
  "execute_etl_job db job_id =
     (\<lparr>handle_status = ''started'', handle_job_id = job_id\<rparr>, db, [job_id])"

subsection \<open>The thread and its caller\<close>

text \<open>
  \<^verbatim>\<open>execute_etl_job\<close> returns while the thread it started runs on its own. The thread
  commits twice: when it has found the job and set it to \<^verbatim>\<open>running\<close>, and at the end.
  Another caller sees the database as the last commit left it, so the thread is followed
  from commit to commit. A thread is either started, with the lookup of its job still
  ahead, or it has marked its job and holds the row that it read.
\<close>

datatype thread = Started int | Marked int etl_job

text \<open>
  The first step of \<^verbatim>\<open>run_job\<close>: the lookup; for a job that is not there the error is
  logged and the thread returns; otherwise the job is set to \<^verbatim>\<open>running\<close> and committed.
\<close>

definition begin_job :: "stamps \<Rightarrow> int \<Rightarrow> database \<Rightarrow> database \<times> thread option" where
  "begin_job ts job_id db =
     (case etl_jobs db job_id of
        None \<Rightarrow> (db, None)
      | Some job \<Rightarrow> (mark_running ts job_id job db, Some (Marked job_id job)))"

text \<open>
  The second step: the extraction, then the commit of \<^verbatim>\<open>completed\<close> with the counters
  or, in the \<^verbatim>\<open>except\<close>, of \<^verbatim>\<open>failed\<close> with the message.
\<close>

definition finish_job :: "runtime \<Rightarrow> network \<Rightarrow> stamps \<Rightarrow> int \<Rightarrow> etl_job \<Rightarrow> database \<Rightarrow> database" where
  "finish_job rt net ts job_id job db =
     (case extraction rt net db job of
        Inr (source, result) \<Rightarrow>
          db\<lparr>etl_jobs := (etl_jobs db)(job_id \<mapsto>
                 job\<lparr>job_status := ''completed'',
                     start_time := Some (at_start ts),
                     end_time := Some (at_end ts),
                     job_records_processed := result_records_processed result,
                     job_records_failed := result_records_failed result,
                     job_metadata := Some (result_metadata result)\<rparr>),
              data_sources := (data_sources db)(data_source_id job \<mapsto>
                 source\<lparr>last_sync := Some (at_sync ts)\<rparr>)\<rparr>
      | Inl e \<Rightarrow>
          db\<lparr>etl_jobs := (etl_jobs db)(job_id \<mapsto>
                 job\<lparr>job_status := ''failed'',
                     start_time := Some (at_start ts),
                     end_time := Some (at_end ts),
                     error_message := Some e\<rparr>)\<rparr>)"

text \<open>
  The service at a moment: the committed database and the threads that are under way.
\<close>

record system =
  store :: database
  threads :: "thread list"

text \<open>
  A call of \<^verbatim>\<open>execute_etl_job\<close> in a system: the threads it starts join the others.
\<close>

definition submit :: "system \<Rightarrow> int \<Rightarrow> handle \<times> system" where
  "submit S job_id =
     (case execute_etl_job (store S) job_id of
        (h, db, started) \<Rightarrow> (h, \<lparr>store = db, threads = threads S @ map Started started\<rparr>))"

text \<open>The thread at position \<open>k\<close> takes its next step; a thread that returns leaves.\<close>

definition thread_step :: "runtime \<Rightarrow> network \<Rightarrow> stamps \<Rightarrow> nat \<Rightarrow> system \<Rightarrow> system" where
  "thread_step rt net ts k S =
     (if k < length (threads S) then
        (case threads S ! k of
           Started job_id \<Rightarrow>
             (case begin_job ts job_id (store S) of
                (db, t) \<Rightarrow>
                  \<lparr>store = db,
                   threads = take k (threads S) @ (case t of None \<Rightarrow> [] | Some t' \<Rightarrow> [t'])
                               @ drop (Suc k) (threads S)\<rparr>)
         | Marked job_id job \<Rightarrow>
             \<lparr>store = finish_job rt net ts job_id job (store S),
              threads = take k (threads S) @ drop (Suc k) (threads S)\<rparr>)
      else S)"

text \<open>
  A schedule is a sequence of events: a caller submits a job, or a thread takes a step.
  The run of a schedule gives the handles returned to the callers and the system at the
  end.
\<close>

datatype event = Submit int | Thread_step nat

fun run_events :: "runtime \<Rightarrow> network \<Rightarrow> stamps \<Rightarrow> event list \<Rightarrow> system \<Rightarrow> handle list \<times> system" where
  "run_events rt net ts [] S = ([], S)"
| "run_events rt net ts (Submit job_id # es) S =
     (case submit S job_id of
        (h, S') \<Rightarrow> (case run_events rt net ts es S' of (hs, S'') \<Rightarrow> (h # hs, S'')))"
| "run_events rt net ts (Thread_step k # es) S =
     run_events rt net ts es (thread_step rt net ts k S)"


section \<open>Properties of the validator\<close>

subsection \<open>Auxiliary facts\<close>

lemma add_error_simps:
  "is_valid (add_error m res) = False"
  "errors (add_error m res) = errors res @ [m]"
  "warnings (add_error m res) = warnings res"
  by (simp_all add: add_error_def)

lemma ebind_Inr_iff: "ebind m f = Inr y \<longleftrightarrow> (\<exists>x. m = Inr x \<and> f x = Inr y)"
  by (cases m) (simp_all add: ebind_def)

lemma ebind_Inl_iff: "ebind m f = Inl e \<longleftrightarrow> m = Inl e \<or> (\<exists>x. m = Inr x \<and> f x = Inl e)"
  by (cases m) (simp_all add: ebind_def)

lemma pass_value_Inr_iff:
  "pass_value d m = Inr x \<longleftrightarrow> (m = Inr x \<or> (m = Inl ValueError \<and> x = d))"
  by (cases m) (auto simp: pass_value_def)

lemma pass_value_type_Inr_iff:
  "pass_value_type d m = Inr x \<longleftrightarrow>
     (m = Inr x \<or> ((m = Inl ValueError \<or> m = Inl TypeError) \<and> x = d))"
  by (cases m) (auto simp: pass_value_type_def)

lemma py_strptime_Inr_iff:
  "py_strptime v fmt = Inr t \<longleftrightarrow> (\<exists>s. v = JStr s \<and> strptime s fmt = Some t)"
  by (cases v) (auto split: option.splits)

lemma py_strptime_ValueError_iff:
  "py_strptime v fmt = Inl ValueError \<longleftrightarrow> (\<exists>s. v = JStr s \<and> strptime s fmt = None)"
  by (cases v) (auto split: option.splits)

lemma py_getitem_Inr_iff:
  "py_getitem r k = Inr v \<longleftrightarrow> (\<exists>kvs. r = JObj kvs \<and> map_of kvs k = Some v)"
  by (cases r) (auto split: option.splits)

lemma py_getitem_not_ValueError: "py_getitem r k \<noteq> Inl ValueError"
  by (cases r) (auto split: option.splits)

lemma py_get_Inr_iff:
  "py_get r k = Inr v \<longleftrightarrow>
     (\<exists>kvs. r = JObj kvs \<and> (map_of kvs k = Some v \<or> (map_of kvs k = None \<and> v = JNull)))"
  by (cases r) (auto split: option.splits)

lemma project_dates_cases:
  assumes "project_dates r i res = Inr res'"
  shows "res' = res \<or>
     (res' = res\<lparr>errors := errors res @ [End_before_start i]\<rparr> \<and>
      (\<exists>kvs s1 s2 t1 t2. r = JObj kvs \<and> map_of kvs ''start_date'' = Some (JStr s1)
          \<and> map_of kvs ''end_date'' = Some (JStr s2)
          \<and> strptime s1 ''%Y-%m-%d'' = Some t1 \<and> strptime s2 ''%Y-%m-%d'' = Some t2
          \<and> t2 \<le> t1))"
  using assms unfolding project_dates_def
  by (auto simp: ebind_Inr_iff ebind_Inl_iff pass_value_Inr_iff py_strptime_Inr_iff
                 py_getitem_Inr_iff split: if_splits)

lemma payable_due_date_cases:
  assumes "payable_due_date now r i res = Inr res'"
  shows "res' = res \<or>
     (res' = res\<lparr>warnings := warnings res @ [Due_date_in_past i]\<rparr> \<and>
      (\<exists>kvs s t. r = JObj kvs \<and> map_of kvs ''status'' = Some (JStr ''pending'')
          \<and> map_of kvs ''due_date'' = Some (JStr s)
          \<and> strptime s ''%Y-%m-%d'' = Some t \<and> t < now))"
  using assms unfolding payable_due_date_def
  by (auto simp: ebind_Inr_iff ebind_Inl_iff pass_value_Inr_iff py_strptime_Inr_iff
                 py_getitem_Inr_iff py_get_Inr_iff split: if_splits)

lemma payable_amount_cases:
  assumes "payable_amount r i res = Inr res'"
  shows "res' = res \<or> res' = res\<lparr>errors := errors res @ [Amount_not_positive i]\<rparr>"
  using assms unfolding payable_amount_def
  by (auto simp: ebind_Inr_iff pass_value_type_Inr_iff split: if_splits)

lemma project_cost_cases:
  assumes "project_cost r i res = Inr res'"
  shows "res' = res \<or> res' = res\<lparr>warnings := warnings res @ [Cost_exceeds_budget i]\<rparr>"
  using assms unfolding project_cost_def
  by (auto simp: ebind_Inr_iff pass_value_type_Inr_iff split: if_splits)

lemma cash_flow_amount_cases:
  assumes "cash_flow_amount r i res = Inr res'"
  shows "res' = res \<or> res' = res\<lparr>warnings := warnings res @ [Large_cash_flow i]\<rparr>"
  using assms unfolding cash_flow_amount_def
  by (auto simp: ebind_Inr_iff pass_value_type_Inr_iff split: if_splits)

subsection \<open>Empty payloads\<close>

text \<open>
  C2 (as stated): validating an empty list payload gives a verdict that is valid. It does
  not: the guard \<^verbatim>\<open>if not data\<close> rejects an empty list.
\<close>

theorem empty_list_payload_counterexample:
  "\<not> is_valid (validate_microservice_data 0 ''accounts-payable'' ''invoices'' (JList []))"
  by (simp add: validate_microservice_data_def validate_body_def initial_result_def)

text \<open>
  C2 (amended): for every source name, an empty list payload is rejected by the guard on
  empty data with the single error \<^verbatim>\<open>'No data received'\<close>, zero records validated, zero
  failed and no warning; an empty record sequence inside the wrapper object
  \<^verbatim>\<open>{'data': []}\<close> gives a valid verdict with zero records validated, zero failed, no
  error and no warning.
\<close>

theorem empty_payload_verdict:
  "validate_microservice_data now service_name endpoint (JList []) =
     \<lparr>errors = [No_data_received], warnings = [], is_valid = False,
      records_validated = 0, records_failed = 0\<rparr>
   \<and> validate_microservice_data now service_name endpoint (JObj [(''data'', JList [])]) =
     \<lparr>errors = [], warnings = [], is_valid = True,
      records_validated = 0, records_failed = 0\<rparr>"
  by (simp add: validate_microservice_data_def validate_body_def initial_result_def
                overall_status_def ebind_def)


subsection \<open>Pattern checks\<close>

lemma check_patterns_mono:
  "check_patterns i r ps res = Inr res' \<Longrightarrow>
     set (errors res) \<subseteq> set (errors res') \<and> (\<not> is_valid res \<longrightarrow> \<not> is_valid res')"
proof (induction ps arbitrary: res)
  case Nil
  then show ?case by simp
next
  case (Cons p ps)
  obtain f alts where p: "p = (f, alts)" by (cases p)
  from Cons.prems obtain q where
    q: "check_patterns i r ps
          (case q of None \<Rightarrow> res
           | Some v \<Rightarrow> if \<not> re_match alts v then add_error (Pattern_mismatch i f) res else res) = Inr res'"
    by (auto simp: p ebind_Inr_iff)
  from Cons.IH[OF q] show ?case
    by (cases q) (auto simp: add_error_simps split: if_splits)
qed

lemma check_patterns_hit:
  "check_patterns i r ps res = Inr res' \<Longrightarrow> (f, alts) \<in> set ps \<Longrightarrow>
   field_present f r = Inr (Some v) \<Longrightarrow> \<not> re_match alts v \<Longrightarrow>
     Pattern_mismatch i f \<in> set (errors res') \<and> \<not> is_valid res'"
proof (induction ps arbitrary: res)
  case Nil
  then show ?case by simp
next
  case (Cons p ps)
  obtain g alts' where p: "p = (g, alts')" by (cases p)
  from Cons.prems(1) obtain q where
    fp: "field_present g r = Inr q" and
    q: "check_patterns i r ps
          (case q of None \<Rightarrow> res
           | Some v \<Rightarrow> if \<not> re_match alts' v then add_error (Pattern_mismatch i g) res else res) = Inr res'"
    by (auto simp: p ebind_Inr_iff)
  show ?case
  proof (cases "(f, alts) = p")
    case True
    with p fp Cons.prems have "q = Some v" "g = f" "alts' = alts" by auto
    with q Cons.prems(4) have
      "check_patterns i r ps (add_error (Pattern_mismatch i f) res) = Inr res'" by simp
    from check_patterns_mono[OF this] show ?thesis by (auto simp: add_error_simps)
  next
    case False
    with Cons.prems(2) have "(f, alts) \<in> set ps" by auto
    from Cons.IH[OF q this Cons.prems(3,4)] show ?thesis .
  qed
qed

lemma add_business_keeps:
  "set (errors res) \<subseteq> set (errors (add_business b res))"
  "\<not> is_valid res \<Longrightarrow> \<not> is_valid (add_business b res)"
  by (auto simp: add_business_def)

lemma pattern_mismatch_record:
  assumes "map_of validation_rules service_name = Some rules"
    and "(f, alts) \<in> set (field_patterns rules)"
    and "field_present f r = Inr (Some v)"
    and "\<not> re_match alts v"
    and "validate_record now service_name r i = Inr rv"
  shows "\<not> is_valid rv \<and> Pattern_mismatch i f \<in> set (errors rv)"
proof -
  from assms(1,5) obtain res3 res4 where
    cp: "check_patterns i r (field_patterns rules) res3 = Inr res4" and
    rv: "rv = add_business (validate_business_logic now service_name r i) res4"
    by (auto simp: validate_record_def ebind_Inr_iff)
  from check_patterns_hit[OF cp assms(2,3,4)] show ?thesis
    unfolding rv using add_business_keeps[of res4] by blast
qed

lemma check_required_warnings:
  "check_required i r fs res = Inr res' \<Longrightarrow> warnings res' = warnings res"
  by (induction fs arbitrary: res) (auto simp: ebind_Inr_iff add_error_simps split: if_splits)

lemma check_types_warnings:
  "check_types i r fs res = Inr res' \<Longrightarrow> warnings res' = warnings res"
proof (induction fs arbitrary: res)
  case Nil
  then show ?case by simp
next
  case (Cons p fs)
  obtain f ty where p: "p = (f, ty)" by (cases p)
  from Cons.prems obtain q where
    q: "check_types i r fs
          (case q of None \<Rightarrow> res
           | Some v \<Rightarrow> if \<not> validate_field_type v ty then add_error (Invalid_type i f ty) res else res) = Inr res'"
    by (auto simp: p ebind_Inr_iff)
  from Cons.IH[OF q] show ?case
    by (cases q) (auto simp: add_error_simps split: if_splits)
qed

lemma check_range_warnings:
  "check_range i f rc v res = Inr res' \<Longrightarrow> warnings res' = warnings res"
  unfolding check_range_def
  by (auto simp: add_error_simps split: sum.splits option.splits if_splits)

lemma check_ranges_warnings:
  "check_ranges i r fs res = Inr res' \<Longrightarrow> warnings res' = warnings res"
proof (induction fs arbitrary: res)
  case Nil
  then show ?case by simp
next
  case (Cons p fs)
  obtain f rc where p: "p = (f, rc)" by (cases p)
  from Cons.prems obtain q where
    q: "(case q of None \<Rightarrow> check_ranges i r fs res
         | Some v \<Rightarrow> ebind (check_range i f rc v res) (check_ranges i r fs)) = Inr res'"
    by (auto simp: p ebind_Inr_iff)
  show ?case
  proof (cases q)
    case None
    with q Cons.IH show ?thesis by simp
  next
    case (Some v)
    with q obtain res1 where a: "check_range i f rc v res = Inr res1"
      and b: "check_ranges i r fs res1 = Inr res'"
      by (auto simp: ebind_Inr_iff)
    from Cons.IH[OF b] check_range_warnings[OF a] show ?thesis by simp
  qed
qed

lemma check_patterns_warnings:
  "check_patterns i r ps res = Inr res' \<Longrightarrow> warnings res' = warnings res"
proof (induction ps arbitrary: res)
  case Nil
  then show ?case by simp
next
  case (Cons p ps)
  obtain f alts where p: "p = (f, alts)" by (cases p)
  from Cons.prems obtain q where
    q: "check_patterns i r ps
          (case q of None \<Rightarrow> res
           | Some v \<Rightarrow> if \<not> re_match alts v then add_error (Pattern_mismatch i f) res else res) = Inr res'"
    by (auto simp: p ebind_Inr_iff)
  from Cons.IH[OF q] show ?case
    by (cases q) (auto simp: add_error_simps split: if_splits)
qed

lemma business_warnings:
  assumes "m \<in> set (warnings (validate_business_logic now s r i))"
  shows "m \<in> {Due_date_in_past i, Cost_exceeds_budget i, Large_cash_flow i}
         \<or> (\<exists>e. m = Business_logic_error i e)"
  using assms
  by (auto simp: validate_business_logic_def split: if_splits sum.splits
           dest!: project_dates_cases project_cost_cases payable_due_date_cases
                  payable_amount_cases cash_flow_amount_cases)

lemma validate_record_warnings:
  assumes "map_of validation_rules service_name = Some rules"
    and "validate_record now service_name r i = Inr rv"
  shows "warnings rv = warnings (validate_business_logic now service_name r i)"
proof -
  from assms obtain res1 res2 res3 res4 where
    c1: "check_required i r (required_fields rules)
           \<lparr>errors = [], warnings = [], is_valid = True\<rparr> = Inr res1" and
    c2: "check_types i r (field_types rules) res1 = Inr res2" and
    c3: "check_ranges i r (field_ranges rules) res2 = Inr res3" and
    c4: "check_patterns i r (field_patterns rules) res3 = Inr res4" and
    rv: "rv = add_business (validate_business_logic now service_name r i) res4"
    by (auto simp: validate_record_def ebind_Inr_iff)
  from check_required_warnings[OF c1] check_types_warnings[OF c2]
       check_ranges_warnings[OF c3] check_patterns_warnings[OF c4]
  have "warnings res4 = []" by simp
  then show ?thesis by (simp add: rv add_business_def)
qed

text \<open>
  C1 (as stated): a pattern mismatch alone only appends a warning, never marks the record
  invalid and never increments the failed-record count. It does not hold: a payable whose
  only defect is the status \<^verbatim>\<open>overdue\<close>, which the pattern
  \<^verbatim>\<open>^(pending|approved|paid|cancelled)$\<close> rejects, is invalid, with one error, no warning
  and one failed record.
\<close>

theorem pattern_mismatch_counterexample:
  "validate_microservice_data 63871372800000000 ''accounts-payable'' ''payables''
     (JList [JObj [(''id'', JStr ''p1''), (''amount'', JInt 100),
                   (''due_date'', JStr ''2030-01-01''), (''supplier_id'', JStr ''s1''),
                   (''status'', JStr ''overdue'')]])
   = \<lparr>errors = [Pattern_mismatch 0 ''status''], warnings = [], is_valid = False,
      records_validated = 1, records_failed = 1\<rparr>"
  by code_simp

text \<open>
  C1 (amended): for every source with a declared rule set and every record whose
  validation returns, a failure of the pattern check (the field is present, not null,
  and its value does not match the configured pattern) marks the record invalid and
  appends the error \<^verbatim>\<open>Record i: Field "f" does not match required pattern\<close>; in the
  batch the record counts as failed and the error is among the errors collected. The
  pattern check does not produce a warning: it leaves the warnings as they are, the
  warnings of the record are those of the business checks, none of them is a pattern
  message, and the batch receives exactly the warnings of the record.
\<close>

theorem pattern_mismatch_invalidates:
  assumes "map_of validation_rules service_name = Some rules"
    and "(f, alts) \<in> set (field_patterns rules)"
    and "field_present f r = Inr (Some v)"
    and "\<not> re_match alts v"
    and "validate_record now service_name r i = Inr rv"
  shows "\<not> is_valid rv \<and> Pattern_mismatch i f \<in> set (errors rv)
         \<and> (\<forall>res0 res1. check_patterns i r (field_patterns rules) res0 = Inr res1
               \<longrightarrow> warnings res1 = warnings res0)
         \<and> warnings rv = warnings (validate_business_logic now service_name r i)
         \<and> (\<forall>k g. Pattern_mismatch k g \<notin> set (warnings rv))
         \<and> (\<exists>res'. validate_records now service_name i [r] res = Inr res'
                \<and> records_failed res' = records_failed res + 1
                \<and> Pattern_mismatch i f \<in> set (errors res')
                \<and> warnings res' = warnings res @ warnings rv)"
proof -
  from pattern_mismatch_record[OF assms]
  have a: "\<not> is_valid rv" "Pattern_mismatch i f \<in> set (errors rv)"
    by simp_all
  have b: "warnings rv = warnings (validate_business_logic now service_name r i)"
    by (rule validate_record_warnings[OF assms(1,5)])
  have c: "\<forall>k g. Pattern_mismatch k g \<notin> set (warnings rv)"
    unfolding b using business_warnings[of _ now service_name r i] by fastforce
  have d: "\<forall>res0 res1. check_patterns i r (field_patterns rules) res0 = Inr res1
               \<longrightarrow> warnings res1 = warnings res0"
    using check_patterns_warnings by blast
  from a b c d show ?thesis using assms(5) by (simp add: ebind_def count_record_def)
qed

theorem pattern_mismatch_invalidates_witness:
  "field_present ''status''
     (JObj [(''id'', JStr ''p1''), (''amount'', JInt 100), (''due_date'', JStr ''2030-01-01''),
            (''supplier_id'', JStr ''s1''), (''status'', JStr ''overdue'')])
     = Inr (Some (JStr ''overdue''))
   \<and> \<not> re_match [''pending'', ''approved'', ''paid'', ''cancelled''] (JStr ''overdue'')
   \<and> validate_record 63871372800000000 ''accounts-payable''
        (JObj [(''id'', JStr ''p1''), (''amount'', JInt 100), (''due_date'', JStr ''2030-01-01''),
               (''supplier_id'', JStr ''s1''), (''status'', JStr ''overdue'')]) 0
      = Inr \<lparr>errors = [Pattern_mismatch 0 ''status''], warnings = [], is_valid = False\<rparr>
   \<and> Pattern_mismatch 0 ''status''
        \<in> set (errors \<lparr>errors = [Pattern_mismatch 0 ''status''], warnings = [], is_valid = False\<rparr>)"
proof -
  let ?r = "JObj [(''id'', JStr ''p1''), (''amount'', JInt 100), (''due_date'', JStr ''2030-01-01''),
                  (''supplier_id'', JStr ''s1''), (''status'', JStr ''overdue'')]"
  let ?alts = "[''pending'', ''approved'', ''paid'', ''cancelled'']"
  obtain rules where h1: "map_of validation_rules ''accounts-payable'' = Some rules"
    and h2: "(''status'', ?alts) \<in> set (field_patterns rules)"
    by (simp add: validation_rules_def)
  have h3: "field_present ''status'' ?r = Inr (Some (JStr ''overdue''))"
    by code_simp
  have h4: "\<not> re_match ?alts (JStr ''overdue'')"
    by code_simp
  have h5: "validate_record 63871372800000000 ''accounts-payable'' ?r 0
              = Inr \<lparr>errors = [Pattern_mismatch 0 ''status''], warnings = [], is_valid = False\<rparr>"
    by code_simp
  from pattern_mismatch_invalidates[OF h1 h2 h3 h4 h5, of initial_result] h3 h4 h5
  show ?thesis by blast
qed


subsection \<open>Totality and the record counters\<close>

lemma validate_records_counts:
  "validate_records now s i rs res = Inr res' \<Longrightarrow>
   records_failed res \<le> records_validated res \<Longrightarrow>
     records_failed res' \<le> records_validated res'"
proof (induction rs arbitrary: i res)
  case Nil
  then show ?case by simp
next
  case (Cons r rs)
  from Cons.prems(1) obtain rv where
    step: "validate_records now s (Suc i) rs (count_record rv res) = Inr res'"
    by (auto simp: ebind_Inr_iff)
  show ?case
    by (rule Cons.IH[OF step]) (use Cons.prems(2) in \<open>simp add: count_record_def\<close>)
qed

lemma overall_status_counts:
  "records_failed (overall_status res) = records_failed res"
  "records_validated (overall_status res) = records_validated res"
  by (simp_all add: overall_status_def)

lemma initial_counts:
  "records_failed initial_result = 0" "records_validated initial_result = 0"
  by (simp_all add: initial_result_def)

lemma validate_records_initial:
  "validate_records now s 0 rs initial_result = Inr r \<Longrightarrow>
     records_failed (overall_status r) \<le> records_validated (overall_status r)"
  using validate_records_counts[of now s 0 rs initial_result r]
  by (simp add: overall_status_counts initial_counts)

lemma validate_body_counts:
  "validate_body now s e d = Inr res \<Longrightarrow> records_failed res \<le> records_validated res"
  unfolding validate_body_def
  by (auto simp: ebind_Inr_iff initial_counts overall_status_counts count_record_def
           dest: validate_records_initial
           split: if_splits json.splits option.splits)

text \<open>
  C9: \<^verbatim>\<open>validate_microservice_data\<close> returns a verdict for every service name and every
  data value: the function of the model is total and its result is a verdict, every
  exception of the body being handled. An exception inside is turned into the verdict
  with \<^verbatim>\<open>is_valid\<close> false, the single error \<^verbatim>\<open>Validation error: ...\<close>, and zero
  records validated and failed. In every verdict the failed records are at most the
  validated ones.
\<close>

theorem validate_total:
  "records_failed (validate_microservice_data now s e d)
     \<le> records_validated (validate_microservice_data now s e d)
   \<and> (\<forall>x. validate_body now s e d = Inl x \<longrightarrow>
         validate_microservice_data now s e d =
           \<lparr>errors = [Validation_error x], warnings = [], is_valid = False,
            records_validated = 0, records_failed = 0\<rparr>)"
proof (cases "validate_body now s e d")
  case (Inl x)
  then show ?thesis by (simp add: validate_microservice_data_def)
next
  case (Inr res)
  with validate_body_counts[OF Inr] show ?thesis by (simp add: validate_microservice_data_def)
qed

theorem validate_total_witness:
  "validate_body 0 ''accounts-payable'' ''payables'' (JList [JInt 5, JObj []]) = Inl TypeError
   \<and> validate_microservice_data 0 ''accounts-payable'' ''payables'' (JList [JInt 5, JObj []]) =
       \<lparr>errors = [Validation_error TypeError], warnings = [], is_valid = False,
        records_validated = 0, records_failed = 0\<rparr>"
proof -
  have w: "validate_body 0 ''accounts-payable'' ''payables'' (JList [JInt 5, JObj []]) = Inl TypeError"
    by code_simp
  from validate_total[of 0 "''accounts-payable''" "''payables''" "JList [JInt 5, JObj []]"] w
  show ?thesis by blast
qed


subsection \<open>Business checks on dates\<close>

lemma end_before_start_only_iso:
  assumes "End_before_start i \<in> set (errors (validate_business_logic now s r i))"
  shows "s = ''project-management'' \<and>
      (\<exists>kvs s1 s2 t1 t2. r = JObj kvs \<and> map_of kvs ''start_date'' = Some (JStr s1)
          \<and> map_of kvs ''end_date'' = Some (JStr s2)
          \<and> strptime s1 ''%Y-%m-%d'' = Some t1 \<and> strptime s2 ''%Y-%m-%d'' = Some t2
          \<and> t2 \<le> t1)"
  using assms
  by (auto simp: validate_business_logic_def split: if_splits sum.splits
           dest!: project_dates_cases project_cost_cases payable_due_date_cases
                  payable_amount_cases cash_flow_amount_cases)

lemma due_date_in_past_only_iso:
  assumes "Due_date_in_past i \<in> set (warnings (validate_business_logic now s r i))"
  shows "s = ''accounts-payable'' \<and>
      (\<exists>kvs sd t. r = JObj kvs \<and> map_of kvs ''status'' = Some (JStr ''pending'')
          \<and> map_of kvs ''due_date'' = Some (JStr sd)
          \<and> strptime sd ''%Y-%m-%d'' = Some t \<and> t < now)"
  using assms
  by (auto simp: validate_business_logic_def split: if_splits sum.splits
           dest!: project_dates_cases project_cost_cases payable_due_date_cases
                  payable_amount_cases cash_flow_amount_cases)

lemma map_of_Some_in_keys: "map_of kvs k = Some v \<Longrightarrow> k \<in> fst ` set kvs"
  by (metis map_of_eq_None_iff option.distinct(1))

lemma project_dates_skip:
  assumes "map_of kvs ''start_date'' = Some (JStr s1)"
    and "map_of kvs ''end_date'' = Some (JStr s2)"
    and "strptime s1 ''%Y-%m-%d'' = None \<or> strptime s2 ''%Y-%m-%d'' = None"
  shows "project_dates (JObj kvs) i res = Inr res"
  using assms map_of_Some_in_keys[OF assms(1)] map_of_Some_in_keys[OF assms(2)]
  unfolding project_dates_def
  by (auto simp: ebind_def pass_value_def split: option.splits)

lemma payable_due_date_skip:
  assumes "map_of kvs ''due_date'' = Some (JStr s)"
    and "strptime s ''%Y-%m-%d'' = None"
  shows "payable_due_date now (JObj kvs) i res = Inr res"
  using assms map_of_Some_in_keys[OF assms(1)]
  unfolding payable_due_date_def
  by (auto simp: ebind_def pass_value_def split: option.splits)

lemma project_dates_hit:
  assumes "map_of kvs ''start_date'' = Some (JStr s1)"
    and "map_of kvs ''end_date'' = Some (JStr s2)"
    and "strptime s1 ''%Y-%m-%d'' = Some t1" and "strptime s2 ''%Y-%m-%d'' = Some t2"
    and "t2 \<le> t1"
  shows "project_dates (JObj kvs) i res = Inr (res\<lparr>errors := errors res @ [End_before_start i]\<rparr>)"
  using assms map_of_Some_in_keys[OF assms(1)] map_of_Some_in_keys[OF assms(2)]
  unfolding project_dates_def
  by (auto simp: ebind_def pass_value_def)

lemma payable_due_date_hit:
  assumes "map_of kvs ''status'' = Some (JStr ''pending'')"
    and "map_of kvs ''due_date'' = Some (JStr sd)"
    and "strptime sd ''%Y-%m-%d'' = Some t" and "t < now"
  shows "payable_due_date now (JObj kvs) i res
           = Inr (res\<lparr>warnings := warnings res @ [Due_date_in_past i]\<rparr>)"
  using assms map_of_Some_in_keys[OF assms(2)]
  unfolding payable_due_date_def
  by (auto simp: ebind_def pass_value_def)

lemma end_before_start_if_iso:
  assumes "map_of kvs ''start_date'' = Some (JStr s1)"
    and "map_of kvs ''end_date'' = Some (JStr s2)"
    and "strptime s1 ''%Y-%m-%d'' = Some t1" and "strptime s2 ''%Y-%m-%d'' = Some t2"
    and "t2 \<le> t1"
  shows "End_before_start i
           \<in> set (errors (validate_business_logic now ''project-management'' (JObj kvs) i))"
proof -
  let ?res1 = "\<lparr>errors = [End_before_start i], warnings = []\<rparr>"
  from project_dates_hit[OF assms, of i "\<lparr>errors = [], warnings = []\<rparr>"]
  have a: "project_dates (JObj kvs) i \<lparr>errors = [], warnings = []\<rparr> = Inr ?res1" by simp
  show ?thesis
  proof (cases "project_cost (JObj kvs) i ?res1")
    case (Inl e)
    with a show ?thesis by (simp add: validate_business_logic_def)
  next
    case (Inr res2)
    from project_cost_cases[OF Inr] a Inr show ?thesis
      by (auto simp: validate_business_logic_def)
  qed
qed

lemma due_date_in_past_if_iso:
  assumes "map_of kvs ''status'' = Some (JStr ''pending'')"
    and "map_of kvs ''due_date'' = Some (JStr sd)"
    and "strptime sd ''%Y-%m-%d'' = Some t" and "t < now"
  shows "Due_date_in_past i
           \<in> set (warnings (validate_business_logic now ''accounts-payable'' (JObj kvs) i))"
proof -
  let ?res1 = "\<lparr>errors = [], warnings = [Due_date_in_past i]\<rparr>"
  from payable_due_date_hit[OF assms, of i "\<lparr>errors = [], warnings = []\<rparr>"]
  have a: "payable_due_date now (JObj kvs) i \<lparr>errors = [], warnings = []\<rparr> = Inr ?res1" by simp
  show ?thesis
  proof (cases "payable_amount (JObj kvs) i ?res1")
    case (Inl e)
    with a show ?thesis by (simp add: validate_business_logic_def)
  next
    case (Inr res2)
    from payable_amount_cases[OF Inr] a Inr show ?thesis
      by (auto simp: validate_business_logic_def)
  qed
qed

text \<open>
  C10 (as stated): the rule that a project's end date is after its start date, and the
  warning for a pending payable with a past due date, are evaluated only when the date
  fields are strings in the exact format YYYY-MM-DD. It does not hold: \<^verbatim>\<open>strptime\<close>
  under \<^verbatim>\<open>%Y-%m-%d\<close> also reads a month or a day of one digit, and white space before a
  field. The project with start \<^verbatim>\<open>2025-1-6\<close> and end \<^verbatim>\<open>2025-1-5\<close> gets the error, and
  the pending payable due on \<^verbatim>\<open>2024-12- 1\<close> gets the warning.
\<close>

theorem date_format_counterexample:
  "validate_record 63871372800000000 ''project-management''
     (JObj [(''id'', JStr ''j1''), (''name'', JStr ''Bridge''),
            (''start_date'', JStr ''2025-1-6''), (''end_date'', JStr ''2025-1-5'')]) 0
     = Inr \<lparr>errors = [End_before_start 0], warnings = [], is_valid = False\<rparr>
   \<and> validate_record 63871372800000000 ''accounts-payable''
     (JObj [(''id'', JStr ''p1''), (''amount'', JInt 100), (''due_date'', JStr ''2024-12- 1''),
            (''supplier_id'', JStr ''s1''), (''status'', JStr ''pending'')]) 0
     = Inr \<lparr>errors = [], warnings = [Due_date_in_past 0], is_valid = True\<rparr>"
  by code_simp

text \<open>
  C10 (amended): the two date checks follow \<^verbatim>\<open>strptime\<close> under \<^verbatim>\<open>%Y-%m-%d\<close>, not the
  exact form YYYY-MM-DD. The error \<^verbatim>\<open>End date must be after start date\<close> is produced
  exactly for a project whose start and end dates are strings that \<^verbatim>\<open>strptime\<close> accepts
  under \<^verbatim>\<open>%Y-%m-%d\<close> with the end not after the start; the warning for a due date in the
  past is produced exactly for a payable with status \<^verbatim>\<open>pending\<close> whose due date is such a
  string and lies before the clock. A date string that the type check accepts under
  another of its formats and that \<^verbatim>\<open>%Y-%m-%d\<close> rejects (DD/MM/YYYY, a form with a time)
  makes the check do nothing: the step returns the messages unchanged, with neither error
  nor warning.
\<close>

theorem date_checks_follow_strptime:
  "(End_before_start i \<in> set (errors (validate_business_logic now s r i)) \<longleftrightarrow>
      s = ''project-management'' \<and>
      (\<exists>kvs s1 s2 t1 t2. r = JObj kvs \<and> map_of kvs ''start_date'' = Some (JStr s1)
          \<and> map_of kvs ''end_date'' = Some (JStr s2)
          \<and> strptime s1 ''%Y-%m-%d'' = Some t1 \<and> strptime s2 ''%Y-%m-%d'' = Some t2
          \<and> t2 \<le> t1))
   \<and> (Due_date_in_past i \<in> set (warnings (validate_business_logic now s r i)) \<longleftrightarrow>
      s = ''accounts-payable'' \<and>
      (\<exists>kvs sd t. r = JObj kvs \<and> map_of kvs ''status'' = Some (JStr ''pending'')
          \<and> map_of kvs ''due_date'' = Some (JStr sd)
          \<and> strptime sd ''%Y-%m-%d'' = Some t \<and> t < now))
   \<and> (map_of kvs1 ''start_date'' = Some (JStr d1) \<and> map_of kvs1 ''end_date'' = Some (JStr d2)
       \<and> validate_field_type (JStr d1) ''date'' \<and> validate_field_type (JStr d2) ''date''
       \<and> (strptime d1 ''%Y-%m-%d'' = None \<or> strptime d2 ''%Y-%m-%d'' = None) \<longrightarrow>
         project_dates (JObj kvs1) i res = Inr res)
   \<and> (map_of kvs2 ''due_date'' = Some (JStr d) \<and> validate_field_type (JStr d) ''date''
       \<and> strptime d ''%Y-%m-%d'' = None \<longrightarrow>
         payable_due_date now (JObj kvs2) i res = Inr res)"
proof -
  have a: "End_before_start i \<in> set (errors (validate_business_logic now s r i)) \<longleftrightarrow>
      s = ''project-management'' \<and>
      (\<exists>kvs s1 s2 t1 t2. r = JObj kvs \<and> map_of kvs ''start_date'' = Some (JStr s1)
          \<and> map_of kvs ''end_date'' = Some (JStr s2)
          \<and> strptime s1 ''%Y-%m-%d'' = Some t1 \<and> strptime s2 ''%Y-%m-%d'' = Some t2
          \<and> t2 \<le> t1)"
    using end_before_start_only_iso[of i now s r] end_before_start_if_iso[where i=i and now=now]
    by blast
  have b: "Due_date_in_past i \<in> set (warnings (validate_business_logic now s r i)) \<longleftrightarrow>
      s = ''accounts-payable'' \<and>
      (\<exists>kvs sd t. r = JObj kvs \<and> map_of kvs ''status'' = Some (JStr ''pending'')
          \<and> map_of kvs ''due_date'' = Some (JStr sd)
          \<and> strptime sd ''%Y-%m-%d'' = Some t \<and> t < now)"
    using due_date_in_past_only_iso[of i now s r] due_date_in_past_if_iso[where i=i and now=now]
    by blast
  from a b project_dates_skip[of kvs1 d1 d2 i res] payable_due_date_skip[of kvs2 d now i res]
  show ?thesis by blast
qed

theorem date_checks_follow_strptime_witness:
  "strptime ''2025-1-6'' ''%Y-%m-%d'' = Some 63871804800000000
   \<and> strptime ''2025-1-5'' ''%Y-%m-%d'' = Some 63871718400000000
   \<and> End_before_start 0 \<in> set (errors (validate_business_logic 63871372800000000 ''project-management''
       (JObj [(''id'', JStr ''j1''), (''name'', JStr ''Bridge''),
              (''start_date'', JStr ''2025-1-6''), (''end_date'', JStr ''2025-1-5'')]) 0))
   \<and> End_before_start 0 \<in> set (errors (validate_business_logic 63871372800000000 ''project-management''
       (JObj [(''id'', JStr ''j1''), (''name'', JStr ''Bridge''),
              (''start_date'', JStr ''2025-01-01''), (''end_date'', JStr ''2025-01-01'')]) 0))
   \<and> Due_date_in_past 0 \<in> set (warnings (validate_business_logic 63871372800000000 ''accounts-payable''
       (JObj [(''id'', JStr ''p1''), (''amount'', JInt 100), (''due_date'', JStr ''2024-12-01''),
              (''supplier_id'', JStr ''s1''), (''status'', JStr ''pending'')]) 0))
   \<and> validate_field_type (JStr ''15/01/2025'') ''date''
   \<and> validate_field_type (JStr ''01/01/2025'') ''date''
   \<and> strptime ''15/01/2025'' ''%Y-%m-%d'' = None
   \<and> project_dates
        (JObj [(''id'', JStr ''j1''), (''name'', JStr ''Bridge''),
               (''start_date'', JStr ''15/01/2025''), (''end_date'', JStr ''01/01/2025'')]) 0
        \<lparr>errors = [], warnings = []\<rparr> = Inr \<lparr>errors = [], warnings = []\<rparr>
   \<and> validate_field_type (JStr ''2024-12-01 10:30:00'') ''date''
   \<and> strptime ''2024-12-01 10:30:00'' ''%Y-%m-%d'' = None
   \<and> payable_due_date 63871372800000000
        (JObj [(''id'', JStr ''p1''), (''amount'', JInt 100),
               (''due_date'', JStr ''2024-12-01 10:30:00''),
               (''supplier_id'', JStr ''s1''), (''status'', JStr ''pending'')]) 0
        \<lparr>errors = [], warnings = []\<rparr> = Inr \<lparr>errors = [], warnings = []\<rparr>
   \<and> validate_record 63871372800000000 ''project-management''
        (JObj [(''id'', JStr ''j1''), (''name'', JStr ''Bridge''),
               (''start_date'', JStr ''15/01/2025''), (''end_date'', JStr ''01/01/2025'')]) 0
       = Inr \<lparr>errors = [], warnings = [], is_valid = True\<rparr>"
proof -
  let ?p1 = "[(''id'', JStr ''j1''), (''name'', JStr ''Bridge''),
              (''start_date'', JStr ''2025-01-01''), (''end_date'', JStr ''2025-01-01'')]"
  let ?p2 = "[(''id'', JStr ''j1''), (''name'', JStr ''Bridge''),
              (''start_date'', JStr ''15/01/2025''), (''end_date'', JStr ''01/01/2025'')]"
  let ?a1 = "[(''id'', JStr ''p1''), (''amount'', JInt 100), (''due_date'', JStr ''2024-12-01''),
              (''supplier_id'', JStr ''s1''), (''status'', JStr ''pending'')]"
  let ?a2 = "[(''id'', JStr ''p1''), (''amount'', JInt 100),
              (''due_date'', JStr ''2024-12-01 10:30:00''),
              (''supplier_id'', JStr ''s1''), (''status'', JStr ''pending'')]"
  let ?p3 = "[(''id'', JStr ''j1''), (''name'', JStr ''Bridge''),
              (''start_date'', JStr ''2025-1-6''), (''end_date'', JStr ''2025-1-5'')]"
  have g1: "strptime ''2025-1-6'' ''%Y-%m-%d'' = Some 63871804800000000"
    by code_simp
  have g2: "strptime ''2025-1-5'' ''%Y-%m-%d'' = Some 63871718400000000"
    by code_simp
  have g3: "map_of ?p3 ''start_date'' = Some (JStr ''2025-1-6'')"
           "map_of ?p3 ''end_date'' = Some (JStr ''2025-1-5'')"
    by simp_all
  from date_checks_follow_strptime[of 0 63871372800000000 "''project-management''" "JObj ?p3",
         THEN conjunct1] g1 g2 g3
  have g4: "End_before_start 0 \<in> set (errors (validate_business_logic 63871372800000000
              ''project-management'' (JObj ?p3) 0))"
    by fastforce
  have h1: "End_before_start 0 \<in> set (errors (validate_business_logic 63871372800000000
              ''project-management'' (JObj ?p1) 0))"
    by code_simp
  have h2: "Due_date_in_past 0 \<in> set (warnings (validate_business_logic 63871372800000000
              ''accounts-payable'' (JObj ?a1) 0))"
    by code_simp
  have h3: "map_of ?p2 ''start_date'' = Some (JStr ''15/01/2025'')"
           "map_of ?p2 ''end_date'' = Some (JStr ''01/01/2025'')"
    by simp_all
  have h4: "validate_field_type (JStr ''15/01/2025'') ''date''"
    by code_simp
  have h5: "validate_field_type (JStr ''01/01/2025'') ''date''"
    by code_simp
  have h6: "strptime ''15/01/2025'' ''%Y-%m-%d'' = None"
    by code_simp
  have h7: "map_of ?a2 ''due_date'' = Some (JStr ''2024-12-01 10:30:00'')"
    by simp
  have h8: "validate_field_type (JStr ''2024-12-01 10:30:00'') ''date''"
    by code_simp
  have h9: "strptime ''2024-12-01 10:30:00'' ''%Y-%m-%d'' = None"
    by code_simp
  have h10: "validate_record 63871372800000000 ''project-management'' (JObj ?p2) 0
       = Inr \<lparr>errors = [], warnings = [], is_valid = True\<rparr>"
    by code_simp
  from date_checks_follow_strptime[of 0 63871372800000000 "''project-management''" "JObj ?p1"
         ?p2 "''15/01/2025''" "''01/01/2025''" "\<lparr>errors = [], warnings = []\<rparr>"
         ?a2 "''2024-12-01 10:30:00''"]
       h3 h4 h5 h6 h7 h8 h9
  have "project_dates (JObj ?p2) 0 \<lparr>errors = [], warnings = []\<rparr> = Inr \<lparr>errors = [], warnings = []\<rparr>"
    and "payable_due_date 63871372800000000 (JObj ?a2) 0 \<lparr>errors = [], warnings = []\<rparr>
           = Inr \<lparr>errors = [], warnings = []\<rparr>"
    by blast+
  with g1 g2 g4 h1 h2 h4 h5 h6 h8 h9 h10 show ?thesis by blast
qed


section \<open>Properties of the transformer\<close>

subsection \<open>The two scores\<close>

lemma risk_amount_cases:
  "risk_amount r s = Inr s' \<Longrightarrow> s' \<in> {s, s + 1 / 10, s + 2 / 10, s + 3 / 10}"
  unfolding risk_amount_def
  by (auto simp: ebind_Inr_iff split: option.splits if_splits)

lemma risk_due_date_cases:
  "risk_due_date now r s = Inr s' \<Longrightarrow> s' \<in> {s, s + 1 / 10, s + 2 / 10, s + 4 / 10}"
  unfolding risk_due_date_def
  by (auto simp: ebind_Inr_iff pass_value_Inr_iff split: option.splits if_splits)

lemma risk_status_cases:
  "risk_status r s = Inr s' \<Longrightarrow> s' \<in> {s, s + 1 / 10, s + 3 / 10}"
  unfolding risk_status_def
  by (auto simp: ebind_Inr_iff split: option.splits if_splits)

lemma probability_overdue_cases:
  "probability_overdue now r p = Inr p' \<Longrightarrow>
     p' \<in> {p, p * (3 / 10), p * (5 / 10), p * (7 / 10), p * (9 / 10)}"
  unfolding probability_overdue_def
  by (auto simp: ebind_Inr_iff pass_value_Inr_iff split: option.splits if_splits)

lemma probability_amount_cases:
  "probability_amount r p = Inr p' \<Longrightarrow> p' \<in> {p, p * (9 / 10), p * (8 / 10)}"
  unfolding probability_amount_def
  by (auto simp: ebind_Inr_iff split: option.splits if_splits)

lemma probability_status_cases:
  "probability_status r p = Inr p' \<Longrightarrow> p' \<in> {1, p, p * (6 / 10), p * (8 / 10)}"
  unfolding probability_status_def
  by (auto simp: ebind_Inr_iff split: option.splits if_splits)


lemma risk_amount_nonneg: "risk_amount r s = Inr s' \<Longrightarrow> 0 \<le> s \<Longrightarrow> 0 \<le> s'"
  by (drule risk_amount_cases) auto

lemma risk_due_date_nonneg: "risk_due_date now r s = Inr s' \<Longrightarrow> 0 \<le> s \<Longrightarrow> 0 \<le> s'"
  by (drule risk_due_date_cases) auto

lemma risk_status_nonneg: "risk_status r s = Inr s' \<Longrightarrow> 0 \<le> s \<Longrightarrow> 0 \<le> s'"
  by (drule risk_status_cases) auto

lemma payable_risk_score_range:
  assumes "payable_risk_score now r = Some x"
  shows "0 \<le> x \<and> x \<le> 1"
proof -
  from assms obtain s1 s2 s3 where
    a: "risk_amount r 0 = Inr s1" and b: "risk_due_date now r s1 = Inr s2"
    and c: "risk_status r s2 = Inr s3" and x: "x = min s3 1"
    unfolding payable_risk_score_def
    by (auto simp: ebind_Inr_iff split: sum.splits)
  from risk_amount_nonneg[OF a] have "0 \<le> s1" by simp
  from risk_due_date_nonneg[OF b this] have "0 \<le> s2" .
  from risk_status_nonneg[OF c this] have "0 \<le> s3" .
  then show ?thesis by (simp add: x)
qed

lemma scale_unit:
  fixes p c :: rat
  shows "0 \<le> p \<and> p \<le> 1 \<Longrightarrow> 0 \<le> c \<Longrightarrow> c \<le> 1 \<Longrightarrow> 0 \<le> p * c \<and> p * c \<le> 1"
  by (simp add: mult_le_one)

lemma probability_overdue_range:
  assumes "probability_overdue now r p = Inr p'" and "0 \<le> p \<and> p \<le> 1"
  shows "0 \<le> p' \<and> p' \<le> 1"
  using probability_overdue_cases[OF assms(1)] assms(2)
    scale_unit[OF assms(2), of "3 / 10"] scale_unit[OF assms(2), of "5 / 10"]
    scale_unit[OF assms(2), of "7 / 10"] scale_unit[OF assms(2), of "9 / 10"]
  by fastforce

lemma probability_amount_range:
  assumes "probability_amount r p = Inr p'" and "0 \<le> p \<and> p \<le> 1"
  shows "0 \<le> p' \<and> p' \<le> 1"
  using probability_amount_cases[OF assms(1)] assms(2)
    scale_unit[OF assms(2), of "9 / 10"] scale_unit[OF assms(2), of "8 / 10"]
  by fastforce

lemma probability_status_range:
  assumes "probability_status r p = Inr p'" and "0 \<le> p \<and> p \<le> 1"
  shows "0 \<le> p' \<and> p' \<le> 1"
  using probability_status_cases[OF assms(1)] assms(2)
    scale_unit[OF assms(2), of "6 / 10"] scale_unit[OF assms(2), of "8 / 10"]
  by fastforce

lemma collection_probability_range:
  assumes "collection_probability now r = Some x"
  shows "0 \<le> x \<and> x \<le> 1"
proof -
  from assms obtain p1 p2 p3 where
    a: "probability_overdue now r 1 = Inr p1" and b: "probability_amount r p1 = Inr p2"
    and c: "probability_status r p2 = Inr p3" and x: "x = max p3 0"
    unfolding collection_probability_def
    by (auto simp: ebind_Inr_iff split: sum.splits)
  from probability_overdue_range[OF a] have "0 \<le> p1 \<and> p1 \<le> 1" by simp
  from probability_amount_range[OF b this] have "0 \<le> p2 \<and> p2 \<le> 1" .
  from probability_status_range[OF c this] have "0 \<le> p3 \<and> p3 \<le> 1" .
  then show ?thesis by (simp add: x)
qed

text \<open>
  C5: the amount tier of the collection probability multiplies by 0.8 above 500000 and
  otherwise by 0.9 above 100000, so that an amount of 600000 with no other discount gives
  0.8. The code tests \<^verbatim>\<open>amount > 100000\<close> first and \<^verbatim>\<open>amount > 500000\<close> in the
  \<^verbatim>\<open>elif\<close>, which is never reached: the record with amount 600000 gives 0.9.
\<close>

theorem collection_probability_amount_600000:
  "collection_probability now (JObj [(''amount'', JInt 600000)]) = Some (9 / 10)
   \<and> calculate_collection_probability now (JObj [(''amount'', JInt 600000)]) service_name
       = JFloat (Fin (9 / 10))"
  by (simp add: calculate_collection_probability_def float_or_none_def
        collection_probability_def probability_overdue_def probability_amount_def
        probability_status_def field_true_def ebind_def fgt_def fint_def float_overflow_def)

text \<open>
  C7: whenever the risk score of a payable is not null it lies in [0, 1], and whenever the
  collection probability of a receivable is not null it lies in [0, 1].
\<close>

theorem scores_in_unit_interval:
  "(calculate_payable_risk_score now r service_name \<noteq> JNull \<longrightarrow>
      (\<exists>x. calculate_payable_risk_score now r service_name = JFloat (Fin x) \<and> 0 \<le> x \<and> x \<le> 1))
   \<and> (calculate_collection_probability now r service_name \<noteq> JNull \<longrightarrow>
      (\<exists>x. calculate_collection_probability now r service_name = JFloat (Fin x) \<and> 0 \<le> x \<and> x \<le> 1))"
  using payable_risk_score_range[of now r] collection_probability_range[of now r]
  by (auto simp: calculate_payable_risk_score_def calculate_collection_probability_def
                 float_or_none_def split: option.splits)

theorem scores_in_unit_interval_witness:
  "calculate_payable_risk_score 63871372800000000
     (JObj [(''id'', JStr ''p1''), (''amount'', JInt 150000), (''due_date'', JStr ''2024-12-22''),
            (''status'', JStr ''overdue''), (''supplier_id'', JStr ''s1'')]) ''accounts-payable''
     = JFloat (Fin 1)
   \<and> calculate_collection_probability 63871372800000000
     (JObj [(''id'', JStr ''r1''), (''amount'', JInt 200000), (''payment_date'', JStr ''2024-11-01''),
            (''status'', JStr ''overdue''), (''customer_id'', JStr ''c1'')]) ''accounts-receivable''
     = JFloat (Fin (27 / 100))
   \<and> (0::rat) \<le> 27 / 100 \<and> (27 / 100 :: rat) \<le> 1"
proof -
  let ?p = "JObj [(''id'', JStr ''p1''), (''amount'', JInt 150000), (''due_date'', JStr ''2024-12-22''),
            (''status'', JStr ''overdue''), (''supplier_id'', JStr ''s1'')]"
  let ?q = "JObj [(''id'', JStr ''r1''), (''amount'', JInt 200000), (''payment_date'', JStr ''2024-11-01''),
            (''status'', JStr ''overdue''), (''customer_id'', JStr ''c1'')]"
  have h1: "calculate_payable_risk_score 63871372800000000 ?p ''accounts-payable'' = JFloat (Fin 1)"
    by code_simp
  have h2: "calculate_collection_probability 63871372800000000 ?q ''accounts-receivable''
              = JFloat (Fin (27 / 100))"
    by code_simp
  from scores_in_unit_interval[of 63871372800000000 ?p "''accounts-payable''"] h1
  have "\<exists>x. JFloat (Fin 1) = JFloat (Fin x) \<and> 0 \<le> x \<and> x \<le> 1" by simp
  moreover
  from scores_in_unit_interval[of 63871372800000000 ?q "''accounts-receivable''"] h2
  have "\<exists>x. JFloat (Fin (27 / 100)) = JFloat (Fin x) \<and> 0 \<le> x \<and> x \<le> 1" by simp
  ultimately show ?thesis using h1 h2 by simp
qed


subsection \<open>System fields\<close>

lemma map_of_dict_set:
  "map_of (dict_set k v t) k' = (if k' = k then Some v else map_of t k')"
  by (induction t) auto

lemma add_metadata_fields:
  "map_of (add_metadata rt r s t) ''_source_service'' = Some (JStr s)"
  "map_of (add_metadata rt r s t) ''_transformed_at'' = Some (JStr (utcnow_isoformat rt))"
  "map_of (add_metadata rt r s t) ''_record_hash'' = Some (JStr (calculate_record_hash rt r))"
  by (simp_all add: add_metadata_def map_of_dict_set)

lemma add_metadata_other:
  "k \<noteq> ''_source_service'' \<Longrightarrow> k \<noteq> ''_transformed_at'' \<Longrightarrow> k \<noteq> ''_record_hash'' \<Longrightarrow>
     map_of (add_metadata rt r s t) k = map_of t k"
  by (simp add: add_metadata_def map_of_dict_set)

lemma transform_record_fields:
  assumes "transform_record rt r rules s = Some t"
  shows "\<exists>kvs. t = JObj kvs \<and> map_of kvs ''_source_service'' = Some (JStr s)
           \<and> map_of kvs ''_transformed_at'' = Some (JStr (utcnow_isoformat rt))
           \<and> map_of kvs ''_record_hash'' = Some (JStr (calculate_record_hash rt r))"
  using assms unfolding transform_record_def
  by (auto simp: add_metadata_fields split: sum.splits)

lemma transform_records_set:
  "t \<in> set (transform_records rt rules s rs) \<Longrightarrow>
     \<exists>r \<in> set rs. transform_record rt r rules s = Some t"
  by (induction rs) (auto split: option.splits if_splits)

lemma dict_set_nonempty: "dict_set k v t \<noteq> []"
  by (cases t) (auto split: if_splits)

lemma transform_record_truthy:
  "transform_record rt r rules s = Some t \<Longrightarrow> truthy t"
  unfolding transform_record_def
  by (auto simp: add_metadata_def dict_set_nonempty split: sum.splits)

lemma transform_records_map_filter:
  "transform_records rt rules s rs = List.map_filter (\<lambda>r. transform_record rt r rules s) rs"
  by (induction rs) (auto simp: List.map_filter_simps transform_record_truthy split: option.splits)

lemma transformed_in_order:
  assumes "map_of transformation_rules s = Some rules" and "truthy d" and "records_of d = Some rs"
  shows "transform_microservice_data rt s e d
           = List.map_filter (\<lambda>r. transform_record rt r rules s) rs"
  using assms by (simp add: transform_microservice_data_def transform_records_map_filter)

lemma transformed_member:
  assumes "map_of transformation_rules s = Some rules"
    and "t \<in> set (transform_microservice_data rt s e d)"
  shows "\<exists>rs r. records_of d = Some rs \<and> r \<in> set rs \<and> transform_record rt r rules s = Some t"
proof -
  from assms obtain rs where rs: "records_of d = Some rs"
    and t: "t \<in> set (transform_records rt rules s rs)"
    unfolding transform_microservice_data_def
    by (cases "records_of d") (auto split: if_splits)
  from transform_records_set[OF t] rs show ?thesis by blast
qed

lemma untransformed_without_rules:
  assumes "map_of transformation_rules s = None" and "truthy d" and "records_of d = Some rs"
  shows "transform_microservice_data rt s e d = rs"
  using assms by (simp add: transform_microservice_data_def)

text \<open>
  C6 (as stated): for every source name, also one without a declared rule set, every
  record returned carries the three system fields. It does not hold: for a source without
  rules the records are returned as they came.
\<close>

theorem system_fields_counterexample:
  "transform_microservice_data
     \<lparr>local_now = 63871372800000000, utcnow_isoformat = ''2025-01-01T00:00:00'',
      json_dumps_sorted = (\<lambda>r. ''{}''), str_hash = (\<lambda>s. 42)\<rparr>
     ''company'' ''companies'' (JList [JObj [(''id'', JInt 1)]])
   = [JObj [(''id'', JInt 1)]]"
  by code_simp

text \<open>
  C6 (amended): for every source with a declared transformation rule set and every
  non-empty payload, the result is, in the order of the payload, the transforms of its
  records, a record whose transformation raises being left out. Every record returned is
  a dictionary that carries \<^verbatim>\<open>_source_service\<close> (the service name),
  \<^verbatim>\<open>_transformed_at\<close> (the UTC time of the transformation) and \<^verbatim>\<open>_record_hash\<close>, the
  text of the hash of the key-sorted JSON serialisation of the very record of the payload
  of which it is the transform, as that record was before the transformation. The hash is
  stable within a run: two records with the same serialisation get the same hash; the
  built-in hash of a string is salted per process and is a parameter of the run. For a
  source without a rule set the records of a non-empty payload are returned unchanged,
  with no system field added.
\<close>

theorem system_fields:
  "(map_of transformation_rules s = Some rules \<and> truthy d \<and> records_of d = Some rs \<longrightarrow>
      transform_microservice_data rt s e d
        = List.map_filter (\<lambda>r. transform_record rt r rules s) rs)
   \<and> (map_of transformation_rules s = Some rules \<and> t \<in> set (transform_microservice_data rt s e d) \<longrightarrow>
      (\<exists>rs r. records_of d = Some rs \<and> r \<in> set rs \<and> transform_record rt r rules s = Some t))
   \<and> (transform_record rt r rules s = Some t \<longrightarrow>
      (\<exists>kvs. t = JObj kvs
           \<and> map_of kvs ''_source_service'' = Some (JStr s)
           \<and> map_of kvs ''_transformed_at'' = Some (JStr (utcnow_isoformat rt))
           \<and> map_of kvs ''_record_hash''
                = Some (JStr (str_int (str_hash rt (json_dumps_sorted rt r))))))
   \<and> (json_dumps_sorted rt r = json_dumps_sorted rt r' \<longrightarrow>
        calculate_record_hash rt r = calculate_record_hash rt r')
   \<and> (map_of transformation_rules s = None \<and> truthy d \<and> records_of d = Some rs' \<longrightarrow>
        transform_microservice_data rt s e d = rs')"
proof -
  have a: "transform_record rt r rules s = Some t \<longrightarrow>
      (\<exists>kvs. t = JObj kvs
           \<and> map_of kvs ''_source_service'' = Some (JStr s)
           \<and> map_of kvs ''_transformed_at'' = Some (JStr (utcnow_isoformat rt))
           \<and> map_of kvs ''_record_hash''
                = Some (JStr (str_int (str_hash rt (json_dumps_sorted rt r)))))"
    using transform_record_fields[of rt r rules s t] unfolding calculate_record_hash_def by blast
  have b: "json_dumps_sorted rt r = json_dumps_sorted rt r' \<longrightarrow>
        calculate_record_hash rt r = calculate_record_hash rt r'"
    by (simp add: calculate_record_hash_def)
  from a b transformed_in_order[of s rules d rs rt e] transformed_member[of s rules t rt e d]
       untransformed_without_rules[of s d rs' rt e]
  show ?thesis by blast
qed

theorem system_fields_witness:
  "transform_microservice_data
     \<lparr>local_now = 63871372800000000, utcnow_isoformat = ''2025-01-01T00:00:00'',
      json_dumps_sorted = (\<lambda>r. case r of JObj kvs \<Rightarrow> concat (map fst kvs) | _ \<Rightarrow> []),
      str_hash = (\<lambda>s. int (length s))\<rparr>
     ''cash-flow'' ''flows''
     (JList [JObj [(''id'', JStr ''f1''), (''type'', JStr ''inflow'')], JInt 5,
            JObj [(''id'', JStr ''f2'')]])
   = [JObj [(''cashflow_id'', JStr ''f1''), (''transaction_date'', JNull),
            (''flow_type'', JStr ''inflow''), (''flow_amount'', JNull),
            (''cumulative_balance'', JNull), (''monthly_total'', JNull),
            (''trend_indicator'', JNull),
            (''_source_service'', JStr ''cash-flow''),
            (''_transformed_at'', JStr ''2025-01-01T00:00:00''),
            (''_record_hash'', JStr ''6'')],
      JObj [(''cashflow_id'', JStr ''f2''), (''transaction_date'', JNull),
            (''flow_type'', JNull), (''flow_amount'', JNull),
            (''cumulative_balance'', JNull), (''monthly_total'', JNull),
            (''trend_indicator'', JNull),
            (''_source_service'', JStr ''cash-flow''),
            (''_transformed_at'', JStr ''2025-01-01T00:00:00''),
            (''_record_hash'', JStr ''2'')]]
   \<and> (\<exists>rs r. records_of (JList [JObj [(''id'', JStr ''f1''), (''type'', JStr ''inflow'')], JInt 5,
            JObj [(''id'', JStr ''f2'')]]) = Some rs \<and> r \<in> set rs)
   \<and> (\<exists>kvs. JObj [(''cashflow_id'', JStr ''f2''), (''transaction_date'', JNull),
            (''flow_type'', JNull), (''flow_amount'', JNull),
            (''cumulative_balance'', JNull), (''monthly_total'', JNull),
            (''trend_indicator'', JNull),
            (''_source_service'', JStr ''cash-flow''),
            (''_transformed_at'', JStr ''2025-01-01T00:00:00''),
            (''_record_hash'', JStr ''2'')] = JObj kvs
          \<and> map_of kvs ''_record_hash'' = Some (JStr (str_int 2)))
   \<and> map_of transformation_rules ''company'' = None
   \<and> transform_microservice_data
        \<lparr>local_now = 63871372800000000, utcnow_isoformat = ''2025-01-01T00:00:00'',
      json_dumps_sorted = (\<lambda>r. case r of JObj kvs \<Rightarrow> concat (map fst kvs) | _ \<Rightarrow> []),
      str_hash = (\<lambda>s. int (length s))\<rparr>
        ''company'' ''companies'' (JList [JObj [(''id'', JInt 1)]])
      = [JObj [(''id'', JInt 1)]]"
proof -
  let ?rt = "\<lparr>local_now = 63871372800000000, utcnow_isoformat = ''2025-01-01T00:00:00'',
      json_dumps_sorted = (\<lambda>r. case r of JObj kvs \<Rightarrow> concat (map fst kvs) | _ \<Rightarrow> []),
      str_hash = (\<lambda>s. int (length s))\<rparr>"
  let ?d = "JList [JObj [(''id'', JStr ''f1''), (''type'', JStr ''inflow'')], JInt 5,
            JObj [(''id'', JStr ''f2'')]]"
  let ?t1 = "JObj [(''cashflow_id'', JStr ''f1''), (''transaction_date'', JNull),
            (''flow_type'', JStr ''inflow''), (''flow_amount'', JNull),
            (''cumulative_balance'', JNull), (''monthly_total'', JNull),
            (''trend_indicator'', JNull),
            (''_source_service'', JStr ''cash-flow''),
            (''_transformed_at'', JStr ''2025-01-01T00:00:00''),
            (''_record_hash'', JStr ''6'')]"
  let ?t2 = "JObj [(''cashflow_id'', JStr ''f2''), (''transaction_date'', JNull),
            (''flow_type'', JNull), (''flow_amount'', JNull),
            (''cumulative_balance'', JNull), (''monthly_total'', JNull),
            (''trend_indicator'', JNull),
            (''_source_service'', JStr ''cash-flow''),
            (''_transformed_at'', JStr ''2025-01-01T00:00:00''),
            (''_record_hash'', JStr ''2'')]"
  have out: "transform_microservice_data ?rt ''cash-flow'' ''flows'' ?d = [?t1, ?t2]"
    by code_simp
  obtain rules where h1: "map_of transformation_rules ''cash-flow'' = Some rules"
    by (simp add: transformation_rules_def)
  have h2: "?t2 \<in> set (transform_microservice_data ?rt ''cash-flow'' ''flows'' ?d)"
    unfolding out by simp
  have h3: "map_of transformation_rules ''company'' = None"
    by (simp add: transformation_rules_def)
  have h4: "truthy (JList [JObj [(''id'', JInt 1)]])"
    by simp
  have h5: "records_of (JList [JObj [(''id'', JInt 1)]]) = Some [JObj [(''id'', JInt 1)]]"
    by (simp add: records_of_def)
  note system_fields[of "''cash-flow''" rules ?d _ ?rt "''flows''" ?t2, THEN conjunct2,
         THEN conjunct1, THEN mp, OF conjI[OF h1 h2]]
  then have a': "\<exists>rs r. records_of ?d = Some rs \<and> r \<in> set rs"
    by blast
  have tr: "transform_record ?rt (JObj [(''id'', JStr ''f2'')])
              (the (map_of transformation_rules ''cash-flow'')) ''cash-flow'' = Some ?t2"
    by code_simp
  note system_fields[of "''cash-flow''" "the (map_of transformation_rules ''cash-flow'')" ?d _ ?rt
         "''flows''" ?t2 "JObj [(''id'', JStr ''f2'')]", THEN conjunct2,
         THEN conjunct2, THEN conjunct1, THEN mp, OF tr]
  then have c: "\<exists>kvs. ?t2 = JObj kvs \<and> map_of kvs ''_record_hash'' = Some (JStr (str_int 2))"
    by simp
  from system_fields[of "''company''" _ "JList [JObj [(''id'', JInt 1)]]" _ ?rt "''companies''"
         _ _ _ "[JObj [(''id'', JInt 1)]]"] h3 h4 h5
  have b: "transform_microservice_data ?rt ''company'' ''companies'' (JList [JObj [(''id'', JInt 1)]])
         = [JObj [(''id'', JInt 1)]]"
    by blast
  from out a' c h3 b show ?thesis by blast
qed


subsection \<open>Field mappings\<close>

lemma keep_unmapped_other:
  assumes "k \<in> set (map fst fm) \<or> k \<notin> set (map fst kvs)"
  shows "map_of (keep_unmapped fm kvs t) k = map_of t k"
  using assms
proof (induction kvs arbitrary: t)
  case Nil
  then show ?case by simp
next
  case (Cons p kvs)
  obtain f w where p: "p = (f, w)" by (cases p)
  from Cons.prems have hyp: "k \<in> set (map fst fm) \<or> k \<notin> set (map fst kvs)" by auto
  from Cons.prems p have ne: "f \<notin> set (map fst fm) \<Longrightarrow> f \<noteq> k" by auto
  show ?case using Cons.IH[OF hyp] ne by (auto simp: p map_of_dict_set)
qed

lemma keep_unmapped_kept:
  "distinct (map fst kvs) \<Longrightarrow> k \<notin> set (map fst fm) \<Longrightarrow> map_of kvs k = Some v \<Longrightarrow>
     map_of (keep_unmapped fm kvs t) k = Some v"
proof (induction kvs arbitrary: t)
  case Nil
  then show ?case by simp
next
  case (Cons p kvs)
  obtain f w where p: "p = (f, w)" by (cases p)
  show ?case
  proof (cases "f = k")
    case True
    with Cons.prems p have "w = v" "k \<notin> set (map fst kvs)" by auto
    with True p Cons.prems(2) show ?thesis
      by (simp add: keep_unmapped_other map_of_dict_set)
  next
    case False
    with Cons.prems p have "distinct (map fst kvs)" "map_of kvs k = Some v" by auto
    from Cons.IH[OF this(1) Cons.prems(2) this(2)] p show ?thesis by simp
  qed
qed

lemma apply_calculated_other:
  "k \<notin> set (map fst cs) \<Longrightarrow> map_of (apply_calculated n r s cs t) k = map_of t k"
  by (induction cs arbitrary: t) (auto simp: map_of_dict_set)

lemma py_getitem_in:
  "k \<in> set (map fst kvs) \<Longrightarrow> \<exists>v. py_getitem (JObj kvs) k = Inr v"
  by (cases "map_of kvs k") (auto simp: map_of_eq_None_iff)

lemma apply_mappings_dict:
  "\<exists>t'. apply_mappings (JObj kvs) ms t = Inr t'"
proof (induction ms arbitrary: t)
  case Nil
  then show ?case by simp
next
  case (Cons m ms)
  obtain a b where m: "m = (a, b)" by (cases m)
  show ?case
  proof (cases "a \<in> set (map fst kvs)")
    case True
    from py_getitem_in[OF True] obtain v where "py_getitem (JObj kvs) a = Inr v" by blast
    with True Cons.IH[of "dict_set b v t"] show ?thesis by (simp add: m ebind_def)
  next
    case False
    with Cons.IH[of "dict_set b JNull t"] show ?thesis by (simp add: m ebind_def)
  qed
qed

lemma apply_mappings_other:
  "apply_mappings (JObj kvs) ms t = Inr t' \<Longrightarrow> k \<notin> set (map snd ms) \<Longrightarrow>
     map_of t' k = map_of t k"
  by (induction ms arbitrary: t)
     (auto simp: ebind_def map_of_dict_set split: option.splits if_splits)

lemma apply_mappings_absent:
  "apply_mappings (JObj kvs) ms t = Inr t' \<Longrightarrow> distinct (map snd ms) \<Longrightarrow>
   (original, new) \<in> set ms \<Longrightarrow> original \<notin> set (map fst kvs) \<Longrightarrow>
     map_of t' new = Some JNull"
proof (induction ms arbitrary: t)
  case Nil
  then show ?case by simp
next
  case (Cons m ms)
  obtain a b where m: "m = (a, b)" by (cases m)
  show ?case
  proof (cases "(original, new) = m")
    case True
    with m Cons.prems have
      "apply_mappings (JObj kvs) ms (dict_set new JNull t) = Inr t'" "new \<notin> set (map snd ms)"
      by (auto simp: ebind_def)
    from apply_mappings_other[OF this] show ?thesis by (simp add: map_of_dict_set)
  next
    case False
    with Cons.prems(3) have in_ms: "(original, new) \<in> set ms" by auto
    from Cons.prems(2) have d: "distinct (map snd ms)" by simp
    from Cons.prems(1) m obtain t1 where "apply_mappings (JObj kvs) ms t1 = Inr t'"
      by (auto simp: ebind_def split: option.splits if_splits)
    from Cons.IH[OF this d in_ms Cons.prems(4)] show ?thesis .
  qed
qed

lemma transform_record_dict:
  assumes "distinct (map fst kvs)"
  shows "\<exists>out. transform_record rt (JObj kvs) rules s = Some (JObj out)
     \<and> (\<forall>k v. map_of kvs k = Some v \<and> k \<notin> set (map fst (field_mappings rules))
            \<and> k \<notin> set (map fst (calculated_fields rules))
            \<and> k \<notin> {''_source_service'', ''_transformed_at'', ''_record_hash''}
          \<longrightarrow> map_of out k = Some v)
     \<and> (\<forall>original new. (original, new) \<in> set (field_mappings rules)
            \<and> distinct (map snd (field_mappings rules))
            \<and> original \<notin> set (map fst kvs)
            \<and> \<not> (new \<in> set (map fst kvs) \<and> new \<notin> set (map fst (field_mappings rules)))
            \<and> new \<notin> set (map fst (calculated_fields rules))
            \<and> new \<notin> {''_source_service'', ''_transformed_at'', ''_record_hash''}
          \<longrightarrow> map_of out new = Some JNull)"
proof -
  obtain t1 where t1: "apply_mappings (JObj kvs) (field_mappings rules) [] = Inr t1"
    using apply_mappings_dict by blast
  let ?t2 = "keep_unmapped (field_mappings rules) kvs t1"
  let ?t3 = "apply_calculated (local_now rt) (JObj kvs) s (calculated_fields rules) ?t2"
  let ?out = "add_metadata rt (JObj kvs) s ?t3"
  have tr: "transform_record rt (JObj kvs) rules s = Some (JObj ?out)"
    by (simp add: transform_record_def t1 ebind_def)
  have a: "map_of ?out k = Some v"
    if "map_of kvs k = Some v" "k \<notin> set (map fst (field_mappings rules))"
       "k \<notin> set (map fst (calculated_fields rules))"
       "k \<notin> {''_source_service'', ''_transformed_at'', ''_record_hash''}" for k v
  proof -
    have "map_of ?t2 k = Some v" using keep_unmapped_kept[OF assms that(2) that(1)] .
    then have "map_of ?t3 k = Some v" using apply_calculated_other[OF that(3)] by simp
    then show ?thesis using that(4) by (simp add: add_metadata_other)
  qed
  have b: "map_of ?out new = Some JNull"
    if "(original, new) \<in> set (field_mappings rules)" "distinct (map snd (field_mappings rules))"
       "original \<notin> set (map fst kvs)"
       "\<not> (new \<in> set (map fst kvs) \<and> new \<notin> set (map fst (field_mappings rules)))"
       "new \<notin> set (map fst (calculated_fields rules))"
       "new \<notin> {''_source_service'', ''_transformed_at'', ''_record_hash''}" for original new
  proof -
    have "map_of t1 new = Some JNull" using apply_mappings_absent[OF t1 that(2) that(1) that(3)] .
    moreover have "map_of ?t2 new = map_of t1 new"
      using that(4) by (intro keep_unmapped_other) blast
    ultimately have "map_of ?t3 new = Some JNull" using apply_calculated_other[OF that(5)] by simp
    then show ?thesis using that(6) by (simp add: add_metadata_other)
  qed
  from tr a b show ?thesis by blast
qed

lemma rules_table_facts:
  assumes "map_of transformation_rules s = Some rules"
  shows "distinct (map snd (field_mappings rules))
     \<and> set (map snd (field_mappings rules)) \<inter> set (map fst (calculated_fields rules)) = {}
     \<and> set (map snd (field_mappings rules))
         \<inter> {''_source_service'', ''_transformed_at'', ''_record_hash''} = {}"
  using assms unfolding transformation_rules_def
  by (auto split: if_splits)

text \<open>
  C8 (as stated): every key of the input record that is absent from the mapping table
  appears in the output with its value unchanged. It does not hold when the key has the
  name of a calculated field: the input key \<^verbatim>\<open>risk_score\<close> of a payable is not in the
  mapping table, and the output carries the calculated score in its place.
\<close>

theorem unmapped_field_counterexample:
  "transform_microservice_data
     \<lparr>local_now = 63871372800000000, utcnow_isoformat = ''2025-01-01T00:00:00'',
      json_dumps_sorted = (\<lambda>r. ''{}''), str_hash = (\<lambda>s. 42)\<rparr>
     ''accounts-payable'' ''payables'' (JList [JObj [(''risk_score'', JStr ''high'')]])
   = [JObj [(''payable_id'', JNull), (''payable_amount'', JNull), (''payable_due_date'', JNull),
            (''supplier_id'', JNull), (''payable_status'', JNull),
            (''risk_score'', JFloat (Fin 0)), (''days_until_due'', JNull), (''amount_cad'', JNull),
            (''_source_service'', JStr ''accounts-payable''),
            (''_transformed_at'', JStr ''2025-01-01T00:00:00''),
            (''_record_hash'', JStr ''42'')]]"
  by code_simp

text \<open>
  C8 (amended): for every source with a declared mapping table and every input record
  (a dictionary), the record is transformed, and every key of the input that is absent
  from the mapping table and is neither the name of a calculated field of the source nor
  one of the three system fields appears in the output with its value unchanged; every
  mapped field absent from the input appears in the output as an explicit null under its
  canonical name, unless the input itself has an unmapped key of that canonical name.
\<close>

theorem unmapped_fields_carried:
  assumes "map_of transformation_rules s = Some rules" and "distinct (map fst kvs)"
  shows "\<exists>out. transform_record rt (JObj kvs) rules s = Some (JObj out)
     \<and> (\<forall>k v. map_of kvs k = Some v \<and> k \<notin> set (map fst (field_mappings rules))
            \<and> k \<notin> set (map fst (calculated_fields rules))
            \<and> k \<notin> {''_source_service'', ''_transformed_at'', ''_record_hash''}
          \<longrightarrow> map_of out k = Some v)
     \<and> (\<forall>original new. (original, new) \<in> set (field_mappings rules)
            \<and> original \<notin> set (map fst kvs)
            \<and> \<not> (new \<in> set (map fst kvs) \<and> new \<notin> set (map fst (field_mappings rules)))
          \<longrightarrow> map_of out new = Some JNull)"
proof -
  from transform_record_dict[OF assms(2), of rt rules s] obtain out where
    tr: "transform_record rt (JObj kvs) rules s = Some (JObj out)"
    and a: "\<forall>k v. map_of kvs k = Some v \<and> k \<notin> set (map fst (field_mappings rules))
            \<and> k \<notin> set (map fst (calculated_fields rules))
            \<and> k \<notin> {''_source_service'', ''_transformed_at'', ''_record_hash''}
          \<longrightarrow> map_of out k = Some v"
    and b: "\<forall>original new. (original, new) \<in> set (field_mappings rules)
            \<and> distinct (map snd (field_mappings rules))
            \<and> original \<notin> set (map fst kvs)
            \<and> \<not> (new \<in> set (map fst kvs) \<and> new \<notin> set (map fst (field_mappings rules)))
            \<and> new \<notin> set (map fst (calculated_fields rules))
            \<and> new \<notin> {''_source_service'', ''_transformed_at'', ''_record_hash''}
          \<longrightarrow> map_of out new = Some JNull"
    by blast
  from rules_table_facts[OF assms(1)] have
    d: "distinct (map snd (field_mappings rules))"
    and c: "set (map snd (field_mappings rules)) \<inter> set (map fst (calculated_fields rules)) = {}"
    and m: "set (map snd (field_mappings rules))
         \<inter> {''_source_service'', ''_transformed_at'', ''_record_hash''} = {}"
    by blast+
  have "map_of out new = Some JNull"
    if "(original, new) \<in> set (field_mappings rules)" "original \<notin> set (map fst kvs)"
       "\<not> (new \<in> set (map fst kvs) \<and> new \<notin> set (map fst (field_mappings rules)))"
    for original new
  proof -
    from that(1) have "new \<in> set (map snd (field_mappings rules))" by force
    with c m have "new \<notin> set (map fst (calculated_fields rules))"
      "new \<notin> {''_source_service'', ''_transformed_at'', ''_record_hash''}" by blast+
    with b that d show ?thesis by blast
  qed
  with tr a show ?thesis by blast
qed

theorem unmapped_fields_carried_witness:
  "transform_microservice_data
     \<lparr>local_now = 63871372800000000, utcnow_isoformat = ''2025-01-01T00:00:00'',
      json_dumps_sorted = (\<lambda>r. ''{}''), str_hash = (\<lambda>s. 42)\<rparr>
     ''cash-flow'' ''flows'' (JList [JObj [(''id'', JStr ''f1''), (''note'', JStr ''rush'')]])
   = [JObj [(''cashflow_id'', JStr ''f1''), (''transaction_date'', JNull),
            (''flow_type'', JNull), (''flow_amount'', JNull), (''note'', JStr ''rush''),
            (''cumulative_balance'', JNull), (''monthly_total'', JNull),
            (''trend_indicator'', JNull),
            (''_source_service'', JStr ''cash-flow''),
            (''_transformed_at'', JStr ''2025-01-01T00:00:00''),
            (''_record_hash'', JStr ''42'')]]
   \<and> (\<exists>rules out. map_of transformation_rules ''cash-flow'' = Some rules
        \<and> transform_record
             \<lparr>local_now = 63871372800000000, utcnow_isoformat = ''2025-01-01T00:00:00'',
              json_dumps_sorted = (\<lambda>r. ''{}''), str_hash = (\<lambda>s. 42)\<rparr>
             (JObj [(''id'', JStr ''f1''), (''note'', JStr ''rush'')]) rules ''cash-flow''
            = Some (JObj out)
        \<and> map_of out ''note'' = Some (JStr ''rush'')
        \<and> map_of out ''flow_amount'' = Some JNull)"
proof -
  let ?rt = "\<lparr>local_now = 63871372800000000, utcnow_isoformat = ''2025-01-01T00:00:00'',
              json_dumps_sorted = (\<lambda>r. ''{}''), str_hash = (\<lambda>s. 42)\<rparr>"
  let ?kvs = "[(''id'', JStr ''f1''), (''note'', JStr ''rush'')]"
  have out: "transform_microservice_data ?rt ''cash-flow'' ''flows'' (JList [JObj ?kvs])
     = [JObj [(''cashflow_id'', JStr ''f1''), (''transaction_date'', JNull),
            (''flow_type'', JNull), (''flow_amount'', JNull), (''note'', JStr ''rush''),
            (''cumulative_balance'', JNull), (''monthly_total'', JNull),
            (''trend_indicator'', JNull),
            (''_source_service'', JStr ''cash-flow''),
            (''_transformed_at'', JStr ''2025-01-01T00:00:00''),
            (''_record_hash'', JStr ''42'')]]"
    by code_simp
  obtain rules where h1: "map_of transformation_rules ''cash-flow'' = Some rules"
    and fm: "field_mappings rules = [(''id'', ''cashflow_id''), (''date'', ''transaction_date''),
                           (''type'', ''flow_type''), (''amount'', ''flow_amount'')]"
    and cf: "map fst (calculated_fields rules)
               = [''cumulative_balance'', ''monthly_total'', ''trend_indicator'']"
    by (simp add: transformation_rules_def)
  have h2: "distinct (map fst ?kvs)" by simp
  from unmapped_fields_carried[OF h1 h2, of ?rt] obtain res where
    tr: "transform_record ?rt (JObj ?kvs) rules ''cash-flow'' = Some (JObj res)"
    and a: "\<forall>k v. map_of ?kvs k = Some v \<and> k \<notin> set (map fst (field_mappings rules))
            \<and> k \<notin> set (map fst (calculated_fields rules))
            \<and> k \<notin> {''_source_service'', ''_transformed_at'', ''_record_hash''}
          \<longrightarrow> map_of res k = Some v"
    and b: "\<forall>original new. (original, new) \<in> set (field_mappings rules)
            \<and> original \<notin> set (map fst ?kvs)
            \<and> \<not> (new \<in> set (map fst ?kvs) \<and> new \<notin> set (map fst (field_mappings rules)))
          \<longrightarrow> map_of res new = Some JNull"
    by blast
  from a[rule_format, of "''note''" "JStr ''rush''"] have n: "map_of res ''note'' = Some (JStr ''rush'')"
    by (simp add: fm cf)
  from b[rule_format, of "''amount''" "''flow_amount''"] have f: "map_of res ''flow_amount'' = Some JNull"
    by (simp add: fm)
  from out h1 tr n f show ?thesis by blast
qed


section \<open>Properties of the orchestrator\<close>

subsection \<open>Failures of single endpoints\<close>

lemma process_endpoint_cases:
  assumes "hashable ep" and "\<forall>e. net i base_url ep \<noteq> Other_exception e"
  shows "\<exists>n ex. process_endpoint rt net base_url s i ep (tot, failed, ex0)
            = Inr (tot + n, failed, ex) \<and> 0 \<le> n
       \<or> process_endpoint rt net base_url s i ep (tot, failed, ex0) = Inr (tot, failed + 1, ex)"
  using assms
  by (cases "net i base_url ep")
     (auto simp: process_endpoint_def record_outcome_def ebind_def)


lemma process_endpoints_ok:
  assumes "\<forall>ep \<in> set eps. hashable ep" and "\<forall>i ep e. net i base_url ep \<noteq> Other_exception e"
  shows "\<exists>tot' failed' ex'. process_endpoints rt net base_url s i eps (tot, failed, ex0)
            = Inr (tot', failed', ex')
         \<and> tot \<le> tot' \<and> failed \<le> failed' \<and> failed' \<le> failed + int (length eps)"
  using assms(1)
proof (induction eps arbitrary: i tot failed ex0)
  case Nil
  then show ?case by simp
next
  case (Cons ep eps)
  from Cons.prems have h: "hashable ep" and hs: "\<forall>ep \<in> set eps. hashable ep" by simp_all
  from assms(2) have no: "\<forall>e. net i base_url ep \<noteq> Other_exception e" by blast
  from h no process_endpoint_cases[where ep=ep and net=net and i=i and base_url=base_url
         and rt=rt and s=s and tot=tot and failed=failed and ?ex0.0=ex0]
  obtain tot1 failed1 ex1 where
    step: "process_endpoint rt net base_url s i ep (tot, failed, ex0) = Inr (tot1, failed1, ex1)"
    and b: "tot \<le> tot1" "failed \<le> failed1" "failed1 \<le> failed + 1"
    by fastforce
  from Cons.IH[OF hs, of "Suc i" tot1 failed1 ex1] obtain tot' failed' ex' where
    rest: "process_endpoints rt net base_url s (Suc i) eps (tot1, failed1, ex1) = Inr (tot', failed', ex')"
    and c: "tot1 \<le> tot'" "failed1 \<le> failed'" "failed' \<le> failed1 + int (length eps)"
    by blast
  from step rest have
    "process_endpoints rt net base_url s i (ep # eps) (tot, failed, ex0) = Inr (tot', failed', ex')"
    by (simp add: ebind_def)
  with b c show ?case by simp
qed

lemma extract_from_microservice_ok:
  assumes "connection_string source = Inr (JObj conn)"
    and "map_of conn ''service_name'' = Some (JStr s)"
    and "map_of microservice_endpoints s = Some base_url"
    and "map_of conn ''endpoints'' = Some (JList eps)"
    and "\<forall>ep \<in> set eps. hashable ep"
    and "\<forall>i ep e. net i base_url ep \<noteq> Other_exception e"
  shows "\<exists>result. extract_from_microservice rt net source = Inr result
          \<and> 0 \<le> result_records_processed result
          \<and> 0 \<le> result_records_failed result
          \<and> result_records_failed result \<le> int (length eps)"
proof -
  from assms(5,6) process_endpoints_ok[where eps=eps and net=net and base_url=base_url
         and rt=rt and s=s and i=0 and tot=0 and failed=0 and ?ex0.0="[]"]
  obtain tot' failed' ex' where
    "process_endpoints rt net base_url s 0 eps (0, 0, []) = Inr (tot', failed', ex')"
    "0 \<le> tot'" "0 \<le> failed'" "failed' \<le> int (length eps)"
    by auto
  with assms(1-4) show ?thesis
    by (simp add: extract_from_microservice_def lift_exn_def ebind_def lookup_base_url_def)
qed

lemma run_job_status:
  assumes "etl_jobs db job_id = Some job"
  shows "\<exists>job'. etl_jobs (run_job rt net ts job_id db) job_id = Some job'
      \<and> start_time job' = Some (at_start ts) \<and> end_time job' = Some (at_end ts)
      \<and> ((\<exists>source result. extraction rt net (mark_running ts job_id job db) job = Inr (source, result)
             \<and> job_status job' = ''completed'' \<and> error_message job' = error_message job
             \<and> job_records_processed job' = result_records_processed result
             \<and> job_records_failed job' = result_records_failed result)
         \<or> (\<exists>e. extraction rt net (mark_running ts job_id job db) job = Inl e
             \<and> job_status job' = ''failed'' \<and> error_message job' = Some e))"
  using assms
  by (cases "extraction rt net (mark_running ts job_id job db) job")
     (auto simp: run_job_def)

lemma extraction_microservice:
  assumes "data_sources db (data_source_id job) = Some source"
    and "source_type source = ''microservice''"
  shows "extraction rt net (mark_running ts job_id job' db) job
          = ebind (extract_from_microservice rt net source) (\<lambda>result. Inr (source, result))"
  using assms by (simp add: extraction_def mark_running_def)


lemma process_endpoint_counts:
  assumes "hashable ep" and "\<forall>e. net i base_url ep \<noteq> Other_exception e"
  shows "\<exists>ex. process_endpoint rt net base_url s i ep (tot, failed, ex0)
            = Inr (tot + (case net i base_url ep of
                            Response code data \<Rightarrow>
                              if code = 200
                                 \<and> is_valid (validate_microservice_data (local_now rt) s ep data)
                              then int (length (transform_microservice_data rt s ep data)) else 0
                          | _ \<Rightarrow> 0),
                   failed + (if (case net i base_url ep of
                                   Response code data \<Rightarrow>
                                     code \<noteq> 200
                                     \<or> \<not> is_valid (validate_microservice_data (local_now rt) s ep data)
                                 | _ \<Rightarrow> True) then 1 else 0),
                   ex)"
  using assms
  by (cases "net i base_url ep")
     (auto simp: process_endpoint_def record_outcome_def ebind_def)

lemma process_endpoints_counts:
  assumes "\<forall>ep \<in> set eps. hashable ep" and "\<forall>i ep e. net i base_url ep \<noteq> Other_exception e"
  shows "\<exists>ex'. process_endpoints rt net base_url s i eps (tot, failed, ex0)
            = Inr (tot + (\<Sum>(k, ep)\<leftarrow>enumerate i eps.
                            case net k base_url ep of
                              Response code data \<Rightarrow>
                                if code = 200
                                   \<and> is_valid (validate_microservice_data (local_now rt) s ep data)
                                then int (length (transform_microservice_data rt s ep data)) else 0
                            | _ \<Rightarrow> 0),
                   failed + int (length (filter (\<lambda>(k, ep).
                                   case net k base_url ep of
                                     Response code data \<Rightarrow>
                                       code \<noteq> 200
                                       \<or> \<not> is_valid (validate_microservice_data (local_now rt) s ep data)
                                   | _ \<Rightarrow> True) (enumerate i eps))),
                   ex')"
  using assms(1)
proof (induction eps arbitrary: i tot failed ex0)
  case Nil
  then show ?case by simp
next
  case (Cons ep eps)
  from Cons.prems have h: "hashable ep" and hs: "\<forall>ep \<in> set eps. hashable ep" by simp_all
  from assms(2) have no: "\<forall>e. net i base_url ep \<noteq> Other_exception e" by blast
  define p where "p = (case net i base_url ep of
                            Response code data \<Rightarrow>
                              if code = 200
                                 \<and> is_valid (validate_microservice_data (local_now rt) s ep data)
                              then int (length (transform_microservice_data rt s ep data)) else 0
                          | _ \<Rightarrow> 0)"
  define q where "q = (case net i base_url ep of
                                   Response code data \<Rightarrow>
                                     code \<noteq> 200
                                     \<or> \<not> is_valid (validate_microservice_data (local_now rt) s ep data)
                                 | _ \<Rightarrow> True)"
  from h no process_endpoint_counts[where ep=ep and net=net and i=i and base_url=base_url
         and rt=rt and s=s and tot=tot and failed=failed and ?ex0.0=ex0]
  obtain ex1 where
    step: "process_endpoint rt net base_url s i ep (tot, failed, ex0)
             = Inr (tot + p, failed + (if q then 1 else 0), ex1)"
    unfolding p_def q_def by blast
  from Cons.IH[OF hs, of "Suc i" "tot + p" "failed + (if q then 1 else 0)" ex1]
  obtain ex' where
    rest: "process_endpoints rt net base_url s (Suc i) eps (tot + p, failed + (if q then 1 else 0), ex1)
            = Inr (tot + p + (\<Sum>(k, ep)\<leftarrow>enumerate (Suc i) eps.
                            case net k base_url ep of
                              Response code data \<Rightarrow>
                                if code = 200
                                   \<and> is_valid (validate_microservice_data (local_now rt) s ep data)
                                then int (length (transform_microservice_data rt s ep data)) else 0
                            | _ \<Rightarrow> 0),
                   failed + (if q then 1 else 0) + int (length (filter (\<lambda>(k, ep).
                                   case net k base_url ep of
                                     Response code data \<Rightarrow>
                                       code \<noteq> 200
                                       \<or> \<not> is_valid (validate_microservice_data (local_now rt) s ep data)
                                   | _ \<Rightarrow> True) (enumerate (Suc i) eps))),
                   ex')"
    by blast
  have "process_endpoints rt net base_url s i (ep # eps) (tot, failed, ex0)
          = process_endpoints rt net base_url s (Suc i) eps (tot + p, failed + (if q then 1 else 0), ex1)"
    using step by (simp add: ebind_def)
  with rest show ?case
    unfolding p_def q_def by (intro exI[of _ ex']) (simp add: add.assoc)
qed

lemma extract_from_microservice_counts:
  assumes "connection_string source = Inr (JObj conn)"
    and "map_of conn ''service_name'' = Some (JStr s)"
    and "map_of microservice_endpoints s = Some base_url"
    and "map_of conn ''endpoints'' = Some (JList eps)"
    and "\<forall>ep \<in> set eps. hashable ep"
    and "\<forall>i ep e. net i base_url ep \<noteq> Other_exception e"
  shows "\<exists>details. extract_from_microservice rt net source =
            Inr \<lparr>result_records_processed =
                   (\<Sum>(k, ep)\<leftarrow>enumerate 0 eps.
                      case net k base_url ep of
                        Response code data \<Rightarrow>
                          if code = 200
                             \<and> is_valid (validate_microservice_data (local_now rt) s ep data)
                          then int (length (transform_microservice_data rt s ep data)) else 0
                      | _ \<Rightarrow> 0),
                 result_records_failed =
                   int (length (filter (\<lambda>(k, ep).
                          case net k base_url ep of
                            Response code data \<Rightarrow>
                              code \<noteq> 200
                              \<or> \<not> is_valid (validate_microservice_data (local_now rt) s ep data)
                          | _ \<Rightarrow> True) (enumerate 0 eps))),
                 result_metadata = Microservice_metadata (JStr s) (int (length eps)) details\<rparr>"
proof -
  from assms(5,6) process_endpoints_counts[where eps=eps and net=net and base_url=base_url
         and rt=rt and s=s and i=0 and tot=0 and failed=0 and ?ex0.0="[]"]
  obtain ex' where
    "process_endpoints rt net base_url s 0 eps (0, 0, [])
            = Inr (0 + (\<Sum>(k, ep)\<leftarrow>enumerate 0 eps.
                            case net k base_url ep of
                              Response code data \<Rightarrow>
                                if code = 200
                                   \<and> is_valid (validate_microservice_data (local_now rt) s ep data)
                                then int (length (transform_microservice_data rt s ep data)) else 0
                            | _ \<Rightarrow> 0),
                   0 + int (length (filter (\<lambda>(k, ep).
                                   case net k base_url ep of
                                     Response code data \<Rightarrow>
                                       code \<noteq> 200
                                       \<or> \<not> is_valid (validate_microservice_data (local_now rt) s ep data)
                                   | _ \<Rightarrow> True) (enumerate 0 eps))),
                   ex')"
    by blast
  with assms(1-4) show ?thesis
    by (simp add: extract_from_microservice_def lift_exn_def ebind_def lookup_base_url_def)
qed

text \<open>
  C3: in the extraction of a microservice source, the failure of an endpoint (a transport
  error, a status other than 200, a payload that fails validation) never makes the job
  fail: when the connection data names a registered service and a list of endpoints, the
  job ends \<^verbatim>\<open>completed\<close>, and its counters add up the endpoints: the records processed
  are the sum, over the endpoints that answered 200 with a valid payload, of the number of
  their transformed records, and the records failed are the number of the other endpoints;
  the metadata count every endpoint. A job ends \<^verbatim>\<open>failed\<close> exactly when an exception
  leaves the extraction routine, and then its error message is that exception. The
  hypotheses of the first part say that the endpoints are usable as dictionary keys and
  that the HTTP library raises nothing but \<^verbatim>\<open>RequestException\<close>.
\<close>

theorem endpoint_failures_complete_job:
  "(etl_jobs db job_id = Some job \<and> data_sources db (data_source_id job) = Some source
      \<and> source_type source = ''microservice''
      \<and> connection_string source = Inr (JObj conn)
      \<and> map_of conn ''service_name'' = Some (JStr s)
      \<and> map_of microservice_endpoints s = Some base_url
      \<and> map_of conn ''endpoints'' = Some (JList eps)
      \<and> (\<forall>ep \<in> set eps. hashable ep)
      \<and> (\<forall>i ep e. net i base_url ep \<noteq> Other_exception e)
    \<longrightarrow> (\<exists>job'. etl_jobs (run_job rt net ts job_id db) job_id = Some job'
           \<and> job_status job' = ''completed'' \<and> error_message job' = error_message job
           \<and> end_time job' = Some (at_end ts)
           \<and> 0 \<le> job_records_processed job' \<and> 0 \<le> job_records_failed job'
           \<and> job_records_failed job' \<le> int (length eps)
           \<and> job_records_processed job' =
                (\<Sum>(k, ep)\<leftarrow>enumerate 0 eps.
                  case net k base_url ep of
                    Response code data \<Rightarrow>
                      if code = 200
                         \<and> is_valid (validate_microservice_data (local_now rt) s ep data)
                      then int (length (transform_microservice_data rt s ep data)) else 0
                  | _ \<Rightarrow> 0)
           \<and> job_records_failed job' =
                int (length (filter (\<lambda>(k, ep).
                      case net k base_url ep of
                        Response code data \<Rightarrow>
                          code \<noteq> 200
                          \<or> \<not> is_valid (validate_microservice_data (local_now rt) s ep data)
                      | _ \<Rightarrow> True) (enumerate 0 eps)))
           \<and> (\<exists>details. job_metadata job'
                 = Some (Microservice_metadata (JStr s) (int (length eps)) details))))
   \<and> (etl_jobs db job_id = Some job
    \<longrightarrow> (\<exists>job'. etl_jobs (run_job rt net ts job_id db) job_id = Some job'
           \<and> (job_status job' = ''completed'' \<or> job_status job' = ''failed'')
           \<and> (job_status job' = ''failed''
                \<longleftrightarrow> (\<exists>e. extraction rt net (mark_running ts job_id job db) job = Inl e))
           \<and> (\<forall>e. extraction rt net (mark_running ts job_id job db) job = Inl e
                \<longrightarrow> error_message job' = Some e)))"
proof (intro conjI impI)
  assume a: "etl_jobs db job_id = Some job \<and> data_sources db (data_source_id job) = Some source
      \<and> source_type source = ''microservice''
      \<and> connection_string source = Inr (JObj conn)
      \<and> map_of conn ''service_name'' = Some (JStr s)
      \<and> map_of microservice_endpoints s = Some base_url
      \<and> map_of conn ''endpoints'' = Some (JList eps)
      \<and> (\<forall>ep \<in> set eps. hashable ep)
      \<and> (\<forall>i ep e. net i base_url ep \<noteq> Other_exception e)"
  then have j: "etl_jobs db job_id = Some job" by blast
  from a extract_from_microservice_ok[where source=source and conn=conn and s=s
         and base_url=base_url and eps=eps and net=net and rt=rt]
  obtain result where r: "extract_from_microservice rt net source = Inr result"
    and b: "0 \<le> result_records_processed result" "0 \<le> result_records_failed result"
           "result_records_failed result \<le> int (length eps)"
    by blast
  from a extract_from_microservice_counts[where source=source and conn=conn and s=s
         and base_url=base_url and eps=eps and net=net and rt=rt]
  obtain details where r': "extract_from_microservice rt net source =
            Inr \<lparr>result_records_processed =
                   (\<Sum>(k, ep)\<leftarrow>enumerate 0 eps.
                  case net k base_url ep of
                    Response code data \<Rightarrow>
                      if code = 200
                         \<and> is_valid (validate_microservice_data (local_now rt) s ep data)
                      then int (length (transform_microservice_data rt s ep data)) else 0
                  | _ \<Rightarrow> 0),
                 result_records_failed =
                   int (length (filter (\<lambda>(k, ep).
                      case net k base_url ep of
                        Response code data \<Rightarrow>
                          code \<noteq> 200
                          \<or> \<not> is_valid (validate_microservice_data (local_now rt) s ep data)
                      | _ \<Rightarrow> True) (enumerate 0 eps))),
                 result_metadata = Microservice_metadata (JStr s) (int (length eps)) details\<rparr>"
    by blast
  from r r' have c: "result_records_processed result =
                   (\<Sum>(k, ep)\<leftarrow>enumerate 0 eps.
                  case net k base_url ep of
                    Response code data \<Rightarrow>
                      if code = 200
                         \<and> is_valid (validate_microservice_data (local_now rt) s ep data)
                      then int (length (transform_microservice_data rt s ep data)) else 0
                  | _ \<Rightarrow> 0)"
    "result_records_failed result =
                   int (length (filter (\<lambda>(k, ep).
                      case net k base_url ep of
                        Response code data \<Rightarrow>
                          code \<noteq> 200
                          \<or> \<not> is_valid (validate_microservice_data (local_now rt) s ep data)
                      | _ \<Rightarrow> True) (enumerate 0 eps)))"
    "result_metadata result = Microservice_metadata (JStr s) (int (length eps)) details"
    by auto
  from a r have ex: "extraction rt net (mark_running ts job_id job db) job = Inr (source, result)"
    by (simp add: extraction_def mark_running_def ebind_def)
  define job' where "job' = job\<lparr>job_status := ''completed'',
                          start_time := Some (at_start ts),
                          end_time := Some (at_end ts),
                          job_records_processed := result_records_processed result,
                          job_records_failed := result_records_failed result,
                          job_metadata := Some (result_metadata result)\<rparr>"
  from j ex have run: "etl_jobs (run_job rt net ts job_id db) job_id = Some job'"
    by (simp add: run_job_def job'_def)
  have f: "job_status job' = ''completed''" "error_message job' = error_message job"
      "end_time job' = Some (at_end ts)"
      "job_records_processed job' = result_records_processed result"
      "job_records_failed job' = result_records_failed result"
      "job_metadata job' = Some (result_metadata result)"
    by (simp_all add: job'_def)
  show "\<exists>job'. etl_jobs (run_job rt net ts job_id db) job_id = Some job'
           \<and> job_status job' = ''completed'' \<and> error_message job' = error_message job
           \<and> end_time job' = Some (at_end ts)
           \<and> 0 \<le> job_records_processed job' \<and> 0 \<le> job_records_failed job'
           \<and> job_records_failed job' \<le> int (length eps)
           \<and> job_records_processed job' =
                (\<Sum>(k, ep)\<leftarrow>enumerate 0 eps.
                  case net k base_url ep of
                    Response code data \<Rightarrow>
                      if code = 200
                         \<and> is_valid (validate_microservice_data (local_now rt) s ep data)
                      then int (length (transform_microservice_data rt s ep data)) else 0
                  | _ \<Rightarrow> 0)
           \<and> job_records_failed job' =
                int (length (filter (\<lambda>(k, ep).
                      case net k base_url ep of
                        Response code data \<Rightarrow>
                          code \<noteq> 200
                          \<or> \<not> is_valid (validate_microservice_data (local_now rt) s ep data)
                      | _ \<Rightarrow> True) (enumerate 0 eps)))
           \<and> (\<exists>details. job_metadata job'
                 = Some (Microservice_metadata (JStr s) (int (length eps)) details))"
    apply (rule exI[of _ job'])
    apply (simp only: run f c)
    using b unfolding c by simp
next
  assume j: "etl_jobs db job_id = Some job"
  from run_job_status[OF j, of rt net ts]
  show "\<exists>job'. etl_jobs (run_job rt net ts job_id db) job_id = Some job'
           \<and> (job_status job' = ''completed'' \<or> job_status job' = ''failed'')
           \<and> (job_status job' = ''failed''
                \<longleftrightarrow> (\<exists>e. extraction rt net (mark_running ts job_id job db) job = Inl e))
           \<and> (\<forall>e. extraction rt net (mark_running ts job_id job db) job = Inl e
                \<longrightarrow> error_message job' = Some e)"
    by auto
qed

theorem endpoint_failures_complete_job_witness:
  "etl_jobs
     (run_job
        \<lparr>local_now = 63871372800000000, utcnow_isoformat = ''2025-01-01T00:00:00'',
         json_dumps_sorted = (\<lambda>r. ''{}''), str_hash = (\<lambda>s. 42)\<rparr>
        (\<lambda>i base_url ep.
           if ep = JStr ''a'' then
             Response 200 (JList
               [JObj [(''id'', JStr ''c1''), (''date'', JStr ''2025-01-01''), (''type'', JStr ''inflow'')],
                JObj [(''id'', JStr ''c2''), (''date'', JStr ''2025-01-02''), (''type'', JStr ''inflow'')],
                JObj [(''id'', JStr ''c3''), (''date'', JStr ''2025-01-03''), (''type'', JStr ''outflow'')],
                JObj [(''id'', JStr ''c4''), (''date'', JStr ''2025-01-04''), (''type'', JStr ''inflow'')],
                JObj [(''id'', JStr ''c5''), (''date'', JStr ''2025-01-05''), (''type'', JStr ''outflow'')]])
           else if ep = JStr ''b'' then Response 500 JNull
           else if ep = JStr ''t'' then Request_exception
           else
             Response 200 (JList
               [JObj [(''id'', JStr ''d1''), (''date'', JStr ''2025-01-01''), (''type'', JStr ''inflow'')],
                JObj [(''id'', JStr ''d2''), (''date'', JStr ''2025-01-02''), (''type'', JStr ''inflow'')],
                JObj [(''id'', JStr ''d3''), (''date'', JStr ''2025-01-03''), (''type'', JStr ''outflow'')],
                JObj [(''id'', JStr ''d4''), (''date'', JStr ''2025-01-04''), (''type'', JStr ''inflow'')],
                JObj [(''id'', JStr ''d5''), (''date'', JStr ''2025-01-05'')]]))
        \<lparr>at_start = 100, at_end = 200, at_sync = 201\<rparr>
        1
        \<lparr>etl_jobs = [1 \<mapsto> \<lparr>data_source_id = 10, job_status = ''pending'', job_records_processed = 0,
                           job_records_failed = 0, start_time = None, end_time = None,
                           error_message = None, job_metadata = None\<rparr>],
         data_sources = [10 \<mapsto> \<lparr>source_type = ''microservice'',
                           connection_string = Inr (JObj [(''service_name'', JStr ''cash-flow''),
                              (''endpoints'', JList [JStr ''a'', JStr ''b'', JStr ''c''])]),
                           last_sync = None\<rparr>]\<rparr>) 1
   = Some \<lparr>data_source_id = 10, job_status = ''completed'', job_records_processed = 5,
            job_records_failed = 2, start_time = Some 100, end_time = Some 200,
            error_message = None,
            job_metadata = Some (Microservice_metadata (JStr ''cash-flow'') 3
               [(JStr ''a'', Success 5), (JStr ''b'', Http_error 500),
                (JStr ''c'', Validation_failed [Missing_required_field 4 ''type''])])\<rparr>
   \<and> (\<Sum>(k, ep)\<leftarrow>enumerate 0 [JStr ''a'', JStr ''b'', JStr ''c''].
         case (\<lambda>i base_url ep.
           if ep = JStr ''a'' then
             Response 200 (JList
               [JObj [(''id'', JStr ''c1''), (''date'', JStr ''2025-01-01''), (''type'', JStr ''inflow'')],
                JObj [(''id'', JStr ''c2''), (''date'', JStr ''2025-01-02''), (''type'', JStr ''inflow'')],
                JObj [(''id'', JStr ''c3''), (''date'', JStr ''2025-01-03''), (''type'', JStr ''outflow'')],
                JObj [(''id'', JStr ''c4''), (''date'', JStr ''2025-01-04''), (''type'', JStr ''inflow'')],
                JObj [(''id'', JStr ''c5''), (''date'', JStr ''2025-01-05''), (''type'', JStr ''outflow'')]])
           else if ep = JStr ''b'' then Response 500 JNull
           else if ep = JStr ''t'' then Request_exception
           else
             Response 200 (JList
               [JObj [(''id'', JStr ''d1''), (''date'', JStr ''2025-01-01''), (''type'', JStr ''inflow'')],
                JObj [(''id'', JStr ''d2''), (''date'', JStr ''2025-01-02''), (''type'', JStr ''inflow'')],
                JObj [(''id'', JStr ''d3''), (''date'', JStr ''2025-01-03''), (''type'', JStr ''outflow'')],
                JObj [(''id'', JStr ''d4''), (''date'', JStr ''2025-01-04''), (''type'', JStr ''inflow'')],
                JObj [(''id'', JStr ''d5''), (''date'', JStr ''2025-01-05'')]])) k ''http://localhost:8004/api'' ep of
           Response code data \<Rightarrow>
             if code = 200
                \<and> is_valid (validate_microservice_data 63871372800000000 ''cash-flow'' ep data)
             then int (length (transform_microservice_data
                \<lparr>local_now = 63871372800000000, utcnow_isoformat = ''2025-01-01T00:00:00'',
         json_dumps_sorted = (\<lambda>r. ''{}''), str_hash = (\<lambda>s. 42)\<rparr>
                ''cash-flow'' ep data)) else 0
         | _ \<Rightarrow> 0) = 5
   \<and> etl_jobs
     (run_job
        \<lparr>local_now = 63871372800000000, utcnow_isoformat = ''2025-01-01T00:00:00'',
         json_dumps_sorted = (\<lambda>r. ''{}''), str_hash = (\<lambda>s. 42)\<rparr>
        (\<lambda>i base_url ep.
           if ep = JStr ''a'' then
             Response 200 (JList
               [JObj [(''id'', JStr ''c1''), (''date'', JStr ''2025-01-01''), (''type'', JStr ''inflow'')],
                JObj [(''id'', JStr ''c2''), (''date'', JStr ''2025-01-02''), (''type'', JStr ''inflow'')],
                JObj [(''id'', JStr ''c3''), (''date'', JStr ''2025-01-03''), (''type'', JStr ''outflow'')],
                JObj [(''id'', JStr ''c4''), (''date'', JStr ''2025-01-04''), (''type'', JStr ''inflow'')],
                JObj [(''id'', JStr ''c5''), (''date'', JStr ''2025-01-05''), (''type'', JStr ''outflow'')]])
           else if ep = JStr ''b'' then Response 500 JNull
           else if ep = JStr ''t'' then Request_exception
           else
             Response 200 (JList
               [JObj [(''id'', JStr ''d1''), (''date'', JStr ''2025-01-01''), (''type'', JStr ''inflow'')],
                JObj [(''id'', JStr ''d2''), (''date'', JStr ''2025-01-02''), (''type'', JStr ''inflow'')],
                JObj [(''id'', JStr ''d3''), (''date'', JStr ''2025-01-03''), (''type'', JStr ''outflow'')],
                JObj [(''id'', JStr ''d4''), (''date'', JStr ''2025-01-04''), (''type'', JStr ''inflow'')],
                JObj [(''id'', JStr ''d5''), (''date'', JStr ''2025-01-05'')]]))
        \<lparr>at_start = 100, at_end = 200, at_sync = 201\<rparr>
        1
        \<lparr>etl_jobs = [1 \<mapsto> \<lparr>data_source_id = 10, job_status = ''pending'', job_records_processed = 0,
                           job_records_failed = 0, start_time = None, end_time = None,
                           error_message = None, job_metadata = None\<rparr>],
         data_sources = [10 \<mapsto> \<lparr>source_type = ''microservice'',
                           connection_string = Inr (JObj [(''service_name'', JStr ''cash-flow''),
                              (''endpoints'', JList [JStr ''a'', JStr ''t'', JStr ''a'', JStr ''b''])]),
                           last_sync = None\<rparr>]\<rparr>) 1
   = Some \<lparr>data_source_id = 10, job_status = ''completed'', job_records_processed = 10,
            job_records_failed = 2, start_time = Some 100, end_time = Some 200,
            error_message = None,
            job_metadata = Some (Microservice_metadata (JStr ''cash-flow'') 4
               [(JStr ''a'', Success 5), (JStr ''t'', Connection_error),
                (JStr ''b'', Http_error 500)])\<rparr>
   \<and> (\<Sum>(k, ep)\<leftarrow>enumerate 0 [JStr ''a'', JStr ''t'', JStr ''a'', JStr ''b''].
         case (\<lambda>i base_url ep.
           if ep = JStr ''a'' then
             Response 200 (JList
               [JObj [(''id'', JStr ''c1''), (''date'', JStr ''2025-01-01''), (''type'', JStr ''inflow'')],
                JObj [(''id'', JStr ''c2''), (''date'', JStr ''2025-01-02''), (''type'', JStr ''inflow'')],
                JObj [(''id'', JStr ''c3''), (''date'', JStr ''2025-01-03''), (''type'', JStr ''outflow'')],
                JObj [(''id'', JStr ''c4''), (''date'', JStr ''2025-01-04''), (''type'', JStr ''inflow'')],
                JObj [(''id'', JStr ''c5''), (''date'', JStr ''2025-01-05''), (''type'', JStr ''outflow'')]])
           else if ep = JStr ''b'' then Response 500 JNull
           else if ep = JStr ''t'' then Request_exception
           else
             Response 200 (JList
               [JObj [(''id'', JStr ''d1''), (''date'', JStr ''2025-01-01''), (''type'', JStr ''inflow'')],
                JObj [(''id'', JStr ''d2''), (''date'', JStr ''2025-01-02''), (''type'', JStr ''inflow'')],
                JObj [(''id'', JStr ''d3''), (''date'', JStr ''2025-01-03''), (''type'', JStr ''outflow'')],
                JObj [(''id'', JStr ''d4''), (''date'', JStr ''2025-01-04''), (''type'', JStr ''inflow'')],
                JObj [(''id'', JStr ''d5''), (''date'', JStr ''2025-01-05'')]])) k ''http://localhost:8004/api'' ep of
           Response code data \<Rightarrow>
             if code = 200
                \<and> is_valid (validate_microservice_data 63871372800000000 ''cash-flow'' ep data)
             then int (length (transform_microservice_data
                \<lparr>local_now = 63871372800000000, utcnow_isoformat = ''2025-01-01T00:00:00'',
         json_dumps_sorted = (\<lambda>r. ''{}''), str_hash = (\<lambda>s. 42)\<rparr>
                ''cash-flow'' ep data)) else 0
         | _ \<Rightarrow> 0) = 10
   \<and> etl_jobs
     (run_job
        \<lparr>local_now = 63871372800000000, utcnow_isoformat = ''2025-01-01T00:00:00'',
         json_dumps_sorted = (\<lambda>r. ''{}''), str_hash = (\<lambda>s. 42)\<rparr>
        (\<lambda>i base_url ep. Request_exception)
        \<lparr>at_start = 100, at_end = 200, at_sync = 201\<rparr>
        1
        \<lparr>etl_jobs = [1 \<mapsto> \<lparr>data_source_id = 10, job_status = ''pending'', job_records_processed = 0,
                           job_records_failed = 0, start_time = None, end_time = None,
                           error_message = None, job_metadata = None\<rparr>],
         data_sources = [10 \<mapsto> \<lparr>source_type = ''ftp'', connection_string = Inr (JObj []), last_sync = None\<rparr>]\<rparr>) 1
   = Some \<lparr>data_source_id = 10, job_status = ''failed'', job_records_processed = 0,
            job_records_failed = 0, start_time = Some 100, end_time = Some 200,
            error_message = Some (Unsupported_source_type ''ftp''),
            job_metadata = None\<rparr>"
proof -
  let ?rt = "\<lparr>local_now = 63871372800000000, utcnow_isoformat = ''2025-01-01T00:00:00'',
         json_dumps_sorted = (\<lambda>r. ''{}''), str_hash = (\<lambda>s. 42)\<rparr>"
  let ?net = "(\<lambda>i base_url ep.
           if ep = JStr ''a'' then
             Response 200 (JList
               [JObj [(''id'', JStr ''c1''), (''date'', JStr ''2025-01-01''), (''type'', JStr ''inflow'')],
                JObj [(''id'', JStr ''c2''), (''date'', JStr ''2025-01-02''), (''type'', JStr ''inflow'')],
                JObj [(''id'', JStr ''c3''), (''date'', JStr ''2025-01-03''), (''type'', JStr ''outflow'')],
                JObj [(''id'', JStr ''c4''), (''date'', JStr ''2025-01-04''), (''type'', JStr ''inflow'')],
                JObj [(''id'', JStr ''c5''), (''date'', JStr ''2025-01-05''), (''type'', JStr ''outflow'')]])
           else if ep = JStr ''b'' then Response 500 JNull
           else if ep = JStr ''t'' then Request_exception
           else
             Response 200 (JList
               [JObj [(''id'', JStr ''d1''), (''date'', JStr ''2025-01-01''), (''type'', JStr ''inflow'')],
                JObj [(''id'', JStr ''d2''), (''date'', JStr ''2025-01-02''), (''type'', JStr ''inflow'')],
                JObj [(''id'', JStr ''d3''), (''date'', JStr ''2025-01-03''), (''type'', JStr ''outflow'')],
                JObj [(''id'', JStr ''d4''), (''date'', JStr ''2025-01-04''), (''type'', JStr ''inflow'')],
                JObj [(''id'', JStr ''d5''), (''date'', JStr ''2025-01-05'')]]))"
  let ?ts = "\<lparr>at_start = 100, at_end = 200, at_sync = 201\<rparr>"
  let ?job = "\<lparr>data_source_id = 10, job_status = ''pending'', job_records_processed = 0,
                           job_records_failed = 0, start_time = None, end_time = None,
                           error_message = None, job_metadata = None\<rparr>"
  let ?src1 = "\<lparr>source_type = ''microservice'',
                           connection_string = Inr (JObj [(''service_name'', JStr ''cash-flow''),
                              (''endpoints'', JList [JStr ''a'', JStr ''b'', JStr ''c''])]),
                           last_sync = None\<rparr>"
  let ?src2 = "\<lparr>source_type = ''microservice'',
                           connection_string = Inr (JObj [(''service_name'', JStr ''cash-flow''),
                              (''endpoints'', JList [JStr ''a'', JStr ''t'', JStr ''a'', JStr ''b''])]),
                           last_sync = None\<rparr>"
  let ?conn1 = "[(''service_name'', JStr ''cash-flow''),
                (''endpoints'', JList [JStr ''a'', JStr ''b'', JStr ''c''])]"
  let ?conn2 = "[(''service_name'', JStr ''cash-flow''),
                (''endpoints'', JList [JStr ''a'', JStr ''t'', JStr ''a'', JStr ''b''])]"
  let ?db1 = "\<lparr>etl_jobs = [1 \<mapsto> ?job], data_sources = [10 \<mapsto> ?src1]\<rparr>"
  let ?db2 = "\<lparr>etl_jobs = [1 \<mapsto> ?job], data_sources = [10 \<mapsto> ?src2]\<rparr>"
  let ?db3 = "\<lparr>etl_jobs = [1 \<mapsto> ?job], data_sources = [10 \<mapsto> \<lparr>source_type = ''ftp'', connection_string = Inr (JObj []), last_sync = None\<rparr>]\<rparr>"
  have hyp1: "etl_jobs ?db1 1 = Some ?job \<and> data_sources ?db1 (data_source_id ?job) = Some ?src1
      \<and> source_type ?src1 = ''microservice''
      \<and> connection_string ?src1 = Inr (JObj ?conn1)
      \<and> map_of ?conn1 ''service_name'' = Some (JStr ''cash-flow'')
      \<and> map_of microservice_endpoints ''cash-flow'' = Some ''http://localhost:8004/api''
      \<and> map_of ?conn1 ''endpoints'' = Some (JList [JStr ''a'', JStr ''b'', JStr ''c''])
      \<and> (\<forall>ep \<in> set [JStr ''a'', JStr ''b'', JStr ''c'']. hashable ep)
      \<and> (\<forall>i ep e. ?net i ''http://localhost:8004/api'' ep \<noteq> Other_exception e)"
    by (simp add: microservice_endpoints_def)
  have hyp2: "etl_jobs ?db2 1 = Some ?job \<and> data_sources ?db2 (data_source_id ?job) = Some ?src2
      \<and> source_type ?src2 = ''microservice''
      \<and> connection_string ?src2 = Inr (JObj ?conn2)
      \<and> map_of ?conn2 ''service_name'' = Some (JStr ''cash-flow'')
      \<and> map_of microservice_endpoints ''cash-flow'' = Some ''http://localhost:8004/api''
      \<and> map_of ?conn2 ''endpoints'' = Some (JList [JStr ''a'', JStr ''t'', JStr ''a'', JStr ''b''])
      \<and> (\<forall>ep \<in> set [JStr ''a'', JStr ''t'', JStr ''a'', JStr ''b'']. hashable ep)
      \<and> (\<forall>i ep e. ?net i ''http://localhost:8004/api'' ep \<noteq> Other_exception e)"
    by (simp add: microservice_endpoints_def)
  have run1: "etl_jobs (run_job ?rt ?net ?ts 1 ?db1) 1
     = Some \<lparr>data_source_id = 10, job_status = ''completed'', job_records_processed = 5,
            job_records_failed = 2, start_time = Some 100, end_time = Some 200,
            error_message = None,
            job_metadata = Some (Microservice_metadata (JStr ''cash-flow'') 3
               [(JStr ''a'', Success 5), (JStr ''b'', Http_error 500),
                (JStr ''c'', Validation_failed [Missing_required_field 4 ''type''])])\<rparr>"
    by code_simp
  have run2: "etl_jobs (run_job ?rt ?net ?ts 1 ?db2) 1
     = Some \<lparr>data_source_id = 10, job_status = ''completed'', job_records_processed = 10,
            job_records_failed = 2, start_time = Some 100, end_time = Some 200,
            error_message = None,
            job_metadata = Some (Microservice_metadata (JStr ''cash-flow'') 4
               [(JStr ''a'', Success 5), (JStr ''t'', Connection_error),
                (JStr ''b'', Http_error 500)])\<rparr>"
    by code_simp
  have run3: "etl_jobs (run_job ?rt (\<lambda>i base_url ep. Request_exception) ?ts 1 ?db3) 1
     = Some \<lparr>data_source_id = 10, job_status = ''failed'', job_records_processed = 0,
            job_records_failed = 0, start_time = Some 100, end_time = Some 200,
            error_message = Some (Unsupported_source_type ''ftp''),
            job_metadata = None\<rparr>"
    by code_simp
  note endpoint_failures_complete_job[where db="?db1" and job_id=1 and job="?job" and source="?src1"
      and conn="?conn1" and s="''cash-flow''" and base_url="''http://localhost:8004/api''"
      and eps="[JStr ''a'', JStr ''b'', JStr ''c'']" and net="?net" and rt="?rt" and ts="?ts",
      THEN conjunct1, THEN mp, OF hyp1]
  then obtain j1 where "etl_jobs (run_job ?rt ?net ?ts 1 ?db1) 1 = Some j1"
    and "job_records_processed j1 =
      (\<Sum>(k, ep)\<leftarrow>enumerate 0 [JStr ''a'', JStr ''b'', JStr ''c''].
         case ?net k ''http://localhost:8004/api'' ep of
           Response code data \<Rightarrow>
             if code = 200
                \<and> is_valid (validate_microservice_data (local_now ?rt) ''cash-flow'' ep data)
             then int (length (transform_microservice_data ?rt ''cash-flow'' ep data)) else 0
         | _ \<Rightarrow> 0)"
    by blast
  with run1 have sum1: "(\<Sum>(k, ep)\<leftarrow>enumerate 0 [JStr ''a'', JStr ''b'', JStr ''c''].
         case ?net k ''http://localhost:8004/api'' ep of
           Response code data \<Rightarrow>
             if code = 200
                \<and> is_valid (validate_microservice_data (local_now ?rt) ''cash-flow'' ep data)
             then int (length (transform_microservice_data ?rt ''cash-flow'' ep data)) else 0
         | _ \<Rightarrow> 0) = 5"
    by simp
  note endpoint_failures_complete_job[where db="?db2" and job_id=1 and job="?job" and source="?src2"
      and conn="?conn2" and s="''cash-flow''" and base_url="''http://localhost:8004/api''"
      and eps="[JStr ''a'', JStr ''t'', JStr ''a'', JStr ''b'']" and net="?net" and rt="?rt" and ts="?ts",
      THEN conjunct1, THEN mp, OF hyp2]
  then obtain j2 where "etl_jobs (run_job ?rt ?net ?ts 1 ?db2) 1 = Some j2"
    and "job_records_processed j2 =
      (\<Sum>(k, ep)\<leftarrow>enumerate 0 [JStr ''a'', JStr ''t'', JStr ''a'', JStr ''b''].
         case ?net k ''http://localhost:8004/api'' ep of
           Response code data \<Rightarrow>
             if code = 200
                \<and> is_valid (validate_microservice_data (local_now ?rt) ''cash-flow'' ep data)
             then int (length (transform_microservice_data ?rt ''cash-flow'' ep data)) else 0
         | _ \<Rightarrow> 0)"
    by blast
  with run2 have sum2: "(\<Sum>(k, ep)\<leftarrow>enumerate 0 [JStr ''a'', JStr ''t'', JStr ''a'', JStr ''b''].
         case ?net k ''http://localhost:8004/api'' ep of
           Response code data \<Rightarrow>
             if code = 200
                \<and> is_valid (validate_microservice_data (local_now ?rt) ''cash-flow'' ep data)
             then int (length (transform_microservice_data ?rt ''cash-flow'' ep data)) else 0
         | _ \<Rightarrow> 0) = 10"
    by simp
  from sum1 have sum1': "(\<Sum>(k, ep)\<leftarrow>enumerate 0 [JStr ''a'', JStr ''b'', JStr ''c''].
         case ?net k ''http://localhost:8004/api'' ep of
           Response code data \<Rightarrow>
             if code = 200
                \<and> is_valid (validate_microservice_data 63871372800000000 ''cash-flow'' ep data)
             then int (length (transform_microservice_data
                ?rt
                ''cash-flow'' ep data)) else 0
         | _ \<Rightarrow> 0) = 5"
    by simp
  from sum2 have sum2': "(\<Sum>(k, ep)\<leftarrow>enumerate 0 [JStr ''a'', JStr ''t'', JStr ''a'', JStr ''b''].
         case ?net k ''http://localhost:8004/api'' ep of
           Response code data \<Rightarrow>
             if code = 200
                \<and> is_valid (validate_microservice_data 63871372800000000 ''cash-flow'' ep data)
             then int (length (transform_microservice_data
                ?rt
                ''cash-flow'' ep data)) else 0
         | _ \<Rightarrow> 0) = 10"
    by simp
  from run1 sum1' run2 sum2' run3 show ?thesis by (intro conjI)
qed

subsection \<open>Submitting a job\<close>

lemma submit_simp:
  "submit S job_id = (\<lparr>handle_status = ''started'', handle_job_id = job_id\<rparr>,
                      \<lparr>store = store S, threads = threads S @ [Started job_id]\<rparr>)"
  by (simp add: submit_def execute_etl_job_def)

lemma run_job_steps:
  assumes "etl_jobs db job_id = Some job"
  shows "run_job rt net ts job_id db
           = finish_job rt net ts job_id job (mark_running ts job_id job db)"
  using assms
  by (simp add: run_job_def finish_job_def mark_running_def split: sum.splits prod.splits)

lemma lone_thread_states:
  assumes "etl_jobs db job_id = Some job"
    and "S \<in> {\<lparr>store = db, threads = [Started job_id]\<rparr>,
            \<lparr>store = mark_running ts job_id job db, threads = [Marked job_id job]\<rparr>,
            \<lparr>store = run_job rt net ts job_id db, threads = []\<rparr>}"
  shows "snd (run_events rt net ts (map Thread_step ks) S) \<in>
           {\<lparr>store = db, threads = [Started job_id]\<rparr>,
            \<lparr>store = mark_running ts job_id job db, threads = [Marked job_id job]\<rparr>,
            \<lparr>store = run_job rt net ts job_id db, threads = []\<rparr>}"
  using assms(2)
proof (induction ks arbitrary: S)
  case Nil
  then show ?case by simp
next
  case (Cons k ks)
  have "thread_step rt net ts k S \<in>
           {\<lparr>store = db, threads = [Started job_id]\<rparr>,
            \<lparr>store = mark_running ts job_id job db, threads = [Marked job_id job]\<rparr>,
            \<lparr>store = run_job rt net ts job_id db, threads = []\<rparr>}"
    using Cons.prems assms(1) run_job_steps[OF assms(1), of rt net ts]
    by (auto simp: thread_step_def begin_job_def)
  from Cons.IH[OF this] show ?case by simp
qed

lemma missing_jobs_no_change:
  assumes "\<forall>t \<in> set (threads S). \<exists>j. t = Started j \<and> etl_jobs (store S) j = None"
    and "\<forall>j. Submit j \<in> set es \<longrightarrow> etl_jobs (store S) j = None"
  shows "store (snd (run_events rt net ts es S)) = store S
       \<and> (\<forall>h \<in> set (fst (run_events rt net ts es S)). handle_status h = ''started'')"
  using assms
proof (induction es arbitrary: S)
  case Nil
  then show ?case by simp
next
  case (Cons e es)
  show ?case
  proof (cases e)
    case (Submit j)
    let ?S' = "\<lparr>store = store S, threads = threads S @ [Started j]\<rparr>"
    from Cons.prems Submit have a: "\<forall>t \<in> set (threads ?S'). \<exists>j. t = Started j \<and> etl_jobs (store ?S') j = None"
      by auto
    from Cons.prems have b: "\<forall>j. Submit j \<in> set es \<longrightarrow> etl_jobs (store ?S') j = None"
      by auto
    from Cons.IH[OF a b] show ?thesis
      by (auto simp: Submit submit_simp split: prod.splits)
  next
    case (Thread_step k)
    let ?S' = "thread_step rt net ts k S"
    have c: "store ?S' = store S \<and> set (threads ?S') \<subseteq> set (threads S)"
    proof (cases "k < length (threads S)")
      case True
      with Cons.prems(1) obtain j where j: "threads S ! k = Started j" "etl_jobs (store S) j = None"
        using nth_mem by blast
      with True show ?thesis
        by (auto simp: thread_step_def begin_job_def dest: in_set_takeD in_set_dropD)
    next
      case False
      then show ?thesis by (simp add: thread_step_def)
    qed
    with Cons.prems have a: "\<forall>t \<in> set (threads ?S'). \<exists>j. t = Started j \<and> etl_jobs (store ?S') j = None"
      by auto
    from Cons.prems c have b: "\<forall>j. Submit j \<in> set es \<longrightarrow> etl_jobs (store ?S') j = None"
      by auto
    from Cons.IH[OF a b] c show ?thesis
      by (simp add: Thread_step)
  qed
qed

text \<open>
  C4 (as stated): \<^verbatim>\<open>execute_etl_job\<close> with a job id that does not exist returns an error.
  It does not: with no job in the database the call returns the handle
  \<^verbatim>\<open>{'status': 'started', 'job_id': 7}\<close>.
\<close>

theorem submit_job_counterexample:
  "fst (execute_etl_job \<lparr>etl_jobs = Map.empty, data_sources = Map.empty\<rparr> 7)
     = \<lparr>handle_status = ''started'', handle_job_id = 7\<rparr>"
  by (simp add: execute_etl_job_def)

text \<open>
  C4 (amended): \<^verbatim>\<open>execute_etl_job\<close> returns \<^verbatim>\<open>{'status': 'started', 'job_id': id}\<close> for
  every job id, whether the job exists or not, and writes nothing itself; it only starts
  the thread.
  \<^item> Jobs that do not exist: under every schedule of submissions of such jobs and of
    steps of their threads the database stays as it was, and every handle says
    \<^verbatim>\<open>started\<close>; no error reaches a caller.
  \<^item> A job that exists: its thread first commits \<^verbatim>\<open>running\<close> with the start time, and
    runs the extraction in its second step, which commits \<^verbatim>\<open>completed\<close> or \<^verbatim>\<open>failed\<close>
    and leaves the database as \<^verbatim>\<open>run_job\<close> gives it. Whatever the schedule of a lone
    thread, the system is in one of these three states.
  \<^item> The move to \<^verbatim>\<open>running\<close> is not part of the call: a second submission that comes
    before the first step of the thread finds the job as it was, and one that comes after
    it finds the job \<^verbatim>\<open>running\<close>.
\<close>

theorem submit_job_starts_thread:
  "execute_etl_job db job_id = (\<lparr>handle_status = ''started'', handle_job_id = job_id\<rparr>, db, [job_id])
   \<and> submit S job_id
     = (\<lparr>handle_status = ''started'', handle_job_id = job_id\<rparr>,
        \<lparr>store = store S, threads = threads S @ [Started job_id]\<rparr>)
   \<and> (etl_jobs db job_id = None \<longrightarrow> run_job rt net ts job_id db = db)
   \<and> ((\<forall>t \<in> set (threads S). \<exists>j. t = Started j \<and> etl_jobs (store S) j = None)
       \<and> (\<forall>j. Submit j \<in> set es \<longrightarrow> etl_jobs (store S) j = None)
      \<longrightarrow> store (snd (run_events rt net ts es S)) = store S
        \<and> (\<forall>h \<in> set (fst (run_events rt net ts es S)). handle_status h = ''started''))
   \<and> (etl_jobs db job_id = Some job \<longrightarrow>
        run_events rt net ts [Submit job_id] \<lparr>store = db, threads = []\<rparr>
          = ([\<lparr>handle_status = ''started'', handle_job_id = job_id\<rparr>], \<lparr>store = db, threads = [Started job_id]\<rparr>)
      \<and> run_events rt net ts [Submit job_id, Thread_step 0] \<lparr>store = db, threads = []\<rparr>
          = ([\<lparr>handle_status = ''started'', handle_job_id = job_id\<rparr>],
             \<lparr>store = mark_running ts job_id job db, threads = [Marked job_id job]\<rparr>)
      \<and> etl_jobs (mark_running ts job_id job db) job_id
          = Some (job\<lparr>job_status := ''running'', start_time := Some (at_start ts)\<rparr>)
      \<and> run_events rt net ts [Submit job_id, Thread_step 0, Thread_step 0] \<lparr>store = db, threads = []\<rparr>
          = ([\<lparr>handle_status = ''started'', handle_job_id = job_id\<rparr>],
             \<lparr>store = run_job rt net ts job_id db, threads = []\<rparr>)
      \<and> snd (run_events rt net ts (Submit job_id # map Thread_step ks) \<lparr>store = db, threads = []\<rparr>)
          \<in> {\<lparr>store = db, threads = [Started job_id]\<rparr>,
               \<lparr>store = mark_running ts job_id job db, threads = [Marked job_id job]\<rparr>,
               \<lparr>store = run_job rt net ts job_id db, threads = []\<rparr>}
      \<and> (\<exists>job'. etl_jobs (run_job rt net ts job_id db) job_id = Some job'
              \<and> (job_status job' = ''completed'' \<or> job_status job' = ''failed'')
              \<and> start_time job' = Some (at_start ts))
      \<and> run_events rt net ts [Submit job_id, Submit job_id] \<lparr>store = db, threads = []\<rparr>
          = ([\<lparr>handle_status = ''started'', handle_job_id = job_id\<rparr>, \<lparr>handle_status = ''started'', handle_job_id = job_id\<rparr>],
             \<lparr>store = db, threads = [Started job_id, Started job_id]\<rparr>)
      \<and> run_events rt net ts [Submit job_id, Thread_step 0, Submit job_id] \<lparr>store = db, threads = []\<rparr>
          = ([\<lparr>handle_status = ''started'', handle_job_id = job_id\<rparr>, \<lparr>handle_status = ''started'', handle_job_id = job_id\<rparr>],
             \<lparr>store = mark_running ts job_id job db,
              threads = [Marked job_id job, Started job_id]\<rparr>))"
proof -
  have a1: "execute_etl_job db job_id = (\<lparr>handle_status = ''started'', handle_job_id = job_id\<rparr>, db, [job_id])"
    by (simp add: execute_etl_job_def)
  have a2: "submit S job_id
     = (\<lparr>handle_status = ''started'', handle_job_id = job_id\<rparr>,
        \<lparr>store = store S, threads = threads S @ [Started job_id]\<rparr>)"
    by (rule submit_simp)
  have b0: "etl_jobs db job_id = None \<longrightarrow> run_job rt net ts job_id db = db"
    by (simp add: run_job_def)
  have b: "(\<forall>t \<in> set (threads S). \<exists>j. t = Started j \<and> etl_jobs (store S) j = None)
       \<and> (\<forall>j. Submit j \<in> set es \<longrightarrow> etl_jobs (store S) j = None)
      \<longrightarrow> store (snd (run_events rt net ts es S)) = store S
        \<and> (\<forall>h \<in> set (fst (run_events rt net ts es S)). handle_status h = ''started'')"
    using missing_jobs_no_change[of S es rt net ts] by blast
  have c: "run_events rt net ts [Submit job_id] \<lparr>store = db, threads = []\<rparr>
          = ([\<lparr>handle_status = ''started'', handle_job_id = job_id\<rparr>], \<lparr>store = db, threads = [Started job_id]\<rparr>)
      \<and> run_events rt net ts [Submit job_id, Thread_step 0] \<lparr>store = db, threads = []\<rparr>
          = ([\<lparr>handle_status = ''started'', handle_job_id = job_id\<rparr>],
             \<lparr>store = mark_running ts job_id job db, threads = [Marked job_id job]\<rparr>)
      \<and> etl_jobs (mark_running ts job_id job db) job_id
          = Some (job\<lparr>job_status := ''running'', start_time := Some (at_start ts)\<rparr>)
      \<and> run_events rt net ts [Submit job_id, Thread_step 0, Thread_step 0] \<lparr>store = db, threads = []\<rparr>
          = ([\<lparr>handle_status = ''started'', handle_job_id = job_id\<rparr>],
             \<lparr>store = run_job rt net ts job_id db, threads = []\<rparr>)
      \<and> snd (run_events rt net ts (Submit job_id # map Thread_step ks) \<lparr>store = db, threads = []\<rparr>)
          \<in> {\<lparr>store = db, threads = [Started job_id]\<rparr>,
               \<lparr>store = mark_running ts job_id job db, threads = [Marked job_id job]\<rparr>,
               \<lparr>store = run_job rt net ts job_id db, threads = []\<rparr>}
      \<and> (\<exists>job'. etl_jobs (run_job rt net ts job_id db) job_id = Some job'
              \<and> (job_status job' = ''completed'' \<or> job_status job' = ''failed'')
              \<and> start_time job' = Some (at_start ts))
      \<and> run_events rt net ts [Submit job_id, Submit job_id] \<lparr>store = db, threads = []\<rparr>
          = ([\<lparr>handle_status = ''started'', handle_job_id = job_id\<rparr>, \<lparr>handle_status = ''started'', handle_job_id = job_id\<rparr>],
             \<lparr>store = db, threads = [Started job_id, Started job_id]\<rparr>)
      \<and> run_events rt net ts [Submit job_id, Thread_step 0, Submit job_id] \<lparr>store = db, threads = []\<rparr>
          = ([\<lparr>handle_status = ''started'', handle_job_id = job_id\<rparr>, \<lparr>handle_status = ''started'', handle_job_id = job_id\<rparr>],
             \<lparr>store = mark_running ts job_id job db,
              threads = [Marked job_id job, Started job_id]\<rparr>)"
    if j: "etl_jobs db job_id = Some job"
  proof -
    have c1: "run_events rt net ts [Submit job_id] \<lparr>store = db, threads = []\<rparr>
          = ([\<lparr>handle_status = ''started'', handle_job_id = job_id\<rparr>], \<lparr>store = db, threads = [Started job_id]\<rparr>)"
      by (simp add: submit_simp)
    have c2: "run_events rt net ts [Submit job_id, Thread_step 0] \<lparr>store = db, threads = []\<rparr>
          = ([\<lparr>handle_status = ''started'', handle_job_id = job_id\<rparr>],
             \<lparr>store = mark_running ts job_id job db, threads = [Marked job_id job]\<rparr>)"
      using j by (simp add: submit_simp thread_step_def begin_job_def)
    have c3: "etl_jobs (mark_running ts job_id job db) job_id
          = Some (job\<lparr>job_status := ''running'', start_time := Some (at_start ts)\<rparr>)"
      by (simp add: mark_running_def)
    have c4: "run_events rt net ts [Submit job_id, Thread_step 0, Thread_step 0] \<lparr>store = db, threads = []\<rparr>
          = ([\<lparr>handle_status = ''started'', handle_job_id = job_id\<rparr>],
             \<lparr>store = run_job rt net ts job_id db, threads = []\<rparr>)"
      using j run_job_steps[OF j, of rt net ts]
      by (simp add: submit_simp thread_step_def begin_job_def)
    have c5: "snd (run_events rt net ts (Submit job_id # map Thread_step ks) \<lparr>store = db, threads = []\<rparr>)
          \<in> {\<lparr>store = db, threads = [Started job_id]\<rparr>,
               \<lparr>store = mark_running ts job_id job db, threads = [Marked job_id job]\<rparr>,
               \<lparr>store = run_job rt net ts job_id db, threads = []\<rparr>}"
      using lone_thread_states[OF j, of "\<lparr>store = db, threads = [Started job_id]\<rparr>" ts rt net ks]
      by (auto simp: submit_simp split: prod.splits)
    have c6: "(\<exists>job'. etl_jobs (run_job rt net ts job_id db) job_id = Some job'
              \<and> (job_status job' = ''completed'' \<or> job_status job' = ''failed'')
              \<and> start_time job' = Some (at_start ts))"
      using run_job_status[OF j, of rt net ts] by auto
    have c7: "run_events rt net ts [Submit job_id, Submit job_id] \<lparr>store = db, threads = []\<rparr>
          = ([\<lparr>handle_status = ''started'', handle_job_id = job_id\<rparr>, \<lparr>handle_status = ''started'', handle_job_id = job_id\<rparr>],
             \<lparr>store = db, threads = [Started job_id, Started job_id]\<rparr>)"
      by (simp add: submit_simp)
    have c8: "run_events rt net ts [Submit job_id, Thread_step 0, Submit job_id] \<lparr>store = db, threads = []\<rparr>
          = ([\<lparr>handle_status = ''started'', handle_job_id = job_id\<rparr>, \<lparr>handle_status = ''started'', handle_job_id = job_id\<rparr>],
             \<lparr>store = mark_running ts job_id job db,
              threads = [Marked job_id job, Started job_id]\<rparr>)"
      using j by (simp add: submit_simp thread_step_def begin_job_def)
    from c1 c2 c3 c4 c5 c6 c7 c8 show ?thesis by (intro conjI)
  qed
  show ?thesis
    apply (intro conjI)
        apply (rule a1)
       apply (rule a2)
      apply (rule b0)
     apply (rule b)
    apply (rule impI)
    apply (erule c)
    done
qed

theorem submit_job_starts_thread_witness:
  "store (snd (run_events
        \<lparr>local_now = 63871372800000000, utcnow_isoformat = ''2025-01-01T00:00:00'',
         json_dumps_sorted = (\<lambda>r. ''{}''), str_hash = (\<lambda>s. 42)\<rparr>
        (\<lambda>i base_url ep. Request_exception) \<lparr>at_start = 100, at_end = 200, at_sync = 201\<rparr>
        [Submit 7, Thread_step 0, Submit 7, Thread_step 0]
        \<lparr>store = \<lparr>etl_jobs = [1 \<mapsto> \<lparr>data_source_id = 10, job_status = ''pending'', job_records_processed = 0,
                           job_records_failed = 0, start_time = None, end_time = None,
                           error_message = None, job_metadata = None\<rparr>],
          data_sources = [10 \<mapsto> \<lparr>source_type = ''ftp'', connection_string = Inr (JObj []), last_sync = None\<rparr>]\<rparr>, threads = []\<rparr>))
     = \<lparr>etl_jobs = [1 \<mapsto> \<lparr>data_source_id = 10, job_status = ''pending'', job_records_processed = 0,
                           job_records_failed = 0, start_time = None, end_time = None,
                           error_message = None, job_metadata = None\<rparr>],
          data_sources = [10 \<mapsto> \<lparr>source_type = ''ftp'', connection_string = Inr (JObj []), last_sync = None\<rparr>]\<rparr>
   \<and> fst (run_events
        \<lparr>local_now = 63871372800000000, utcnow_isoformat = ''2025-01-01T00:00:00'',
         json_dumps_sorted = (\<lambda>r. ''{}''), str_hash = (\<lambda>s. 42)\<rparr>
        (\<lambda>i base_url ep. Request_exception) \<lparr>at_start = 100, at_end = 200, at_sync = 201\<rparr>
        [Submit 7, Thread_step 0, Submit 7, Thread_step 0]
        \<lparr>store = \<lparr>etl_jobs = [1 \<mapsto> \<lparr>data_source_id = 10, job_status = ''pending'', job_records_processed = 0,
                           job_records_failed = 0, start_time = None, end_time = None,
                           error_message = None, job_metadata = None\<rparr>],
          data_sources = [10 \<mapsto> \<lparr>source_type = ''ftp'', connection_string = Inr (JObj []), last_sync = None\<rparr>]\<rparr>, threads = []\<rparr>)
     = [\<lparr>handle_status = ''started'', handle_job_id = 7\<rparr>,
        \<lparr>handle_status = ''started'', handle_job_id = 7\<rparr>]
   \<and> fst (run_events
        \<lparr>local_now = 63871372800000000, utcnow_isoformat = ''2025-01-01T00:00:00'',
         json_dumps_sorted = (\<lambda>r. ''{}''), str_hash = (\<lambda>s. 42)\<rparr>
        (\<lambda>i base_url ep. Request_exception) \<lparr>at_start = 100, at_end = 200, at_sync = 201\<rparr>
        [Submit 1, Submit 1]
        \<lparr>store = \<lparr>etl_jobs = [1 \<mapsto> \<lparr>data_source_id = 10, job_status = ''pending'', job_records_processed = 0,
                           job_records_failed = 0, start_time = None, end_time = None,
                           error_message = None, job_metadata = None\<rparr>],
          data_sources = [10 \<mapsto> \<lparr>source_type = ''ftp'', connection_string = Inr (JObj []), last_sync = None\<rparr>]\<rparr>, threads = []\<rparr>)
     = [\<lparr>handle_status = ''started'', handle_job_id = 1\<rparr>,
        \<lparr>handle_status = ''started'', handle_job_id = 1\<rparr>]
   \<and> etl_jobs (store (snd (run_events
        \<lparr>local_now = 63871372800000000, utcnow_isoformat = ''2025-01-01T00:00:00'',
         json_dumps_sorted = (\<lambda>r. ''{}''), str_hash = (\<lambda>s. 42)\<rparr>
        (\<lambda>i base_url ep. Request_exception) \<lparr>at_start = 100, at_end = 200, at_sync = 201\<rparr>
        [Submit 1, Submit 1]
        \<lparr>store = \<lparr>etl_jobs = [1 \<mapsto> \<lparr>data_source_id = 10, job_status = ''pending'', job_records_processed = 0,
                           job_records_failed = 0, start_time = None, end_time = None,
                           error_message = None, job_metadata = None\<rparr>],
          data_sources = [10 \<mapsto> \<lparr>source_type = ''ftp'', connection_string = Inr (JObj []), last_sync = None\<rparr>]\<rparr>, threads = []\<rparr>))) 1
     = Some \<lparr>data_source_id = 10, job_status = ''pending'', job_records_processed = 0,
                           job_records_failed = 0, start_time = None, end_time = None,
                           error_message = None, job_metadata = None\<rparr>
   \<and> etl_jobs (store (snd (run_events
        \<lparr>local_now = 63871372800000000, utcnow_isoformat = ''2025-01-01T00:00:00'',
         json_dumps_sorted = (\<lambda>r. ''{}''), str_hash = (\<lambda>s. 42)\<rparr>
        (\<lambda>i base_url ep. Request_exception) \<lparr>at_start = 100, at_end = 200, at_sync = 201\<rparr>
        [Submit 1, Thread_step 0, Submit 1]
        \<lparr>store = \<lparr>etl_jobs = [1 \<mapsto> \<lparr>data_source_id = 10, job_status = ''pending'', job_records_processed = 0,
                           job_records_failed = 0, start_time = None, end_time = None,
                           error_message = None, job_metadata = None\<rparr>],
          data_sources = [10 \<mapsto> \<lparr>source_type = ''ftp'', connection_string = Inr (JObj []), last_sync = None\<rparr>]\<rparr>, threads = []\<rparr>))) 1
     = Some \<lparr>data_source_id = 10, job_status = ''running'', job_records_processed = 0,
                job_records_failed = 0, start_time = Some 100, end_time = None,
                error_message = None, job_metadata = None\<rparr>
   \<and> etl_jobs (store (snd (run_events
        \<lparr>local_now = 63871372800000000, utcnow_isoformat = ''2025-01-01T00:00:00'',
         json_dumps_sorted = (\<lambda>r. ''{}''), str_hash = (\<lambda>s. 42)\<rparr>
        (\<lambda>i base_url ep. Request_exception) \<lparr>at_start = 100, at_end = 200, at_sync = 201\<rparr>
        [Submit 1, Thread_step 0, Thread_step 0]
        \<lparr>store = \<lparr>etl_jobs = [1 \<mapsto> \<lparr>data_source_id = 10, job_status = ''pending'', job_records_processed = 0,
                           job_records_failed = 0, start_time = None, end_time = None,
                           error_message = None, job_metadata = None\<rparr>],
          data_sources = [10 \<mapsto> \<lparr>source_type = ''ftp'', connection_string = Inr (JObj []), last_sync = None\<rparr>]\<rparr>, threads = []\<rparr>))) 1
     = Some \<lparr>data_source_id = 10, job_status = ''failed'', job_records_processed = 0,
            job_records_failed = 0, start_time = Some 100, end_time = Some 200,
            error_message = Some (Unsupported_source_type ''ftp''),
            job_metadata = None\<rparr>"
proof -
  let ?rt = "\<lparr>local_now = 63871372800000000, utcnow_isoformat = ''2025-01-01T00:00:00'',
         json_dumps_sorted = (\<lambda>r. ''{}''), str_hash = (\<lambda>s. 42)\<rparr>"
  let ?net = "(\<lambda>i base_url ep. Request_exception)"
  let ?ts = "\<lparr>at_start = 100, at_end = 200, at_sync = 201\<rparr>"
  let ?job = "\<lparr>data_source_id = 10, job_status = ''pending'', job_records_processed = 0,
                           job_records_failed = 0, start_time = None, end_time = None,
                           error_message = None, job_metadata = None\<rparr>"
  let ?db = "\<lparr>etl_jobs = [1 \<mapsto> ?job],
          data_sources = [10 \<mapsto> \<lparr>source_type = ''ftp'', connection_string = Inr (JObj []), last_sync = None\<rparr>]\<rparr>"
  let ?S = "\<lparr>store = ?db, threads = []\<rparr>"
  let ?es = "[Submit 7, Thread_step 0, Submit 7, Thread_step 0]"
  have h1: "(\<forall>t \<in> set (threads ?S). \<exists>j. t = Started j \<and> etl_jobs (store ?S) j = None)
       \<and> (\<forall>j. Submit j \<in> set ?es \<longrightarrow> etl_jobs (store ?S) j = None)"
    by simp
  have h2: "etl_jobs ?db 1 = Some ?job"
    by simp
  have run: "etl_jobs (run_job ?rt ?net ?ts 1 ?db) 1
     = Some \<lparr>data_source_id = 10, job_status = ''failed'', job_records_processed = 0,
            job_records_failed = 0, start_time = Some 100, end_time = Some 200,
            error_message = Some (Unsupported_source_type ''ftp''),
            job_metadata = None\<rparr>"
    by code_simp
  have hs: "fst (run_events ?rt ?net ?ts ?es ?S)
     = [\<lparr>handle_status = ''started'', handle_job_id = 7\<rparr>,
        \<lparr>handle_status = ''started'', handle_job_id = 7\<rparr>]"
    by (simp add: submit_def execute_etl_job_def thread_step_def begin_job_def)
  note T = submit_job_starts_thread[where db="?db" and job_id=1 and job="?job" and S="?S"
      and es="?es" and rt="?rt" and net="?net" and ts="?ts"]
  from T h1 have a: "store (snd (run_events ?rt ?net ?ts ?es ?S)) = ?db"
    by simp
  from T h2 have b: "run_events ?rt ?net ?ts [Submit 1, Submit 1] ?S
          = ([\<lparr>handle_status = ''started'', handle_job_id = 1\<rparr>,
              \<lparr>handle_status = ''started'', handle_job_id = 1\<rparr>],
             \<lparr>store = ?db, threads = [Started 1, Started 1]\<rparr>)"
    by blast
  from T h2 have c: "run_events ?rt ?net ?ts [Submit 1, Thread_step 0, Submit 1] ?S
          = ([\<lparr>handle_status = ''started'', handle_job_id = 1\<rparr>,
              \<lparr>handle_status = ''started'', handle_job_id = 1\<rparr>],
             \<lparr>store = mark_running ?ts 1 ?job ?db, threads = [Marked 1 ?job, Started 1]\<rparr>)"
    by blast
  from T h2 have d: "run_events ?rt ?net ?ts [Submit 1, Thread_step 0, Thread_step 0] ?S
          = ([\<lparr>handle_status = ''started'', handle_job_id = 1\<rparr>],
             \<lparr>store = run_job ?rt ?net ?ts 1 ?db, threads = []\<rparr>)"
    by blast
  have w1: "store (snd (run_events
        ?rt
        ?net ?ts
        [Submit 7, Thread_step 0, Submit 7, Thread_step 0]
        \<lparr>store = ?db, threads = []\<rparr>))
     = ?db"
    by (rule a)
  have w2: "fst (run_events
        ?rt
        ?net ?ts
        [Submit 7, Thread_step 0, Submit 7, Thread_step 0]
        \<lparr>store = ?db, threads = []\<rparr>)
     = [\<lparr>handle_status = ''started'', handle_job_id = 7\<rparr>,
        \<lparr>handle_status = ''started'', handle_job_id = 7\<rparr>]"
    by (rule hs)
  have w3: "fst (run_events
        ?rt
        ?net ?ts
        [Submit 1, Submit 1]
        \<lparr>store = ?db, threads = []\<rparr>)
     = [\<lparr>handle_status = ''started'', handle_job_id = 1\<rparr>,
        \<lparr>handle_status = ''started'', handle_job_id = 1\<rparr>]"
    unfolding b by simp
  have w4: "etl_jobs (store (snd (run_events
        ?rt
        ?net ?ts
        [Submit 1, Submit 1]
        \<lparr>store = ?db, threads = []\<rparr>))) 1
     = Some ?job"
    unfolding b by simp
  have w5: "etl_jobs (store (snd (run_events
        ?rt
        ?net ?ts
        [Submit 1, Thread_step 0, Submit 1]
        \<lparr>store = ?db, threads = []\<rparr>))) 1
     = Some \<lparr>data_source_id = 10, job_status = ''running'', job_records_processed = 0,
                job_records_failed = 0, start_time = Some 100, end_time = None,
                error_message = None, job_metadata = None\<rparr>"
    unfolding c by (simp add: mark_running_def)
  have w6: "etl_jobs (store (snd (run_events
        ?rt
        ?net ?ts
        [Submit 1, Thread_step 0, Thread_step 0]
        \<lparr>store = ?db, threads = []\<rparr>))) 1
     = Some \<lparr>data_source_id = 10, job_status = ''failed'', job_records_processed = 0,
            job_records_failed = 0, start_time = Some 100, end_time = Some 200,
            error_message = Some (Unsupported_source_type ''ftp''),
            job_metadata = None\<rparr>"
    unfolding d using run by simp
  from w1 w2 w3 w4 w5 w6 show ?thesis by (intro conjI)
qed

end
